theory Spec2Isabelle
  imports
    Complex_Main
    "HOL-Library.Word"
    "HOL-Library.Char_ord"
    "HOL-Library.List_Lexorder"
begin

unbundle bit_operations_syntax

section \<open>Errors\<close>

text \<open>
  Every \<^verbatim>\<open>throw\<close> and every rejected promise of the source is a value of this type.
  \<open>NotInitialized\<close> is \<^verbatim>\<open>new Error('Database not initialized')\<close>, \<open>SqlConstraint\<close> an
  insert that SQLite refuses, \<open>FsError\<close> a failed \<^verbatim>\<open>readFile\<close> or \<^verbatim>\<open>stat\<close>, \<open>TypeError\<close> a
  method call on \<^verbatim>\<open>null\<close> or \<^verbatim>\<open>undefined\<close>, \<open>SyntaxError\<close> a pattern that \<^verbatim>\<open>new RegExp\<close>
  refuses.
\<close>

datatype error = NotInitialized | SqlConstraint | FsError | TypeError | SyntaxError

definition bind_e :: "error + 'a \<Rightarrow> ('a \<Rightarrow> error + 'b) \<Rightarrow> error + 'b" where
  "bind_e r f = (case r of Inl e \<Rightarrow> Inl e | Inr x \<Rightarrow> f x)"

section \<open>Numbers\<close>

text \<open>
  A JavaScript \<^verbatim>\<open>number\<close> that the source computes with (a component of a
  \<^verbatim>\<open>Float32Array\<close>, a score, a threshold, a limit) is a real number or one of the three
  values that are not: the two infinities and \<^verbatim>\<open>NaN\<close>. The arithmetic on the real numbers
  is the exact one: rounding and the sign of zero are not modelled.
\<close>

datatype number = Fin real | PosInf | NegInf | NaN

fun js_neg :: "number \<Rightarrow> number" where
  "js_neg (Fin x) = Fin (- x)"
| "js_neg PosInf = NegInf"
| "js_neg NegInf = PosInf"
| "js_neg NaN = NaN"

fun js_add :: "number \<Rightarrow> number \<Rightarrow> number" where
  "js_add (Fin x) (Fin y) = Fin (x + y)"
| "js_add NaN y = NaN"
| "js_add x NaN = NaN"
| "js_add PosInf NegInf = NaN"
| "js_add NegInf PosInf = NaN"
| "js_add PosInf y = PosInf"
| "js_add x PosInf = PosInf"
| "js_add NegInf y = NegInf"
| "js_add x NegInf = NegInf"

definition js_sub :: "number \<Rightarrow> number \<Rightarrow> number" where
  "js_sub x y = js_add x (js_neg y)"

fun js_mul :: "number \<Rightarrow> number \<Rightarrow> number" where
  "js_mul (Fin x) (Fin y) = Fin (x * y)"
| "js_mul NaN y = NaN"
| "js_mul x NaN = NaN"
| "js_mul (Fin x) PosInf = (if x = 0 then NaN else if x > 0 then PosInf else NegInf)"
| "js_mul (Fin x) NegInf = (if x = 0 then NaN else if x > 0 then NegInf else PosInf)"
| "js_mul PosInf (Fin y) = (if y = 0 then NaN else if y > 0 then PosInf else NegInf)"
| "js_mul NegInf (Fin y) = (if y = 0 then NaN else if y > 0 then NegInf else PosInf)"
| "js_mul PosInf PosInf = PosInf"
| "js_mul PosInf NegInf = NegInf"
| "js_mul NegInf PosInf = NegInf"
| "js_mul NegInf NegInf = PosInf"

fun js_div :: "number \<Rightarrow> number \<Rightarrow> number" where
  "js_div (Fin x) (Fin y) =
     (if y = 0 then (if x = 0 then NaN else if x > 0 then PosInf else NegInf) else Fin (x / y))"
| "js_div NaN y = NaN"
| "js_div x NaN = NaN"
| "js_div (Fin x) PosInf = Fin 0"
| "js_div (Fin x) NegInf = Fin 0"
| "js_div PosInf (Fin y) = (if y \<ge> 0 then PosInf else NegInf)"
| "js_div NegInf (Fin y) = (if y \<ge> 0 then NegInf else PosInf)"
| "js_div PosInf PosInf = NaN"
| "js_div PosInf NegInf = NaN"
| "js_div NegInf PosInf = NaN"
| "js_div NegInf NegInf = NaN"

fun js_sqrt :: "number \<Rightarrow> number" where
  "js_sqrt (Fin x) = (if x < 0 then NaN else Fin (sqrt x))"
| "js_sqrt PosInf = PosInf"
| "js_sqrt NegInf = NaN"
| "js_sqrt NaN = NaN"

text \<open>\<^verbatim>\<open>x >= y\<close>: false when one of the two is \<^verbatim>\<open>NaN\<close>.\<close>

fun js_ge :: "number \<Rightarrow> number \<Rightarrow> bool" where
  "js_ge NaN y = False"
| "js_ge x NaN = False"
| "js_ge (Fin x) (Fin y) = (x \<ge> y)"
| "js_ge PosInf y = True"
| "js_ge x NegInf = True"
| "js_ge (Fin x) PosInf = False"
| "js_ge NegInf y = False"

text \<open>\<^verbatim>\<open>x > 0\<close>\<close>

fun js_positive :: "number \<Rightarrow> bool" where
  "js_positive (Fin x) = (x > 0)"
| "js_positive PosInf = True"
| "js_positive NegInf = False"
| "js_positive NaN = False"

text \<open>
  \<^verbatim>\<open>xs.slice(0, e)\<close> on an array: \<open>e\<close> is cut to an integer towards zero (\<^verbatim>\<open>NaN\<close> to 0),
  and a negative \<open>e\<close> counts from the end of the array.
\<close>

definition js_trunc :: "real \<Rightarrow> int" where
  "js_trunc x = (if x \<ge> 0 then \<lfloor>x\<rfloor> else \<lceil>x\<rceil>)"

definition array_slice_to :: "number \<Rightarrow> 'a list \<Rightarrow> 'a list" where
  "array_slice_to e xs =
     (case e of
        NaN \<Rightarrow> []
      | NegInf \<Rightarrow> []
      | PosInf \<Rightarrow> xs
      | Fin x \<Rightarrow>
          if js_trunc x < 0 then take (nat (int (length xs) + js_trunc x)) xs
          else take (nat (js_trunc x)) xs)"

text \<open>
  \<^verbatim>\<open>xs.sort(cmp)\<close> on an array: the sort is stable, and \<open>x\<close> goes behind \<open>y\<close> when
  \<^verbatim>\<open>cmp(x, y) > 0\<close>. For a comparator that orders the elements the result is the one of
  sorting by insertion.
\<close>

fun insert_by :: "('a \<Rightarrow> 'a \<Rightarrow> number) \<Rightarrow> 'a \<Rightarrow> 'a list \<Rightarrow> 'a list" where
  "insert_by cmp x [] = [x]"
| "insert_by cmp x (y # ys) =
     (if js_positive (cmp x y) then y # insert_by cmp x ys else x # y # ys)"

definition sort_by :: "('a \<Rightarrow> 'a \<Rightarrow> number) \<Rightarrow> 'a list \<Rightarrow> 'a list" where
  "sort_by cmp xs = foldr (insert_by cmp) xs []"

section \<open>The persistent store (DatabaseManager.ts)\<close>

text \<open>
  The four interfaces of the source. A \<^verbatim>\<open>Date\<close> is its number of milliseconds since the
  epoch; a \<^verbatim>\<open>number\<close> that holds an id, a line, a column or a size is a natural number;
  an optional field is an \<open>option\<close>; a \<^verbatim>\<open>Float32Array\<close> is the list of its components.
  The fields carry a letter in front of the source's name, since four records share names.
\<close>

record FileInput =
  f_path :: string
  f_content :: string
  f_hash :: string
  f_size :: nat
  f_language :: string
  f_lastModified :: int

record FileRecord = FileInput +
  f_id :: nat
  f_indexedAt :: int

datatype symbol_type = Function | Class | Variable | Interface | Type | Method | Property

record ParsedSymbol =
  s_name :: string
  s_type :: symbol_type
  s_startLine :: nat
  s_endLine :: nat
  s_startColumn :: nat
  s_endColumn :: nat
  s_definition :: string
  s_docstring :: "string option"
  s_modifiers :: "string list"

record SymbolInput = ParsedSymbol +
  s_fileId :: nat

record SymbolRecord = SymbolInput +
  s_id :: nat

datatype chunk_type = Code | Comment | Docstring

record Metadata =
  m_language :: string
  m_startLine :: nat
  m_endLine :: nat
  m_type :: chunk_type

record EmbeddingInput =
  e_fileId :: nat
  e_symbolId :: "nat option"
  e_chunkIndex :: nat
  e_content :: string
  e_embedding :: "number list"
  e_metadata :: Metadata

record EmbeddingRecord = EmbeddingInput +
  e_id :: nat

datatype import_type = Import | Require | Include

record ParsedDependency =
  d_importPath :: string
  d_importType :: import_type
  d_isExternal :: bool
  d_symbols :: "string list"

record DependencyInput = ParsedDependency +
  d_sourceFileId :: nat
  d_targetFileId :: "nat option"

record DependencyRecord = DependencyInput +
  d_id :: nat

text \<open>
  An open SQLite connection: the four tables of \<^verbatim>\<open>createTables\<close> in rowid order, the
  \<^verbatim>\<open>AUTOINCREMENT\<close> counters (the largest id each table has handed out, never reused) and
  the connection's \<^verbatim>\<open>foreign_keys\<close> setting. SQLite acts on a \<^verbatim>\<open>FOREIGN KEY\<close> clause, and so
  on \<^verbatim>\<open>ON DELETE CASCADE\<close>, only on a connection where \<^verbatim>\<open>PRAGMA foreign_keys = ON\<close> was
  run; a new connection has it off.
\<close>

record connection =
  files :: "FileRecord list"
  symbols :: "SymbolRecord list"
  embeddings :: "EmbeddingRecord list"
  dependencies :: "DependencyRecord list"
  files_seq :: nat
  symbols_seq :: nat
  embeddings_seq :: nat
  dependencies_seq :: nat
  foreign_keys :: bool

text \<open>The field \<^verbatim>\<open>db\<close> of the manager: \<^verbatim>\<open>null\<close> until \<^verbatim>\<open>initialize\<close> and after \<^verbatim>\<open>close\<close>.\<close>

type_synonym DatabaseManager = "connection option"

definition new_connection :: connection where
  "new_connection =
     \<lparr>files = [], symbols = [], embeddings = [], dependencies = [],
      files_seq = 0, symbols_seq = 0, embeddings_seq = 0, dependencies_seq = 0,
      foreign_keys = False\<rparr>"

text \<open>
  \<^verbatim>\<open>initialize\<close> on an empty data directory: \<^verbatim>\<open>new sqlite3.Database(dbPath)\<close>, then
  \<^verbatim>\<open>createTables\<close>. Neither runs a \<^verbatim>\<open>PRAGMA\<close>, so the connection keeps the setting it was
  opened with.
\<close>

definition initialize :: DatabaseManager where
  "initialize = Some new_connection"

definition file_exists :: "connection \<Rightarrow> nat \<Rightarrow> bool" where
  "file_exists c i = (\<exists>f \<in> set (files c). f_id f = i)"

definition symbol_exists :: "connection \<Rightarrow> nat \<Rightarrow> bool" where
  "symbol_exists c i = (\<exists>s \<in> set (symbols c). s_id s = i)"

subsection \<open>File operations\<close>

definition getFile :: "DatabaseManager \<Rightarrow> string \<Rightarrow> error + FileRecord option" where
  "getFile db p =
     (case db of
        None \<Rightarrow> Inl NotInitialized
      | Some c \<Rightarrow> Inr (find (\<lambda>f. f_path f = p) (files c)))"

definition getAllFiles :: "DatabaseManager \<Rightarrow> error + FileRecord list" where
  "getAllFiles db =
     (case db of
        None \<Rightarrow> Inl NotInitialized
      | Some c \<Rightarrow> Inr (sort_key f_path (files c)))"

text \<open>
  \<^verbatim>\<open>insertFile\<close>: the row of that path is updated in place and keeps its id, otherwise a
  row is added under the next id. \<open>now\<close> is SQLite's \<^verbatim>\<open>CURRENT_TIMESTAMP\<close> at the call.
\<close>

definition update_file :: "int \<Rightarrow> FileInput \<Rightarrow> FileRecord \<Rightarrow> FileRecord" where
  "update_file now file row =
     (if f_path row = f_path file
      then row\<lparr>f_content := f_content file, f_hash := f_hash file, f_size := f_size file,
               f_language := f_language file, f_lastModified := f_lastModified file,
               f_indexedAt := now\<rparr>
      else row)"

definition insertFile :: "DatabaseManager \<Rightarrow> int \<Rightarrow> FileInput \<Rightarrow> error + (nat \<times> DatabaseManager)" where
  "insertFile db now file =
     (case db of
        None \<Rightarrow> Inl NotInitialized
      | Some c \<Rightarrow>
          (case find (\<lambda>f. f_path f = f_path file) (files c) of
             Some row \<Rightarrow>
               Inr (f_id row, Some (c\<lparr>files := map (update_file now file) (files c)\<rparr>))
           | None \<Rightarrow>
               (let i = Suc (files_seq c) in
                Inr (i, Some (c\<lparr>files := files c @
                                  [FileInput.extend file \<lparr>f_id = i, f_indexedAt = now\<rparr>],
                                files_seq := i\<rparr>)))))"

text \<open>
  \<^verbatim>\<open>DELETE FROM files WHERE path = ?\<close>. With foreign keys enforced the delete cascades along
  the four \<^verbatim>\<open>ON DELETE CASCADE\<close> clauses of the schema: to the symbols of the file, to the
  embeddings of the file or of one of those symbols, and to the dependencies that have the
  file as source or as target. Without enforcement only the row of \<^verbatim>\<open>files\<close> goes.
\<close>

definition delete_files_where :: "(FileRecord \<Rightarrow> bool) \<Rightarrow> connection \<Rightarrow> connection" where
  "delete_files_where P c =
     (let gone_f = map f_id (filter P (files c));
          gone_s = map s_id (filter (\<lambda>s. s_fileId s \<in> set gone_f) (symbols c))
      in if foreign_keys c
         then c\<lparr>files := filter (\<lambda>f. \<not> P f) (files c),
                symbols := filter (\<lambda>s. s_fileId s \<notin> set gone_f) (symbols c),
                embeddings :=
                  filter (\<lambda>e. e_fileId e \<notin> set gone_f \<and>
                              (case e_symbolId e of None \<Rightarrow> True | Some i \<Rightarrow> i \<notin> set gone_s))
                    (embeddings c),
                dependencies :=
                  filter (\<lambda>d. d_sourceFileId d \<notin> set gone_f \<and>
                              (case d_targetFileId d of None \<Rightarrow> True | Some i \<Rightarrow> i \<notin> set gone_f))
                    (dependencies c)\<rparr>
         else c\<lparr>files := filter (\<lambda>f. \<not> P f) (files c)\<rparr>)"

definition deleteFile :: "DatabaseManager \<Rightarrow> string \<Rightarrow> error + DatabaseManager" where
  "deleteFile db p =
     (case db of
        None \<Rightarrow> Inl NotInitialized
      | Some c \<Rightarrow> Inr (Some (delete_files_where (\<lambda>f. f_path f = p) c)))"

subsection \<open>Symbol operations\<close>

text \<open>\<^verbatim>\<open>symbol.docstring || null\<close> stores an empty docstring as \<^verbatim>\<open>NULL\<close>.\<close>

definition text_or_null :: "string option \<Rightarrow> string option" where
  "text_or_null t = (case t of None \<Rightarrow> None | Some s \<Rightarrow> if s = [] then None else Some s)"

definition insertSymbol :: "DatabaseManager \<Rightarrow> SymbolInput \<Rightarrow> error + (nat \<times> DatabaseManager)" where
  "insertSymbol db symbol =
     (case db of
        None \<Rightarrow> Inl NotInitialized
      | Some c \<Rightarrow>
          if foreign_keys c \<and> \<not> file_exists c (s_fileId symbol) then Inl SqlConstraint
          else
            (let i = Suc (symbols_seq c) in
             Inr (i, Some (c\<lparr>symbols := symbols c @
                               [SymbolInput.extend
                                  (symbol\<lparr>s_docstring := text_or_null (s_docstring symbol)\<rparr>)
                                  \<lparr>s_id = i\<rparr>],
                             symbols_seq := i\<rparr>))))"

definition getSymbolsByFile :: "DatabaseManager \<Rightarrow> nat \<Rightarrow> error + SymbolRecord list" where
  "getSymbolsByFile db fileId =
     (case db of
        None \<Rightarrow> Inl NotInitialized
      | Some c \<Rightarrow> Inr (sort_key s_startLine (filter (\<lambda>s. s_fileId s = fileId) (symbols c))))"

text \<open>
  \<^verbatim>\<open>findSymbolsByName\<close> with no \<^verbatim>\<open>type\<close>, or with one; \<^verbatim>\<open>ORDER BY file_id, start_line\<close>.
\<close>

definition findSymbolsByName ::
  "DatabaseManager \<Rightarrow> string \<Rightarrow> symbol_type option \<Rightarrow> error + SymbolRecord list" where
  "findSymbolsByName db name ty =
     (case db of
        None \<Rightarrow> Inl NotInitialized
      | Some c \<Rightarrow>
          Inr (sort_key s_fileId (sort_key s_startLine
                 (filter (\<lambda>s. s_name s = name \<and> (case ty of None \<Rightarrow> True | Some t \<Rightarrow> s_type s = t))
                    (symbols c)))))"

definition delete_symbols_where :: "(SymbolRecord \<Rightarrow> bool) \<Rightarrow> connection \<Rightarrow> connection" where
  "delete_symbols_where P c =
     (let gone_s = map s_id (filter P (symbols c))
      in if foreign_keys c
         then c\<lparr>symbols := filter (\<lambda>s. \<not> P s) (symbols c),
                embeddings :=
                  filter (\<lambda>e. case e_symbolId e of None \<Rightarrow> True | Some i \<Rightarrow> i \<notin> set gone_s)
                    (embeddings c)\<rparr>
         else c\<lparr>symbols := filter (\<lambda>s. \<not> P s) (symbols c)\<rparr>)"

definition clearSymbolsByFile :: "DatabaseManager \<Rightarrow> nat \<Rightarrow> error + DatabaseManager" where
  "clearSymbolsByFile db fileId =
     (case db of
        None \<Rightarrow> Inl NotInitialized
      | Some c \<Rightarrow> Inr (Some (delete_symbols_where (\<lambda>s. s_fileId s = fileId) c)))"

subsection \<open>Embedding operations\<close>

text \<open>\<^verbatim>\<open>embedding.symbolId || null\<close> stores a symbol id of 0 as \<^verbatim>\<open>NULL\<close>.\<close>

definition or_null :: "nat option \<Rightarrow> nat option" where
  "or_null i = (case i of None \<Rightarrow> None | Some n \<Rightarrow> if n = 0 then None else Some n)"

definition insertEmbedding ::
  "DatabaseManager \<Rightarrow> EmbeddingInput \<Rightarrow> error + (nat \<times> DatabaseManager)" where
  "insertEmbedding db embedding =
     (case db of
        None \<Rightarrow> Inl NotInitialized
      | Some c \<Rightarrow>
          if foreign_keys c \<and>
             (\<not> file_exists c (e_fileId embedding) \<or>
              (case or_null (e_symbolId embedding) of
                 None \<Rightarrow> False | Some i \<Rightarrow> \<not> symbol_exists c i))
          then Inl SqlConstraint
          else
            (let i = Suc (embeddings_seq c) in
             Inr (i, Some (c\<lparr>embeddings := embeddings c @
                               [EmbeddingInput.extend
                                  (embedding\<lparr>e_symbolId := or_null (e_symbolId embedding)\<rparr>)
                                  \<lparr>e_id = i\<rparr>],
                             embeddings_seq := i\<rparr>))))"

definition getEmbeddingsByFile :: "DatabaseManager \<Rightarrow> nat \<Rightarrow> error + EmbeddingRecord list" where
  "getEmbeddingsByFile db fileId =
     (case db of
        None \<Rightarrow> Inl NotInitialized
      | Some c \<Rightarrow> Inr (sort_key e_chunkIndex (filter (\<lambda>e. e_fileId e = fileId) (embeddings c))))"

definition getAllEmbeddings :: "DatabaseManager \<Rightarrow> error + EmbeddingRecord list" where
  "getAllEmbeddings db =
     (case db of None \<Rightarrow> Inl NotInitialized | Some c \<Rightarrow> Inr (embeddings c))"

definition clearEmbeddingsByFile :: "DatabaseManager \<Rightarrow> nat \<Rightarrow> error + DatabaseManager" where
  "clearEmbeddingsByFile db fileId =
     (case db of
        None \<Rightarrow> Inl NotInitialized
      | Some c \<Rightarrow> Inr (Some (c\<lparr>embeddings := filter (\<lambda>e. e_fileId e \<noteq> fileId) (embeddings c)\<rparr>)))"

subsection \<open>Dependency operations\<close>

definition insertDependency ::
  "DatabaseManager \<Rightarrow> DependencyInput \<Rightarrow> error + (nat \<times> DatabaseManager)" where
  "insertDependency db dependency =
     (case db of
        None \<Rightarrow> Inl NotInitialized
      | Some c \<Rightarrow>
          if foreign_keys c \<and>
             (\<not> file_exists c (d_sourceFileId dependency) \<or>
              (case or_null (d_targetFileId dependency) of
                 None \<Rightarrow> False | Some i \<Rightarrow> \<not> file_exists c i))
          then Inl SqlConstraint
          else
            (let i = Suc (dependencies_seq c) in
             Inr (i, Some (c\<lparr>dependencies := dependencies c @
                               [DependencyInput.extend
                                  (dependency\<lparr>d_targetFileId := or_null (d_targetFileId dependency)\<rparr>)
                                  \<lparr>d_id = i\<rparr>],
                             dependencies_seq := i\<rparr>))))"

definition getDependenciesByFile :: "DatabaseManager \<Rightarrow> nat \<Rightarrow> error + DependencyRecord list" where
  "getDependenciesByFile db fileId =
     (case db of
        None \<Rightarrow> Inl NotInitialized
      | Some c \<Rightarrow> Inr (filter (\<lambda>d. d_sourceFileId d = fileId) (dependencies c)))"

definition clearDependenciesByFile :: "DatabaseManager \<Rightarrow> nat \<Rightarrow> error + DatabaseManager" where
  "clearDependenciesByFile db fileId =
     (case db of
        None \<Rightarrow> Inl NotInitialized
      | Some c \<Rightarrow>
          Inr (Some (c\<lparr>dependencies := filter (\<lambda>d. d_sourceFileId d \<noteq> fileId) (dependencies c)\<rparr>)))"

section \<open>Strings as JavaScript has them\<close>

text \<open>
  A string is a list of characters with codes below 256. The helpers below are the methods
  of \<^verbatim>\<open>String.prototype\<close> and \<^verbatim>\<open>Array.prototype\<close> that the source calls, with the
  results JavaScript gives.
\<close>

definition is_space :: "char \<Rightarrow> bool" where
  \<comment> \<open>the class \<^verbatim>\<open>\s\<close>, which is also what \<^verbatim>\<open>trim\<close> removes\<close>
  "is_space c = (c \<in> set [CHR 0x09, CHR 0x0A, CHR 0x0B, CHR 0x0C, CHR 0x0D, CHR 0x20, CHR 0xA0])"

definition is_lower :: "char \<Rightarrow> bool" where
  "is_lower c = (CHR ''a'' \<le> c \<and> c \<le> CHR ''z'')"

definition is_upper :: "char \<Rightarrow> bool" where
  "is_upper c = (CHR ''A'' \<le> c \<and> c \<le> CHR ''Z'')"

definition is_digit :: "char \<Rightarrow> bool" where
  "is_digit c = (CHR ''0'' \<le> c \<and> c \<le> CHR ''9'')"

definition is_word :: "char \<Rightarrow> bool" where
  \<comment> \<open>the class \<^verbatim>\<open>\w\<close>, which is \<^verbatim>\<open>[a-zA-Z0-9_]\<close>\<close>
  "is_word c = (is_lower c \<or> is_upper c \<or> is_digit c \<or> c = CHR ''_'')"

definition trimStart :: "string \<Rightarrow> string" where
  "trimStart s = dropWhile is_space s"

definition trimEnd :: "string \<Rightarrow> string" where
  "trimEnd s = rev (dropWhile is_space (rev s))"

definition trim :: "string \<Rightarrow> string" where
  "trim s = trimEnd (trimStart s)"

definition startsWith :: "string \<Rightarrow> string \<Rightarrow> bool" where
  "startsWith s p = (take (length p) s = p)"

definition endsWith :: "string \<Rightarrow> string \<Rightarrow> bool" where
  "endsWith s p = (length p \<le> length s \<and> drop (length s - length p) s = p)"

fun indexOf_from :: "nat \<Rightarrow> string \<Rightarrow> string \<Rightarrow> int" where
  "indexOf_from i [] sub = (if sub = [] then int i else - 1)"
| "indexOf_from i (c # s) sub =
     (if startsWith (c # s) sub then int i else indexOf_from (Suc i) s sub)"

definition indexOf :: "string \<Rightarrow> string \<Rightarrow> int" where
  "indexOf s sub = indexOf_from 0 s sub"

definition str_includes :: "string \<Rightarrow> string \<Rightarrow> bool" where
  "str_includes s sub = (indexOf s sub \<noteq> - 1)"

text \<open>\<^verbatim>\<open>s.split(d)\<close> for a separator of one character: never the empty array.\<close>

fun split_char :: "char \<Rightarrow> string \<Rightarrow> string list" where
  "split_char d [] = [[]]"
| "split_char d (c # s) =
     (if c = d then [] # split_char d s
      else (case split_char d s of [] \<Rightarrow> [[c]] | x # xs \<Rightarrow> (c # x) # xs))"

definition split_lines :: "string \<Rightarrow> string list" where
  \<comment> \<open>\<^verbatim>\<open>content.split('\n')\<close>\<close>
  "split_lines s = split_char (CHR 0x0A) s"

text \<open>\<^verbatim>\<open>s.split(sep)[0]\<close> for a separator that is not empty: the text before its first occurrence.\<close>

fun before_sep :: "string \<Rightarrow> string \<Rightarrow> string" where
  "before_sep sep [] = []"
| "before_sep sep (c # s) = (if startsWith (c # s) sep then [] else c # before_sep sep s)"

text \<open>\<^verbatim>\<open>xs.join(d)\<close>\<close>

fun join :: "string \<Rightarrow> string list \<Rightarrow> string" where
  "join d [] = []"
| "join d [x] = x"
| "join d (x # y # xs) = x @ d @ join d (y # xs)"

definition js_slice :: "nat \<Rightarrow> nat \<Rightarrow> 'a list \<Rightarrow> 'a list" where
  \<comment> \<open>\<^verbatim>\<open>xs.slice(i, j)\<close> for indices that are not negative\<close>
  "js_slice i j xs = take (j - i) (drop i xs)"

definition to_lower :: "char \<Rightarrow> char" where
  \<comment> \<open>\<^verbatim>\<open>toLowerCase\<close> on one character: A to Z, and the capital letters of Latin-1\<close>
  "to_lower c =
     (if is_upper c \<or> (CHR 0xC0 \<le> c \<and> c \<le> CHR 0xDE \<and> c \<noteq> CHR 0xD7)
      then char_of (of_char c + (32::nat)) else c)"

definition toLowerCase :: "string \<Rightarrow> string" where
  "toLowerCase s = map to_lower s"

section \<open>Regular expressions\<close>

text \<open>
  The patterns of the source use character classes, sequences, alternatives, optional
  groups, \<^verbatim>\<open>*\<close> and \<^verbatim>\<open>+\<close> on a character class (greedy or lazy), capture groups and the
  assertions \<^verbatim>\<open>^\<close> and \<^verbatim>\<open>\b\<close>. \<open>rx_run\<close> is the backtracking matcher of ECMAScript on
  that fragment: it runs a stack of pattern parts against the rest of the input, takes
  the alternatives in the order the language fixes and gives the first match, with the
  captures as (group, start, end).
\<close>

datatype rx =
    Eps
  | Cls "char \<Rightarrow> bool"
  | Then rx rx
  | Or rx rx
  | Star "char \<Rightarrow> bool"
  | Lazy "char \<Rightarrow> bool"
  | Grp nat rx
  | Bol
  | BolM
  | WordB

datatype rx_item = R rx | Close nat nat

type_synonym captures = "(nat \<times> nat \<times> nat) list"

fun rx_size :: "rx \<Rightarrow> nat" where
  "rx_size (Then a b) = Suc (rx_size a + rx_size b)"
| "rx_size (Or a b) = Suc (rx_size a + rx_size b)"
| "rx_size (Grp n r) = Suc (Suc (rx_size r))"
| "rx_size _ = 1"

fun item_size :: "rx_item \<Rightarrow> nat" where
  "item_size (R r) = rx_size r"
| "item_size (Close n p) = 1"

definition at_word_boundary :: "string \<Rightarrow> string \<Rightarrow> bool" where
  "at_word_boundary pre s =
     ((case pre of [] \<Rightarrow> False | c # _ \<Rightarrow> is_word c) \<noteq>
      (case s of [] \<Rightarrow> False | c # _ \<Rightarrow> is_word c))"

text \<open>\<open>pre\<close> is the input already passed, last character first; \<open>s\<close> is the rest.\<close>

function (sequential) rx_run ::
  "rx_item list \<Rightarrow> string \<Rightarrow> string \<Rightarrow> captures \<Rightarrow> (captures \<times> nat) option" where
  "rx_run [] pre s cs = Some (cs, length pre)"
| "rx_run (Close n p # k) pre s cs = rx_run k pre s ((n, p, length pre) # cs)"
| "rx_run (R Eps # k) pre s cs = rx_run k pre s cs"
| "rx_run (R (Cls P) # k) pre [] cs = None"
| "rx_run (R (Cls P) # k) pre (c # s) cs = (if P c then rx_run k (c # pre) s cs else None)"
| "rx_run (R (Then a b) # k) pre s cs = rx_run (R a # R b # k) pre s cs"
| "rx_run (R (Or a b) # k) pre s cs =
     (case rx_run (R a # k) pre s cs of
        Some x \<Rightarrow> Some x
      | None \<Rightarrow> rx_run (R b # k) pre s cs)"
| "rx_run (R (Star P) # k) pre [] cs = rx_run k pre [] cs"
| "rx_run (R (Star P) # k) pre (c # s) cs =
     (if P c
      then (case rx_run (R (Star P) # k) (c # pre) s cs of
              Some x \<Rightarrow> Some x
            | None \<Rightarrow> rx_run k pre (c # s) cs)
      else rx_run k pre (c # s) cs)"
| "rx_run (R (Lazy P) # k) pre [] cs = rx_run k pre [] cs"
| "rx_run (R (Lazy P) # k) pre (c # s) cs =
     (case rx_run k pre (c # s) cs of
        Some x \<Rightarrow> Some x
      | None \<Rightarrow> if P c then rx_run (R (Lazy P) # k) (c # pre) s cs else None)"
| "rx_run (R (Grp n r) # k) pre s cs = rx_run (R r # Close n (length pre) # k) pre s cs"
| "rx_run (R Bol # k) pre s cs = (if pre = [] then rx_run k pre s cs else None)"
| "rx_run (R BolM # k) pre s cs =
     (if (case pre of [] \<Rightarrow> True | c # _ \<Rightarrow> c = CHR 0x0A \<or> c = CHR 0x0D)
      then rx_run k pre s cs else None)"
| "rx_run (R WordB # k) pre s cs = (if at_word_boundary pre s then rx_run k pre s cs else None)"
  by pat_completeness auto
termination
  by (relation "inv_image (less_than <*lex*> less_than)
                  (\<lambda>(k, pre, s, cs). (sum_list (map item_size k), length s))") auto

text \<open>
  A match object: where the match starts, where it ends, and the captures.
  \<open>rx_search\<close> tries the start positions from left to right, as \<^verbatim>\<open>exec\<close> does.
\<close>

type_synonym rx_match = "nat \<times> nat \<times> captures"

fun rx_search :: "rx \<Rightarrow> string \<Rightarrow> string \<Rightarrow> rx_match option" where
  "rx_search r pre [] =
     (case rx_run [R r] pre [] [] of Some (cs, e) \<Rightarrow> Some (length pre, e, cs) | None \<Rightarrow> None)"
| "rx_search r pre (c # s) =
     (case rx_run [R r] pre (c # s) [] of
        Some (cs, e) \<Rightarrow> Some (length pre, e, cs)
      | None \<Rightarrow> rx_search r (c # pre) s)"

definition str_match :: "string \<Rightarrow> rx \<Rightarrow> rx_match option" where
  \<comment> \<open>\<^verbatim>\<open>line.match(r)\<close> for a pattern without the \<^verbatim>\<open>g\<close> flag\<close>
  "str_match line r = rx_search r [] line"

definition rx_test :: "rx \<Rightarrow> string \<Rightarrow> bool" where
  "rx_test r line = (str_match line r \<noteq> None)"

definition match_group :: "string \<Rightarrow> rx_match \<Rightarrow> nat \<Rightarrow> string option" where
  \<comment> \<open>\<^verbatim>\<open>m[n]\<close>: \<open>None\<close> is \<^verbatim>\<open>undefined\<close>, the group took no part in the match\<close>
  "match_group line mt n =
     (case map_of (snd (snd mt)) n of
        None \<Rightarrow> None
      | Some (i, j) \<Rightarrow> Some (js_slice i j line))"

definition group_text :: "string \<Rightarrow> rx_match \<Rightarrow> nat \<Rightarrow> string" where
  \<comment> \<open>for a group that every match of its pattern passes through\<close>
  "group_text line mt n = (case match_group line mt n of None \<Rightarrow> [] | Some g \<Rightarrow> g)"

definition rx_seq :: "rx list \<Rightarrow> rx" where
  "rx_seq rs = foldr Then rs Eps"

definition rx_lit :: "string \<Rightarrow> rx" where
  "rx_lit s = rx_seq (map (\<lambda>c. Cls (\<lambda>x. x = c)) s)"

definition rx_opt :: "rx \<Rightarrow> rx" where
  "rx_opt r = Or r Eps"

definition rx_plus :: "(char \<Rightarrow> bool) \<Rightarrow> rx" where
  "rx_plus P = Then (Cls P) (Star P)"

definition rx_lazy_plus :: "(char \<Rightarrow> bool) \<Rightarrow> rx" where
  "rx_lazy_plus P = Then (Cls P) (Lazy P)"

definition rx_word :: "string \<Rightarrow> rx" where
  \<comment> \<open>\<^verbatim>\<open>\bword\b\<close>\<close>
  "rx_word w = rx_seq [WordB, rx_lit w, WordB]"

definition any_char :: "char \<Rightarrow> bool" where
  \<comment> \<open>\<^verbatim>\<open>.\<close>: every character but a line terminator\<close>
  "any_char c = (c \<noteq> CHR 0x0A \<and> c \<noteq> CHR 0x0D)"

definition is_quote :: "char \<Rightarrow> bool" where
  "is_quote c = (c = CHR 0x27 \<or> c = CHR 0x22)"

definition ident_start :: "char \<Rightarrow> bool" where
  \<comment> \<open>\<^verbatim>\<open>[a-zA-Z_]\<close>\<close>
  "ident_start c = (is_lower c \<or> is_upper c \<or> c = CHR ''_'')"

definition ident_start_d :: "char \<Rightarrow> bool" where
  \<comment> \<open>\<^verbatim>\<open>[a-zA-Z_$]\<close>\<close>
  "ident_start_d c = (ident_start c \<or> c = CHR ''$'')"

definition ident_char_d :: "char \<Rightarrow> bool" where
  \<comment> \<open>\<^verbatim>\<open>[a-zA-Z0-9_$]\<close>\<close>
  "ident_char_d c = (is_word c \<or> c = CHR ''$'')"

definition dotted_char :: "char \<Rightarrow> bool" where
  \<comment> \<open>\<^verbatim>\<open>[a-zA-Z0-9_.]\<close>\<close>
  "dotted_char c = (is_word c \<or> c = CHR ''.'')"

definition ident :: rx where
  \<comment> \<open>\<^verbatim>\<open>[a-zA-Z_][a-zA-Z0-9_]*\<close>\<close>
  "ident = Then (Cls ident_start) (Star is_word)"

definition ident_d :: rx where
  \<comment> \<open>\<^verbatim>\<open>[a-zA-Z_$][a-zA-Z0-9_$]*\<close>\<close>
  "ident_d = Then (Cls ident_start_d) (Star ident_char_d)"

definition spaces1 :: rx where
  \<comment> \<open>\<^verbatim>\<open>\s+\<close>\<close>
  "spaces1 = rx_plus is_space"

definition kw :: "string \<Rightarrow> rx" where
  \<comment> \<open>\<^verbatim>\<open>(?:word\s+)?\<close>\<close>
  "kw w = rx_opt (rx_seq [rx_lit w, spaces1])"

section \<open>Symbol and dependency extraction (LanguageParser.ts)\<close>

definition ext_of_basename :: "string \<Rightarrow> string" where
  "ext_of_basename b =
     (if CHR ''.'' \<notin> set b \<or> b = ''..'' then []
      else (let e = rev (takeWhile (\<lambda>c. c \<noteq> CHR ''.'') (rev b))
            in if Suc (length e) = length b then [] else CHR ''.'' # e))"

definition extname :: "string \<Rightarrow> string" where
  \<comment> \<open>Node's \<^verbatim>\<open>path.extname\<close>: from the last dot of the last path component, unless the
      component starts there\<close>
  "extname p =
     ext_of_basename (rev (takeWhile (\<lambda>c. c \<noteq> CHR ''/'') (dropWhile (\<lambda>c. c = CHR ''/'') (rev p))))"

definition languageMap :: "(string \<times> string) list" where
  "languageMap =
     [(''.js'', ''javascript''), (''.jsx'', ''javascript''), (''.ts'', ''typescript''),
      (''.tsx'', ''typescript''), (''.py'', ''python''), (''.pyw'', ''python''),
      (''.java'', ''java''), (''.cpp'', ''cpp''), (''.cxx'', ''cpp''), (''.cc'', ''cpp''),
      (''.c'', ''c''), (''.h'', ''c''), (''.hpp'', ''cpp''), (''.cs'', ''csharp''),
      (''.php'', ''php''), (''.rb'', ''ruby''), (''.go'', ''go''), (''.rs'', ''rust''),
      (''.swift'', ''swift''), (''.kt'', ''kotlin''), (''.scala'', ''scala''),
      (''.clj'', ''clojure''), (''.json'', ''json''), (''.yaml'', ''yaml''), (''.yml'', ''yaml''),
      (''.xml'', ''xml''), (''.html'', ''html''), (''.css'', ''css''), (''.scss'', ''scss''),
      (''.md'', ''markdown'')]"

definition detectLanguage :: "string \<Rightarrow> string" where
  "detectLanguage filePath =
     (case map_of languageMap (toLowerCase (extname filePath)) of
        None \<Rightarrow> ''unknown''
      | Some l \<Rightarrow> l)"

definition supportedLanguages :: "string list" where
  "supportedLanguages =
     [''javascript'', ''typescript'', ''python'', ''java'', ''cpp'', ''c'', ''csharp'',
      ''php'', ''ruby'', ''go'', ''rust'', ''swift'', ''kotlin'', ''scala'', ''clojure'']"

definition isSupported :: "string \<Rightarrow> bool" where
  "isSupported language = (language \<in> set supportedLanguages)"

subsection \<open>Helper methods\<close>

definition newline :: string where
  "newline = [CHR 0x0A]"

text \<open>The parameter \<^verbatim>\<open>type\<close> of \<^verbatim>\<open>getDefinition\<close> is not read by the source.\<close>

definition getDefinition :: "string list \<Rightarrow> nat \<Rightarrow> string \<Rightarrow> string" where
  "getDefinition lines startIndex ty =
     (let maxLines = 5; endIndex = min (startIndex + maxLines) (length lines)
      in trim (join newline (js_slice startIndex endIndex lines)))"

text \<open>
  \<^verbatim>\<open>findEndLine\<close>: the inner loop over the characters of a line gives \<open>None\<close> when the
  source returns from inside it, and the depth and the flag otherwise; the outer loop
  counts the lines from \<open>startIndex\<close>.
\<close>

fun findEnd_chars :: "char \<Rightarrow> char \<Rightarrow> string \<Rightarrow> int \<Rightarrow> bool \<Rightarrow> (int \<times> bool) option" where
  "findEnd_chars openChar closeChar [] depth found = Some (depth, found)"
| "findEnd_chars openChar closeChar (c # s) depth found =
     (if c = openChar then findEnd_chars openChar closeChar s (depth + 1) True
      else if c = closeChar then
        (if found \<and> depth - 1 = 0 then None
         else findEnd_chars openChar closeChar s (depth - 1) found)
      else findEnd_chars openChar closeChar s depth found)"

fun findEnd_lines :: "char \<Rightarrow> char \<Rightarrow> string list \<Rightarrow> nat \<Rightarrow> int \<Rightarrow> bool \<Rightarrow> nat option" where
  "findEnd_lines openChar closeChar [] i depth found = None"
| "findEnd_lines openChar closeChar (line # rest) i depth found =
     (case findEnd_chars openChar closeChar line depth found of
        None \<Rightarrow> Some (i + 1)
      | Some (depth', found') \<Rightarrow> findEnd_lines openChar closeChar rest (Suc i) depth' found')"

definition findEndLine :: "string list \<Rightarrow> nat \<Rightarrow> char \<Rightarrow> char \<Rightarrow> nat" where
  "findEndLine lines startIndex openChar closeChar =
     (case findEnd_lines openChar closeChar (drop startIndex lines) startIndex 0 False of
        Some n \<Rightarrow> n
      | None \<Rightarrow> startIndex + 1)"

fun pythonBlockEnd_from :: "string list \<Rightarrow> nat \<Rightarrow> nat \<Rightarrow> nat option" where
  "pythonBlockEnd_from [] i baseIndent = None"
| "pythonBlockEnd_from (line # rest) i baseIndent =
     (if trim line = [] then pythonBlockEnd_from rest (Suc i) baseIndent
      else if length line - length (trimStart line) \<le> baseIndent \<and> trim line \<noteq> [] then Some i
      else pythonBlockEnd_from rest (Suc i) baseIndent)"

definition findPythonBlockEnd :: "string list \<Rightarrow> nat \<Rightarrow> nat \<Rightarrow> nat" where
  "findPythonBlockEnd lines startIndex baseIndent =
     (case pythonBlockEnd_from (drop (startIndex + 1) lines) (startIndex + 1) baseIndent of
        Some i \<Rightarrow> i
      | None \<Rightarrow> length lines)"

definition extractModifiers :: "string \<Rightarrow> string list" where
  "extractModifiers line =
     filter (\<lambda>keyword. str_includes line keyword)
       [''export'', ''default'', ''async'', ''static'', ''const'', ''let'', ''var'']"

definition extractJavaModifiers :: "string \<Rightarrow> string list" where
  "extractJavaModifiers line =
     filter (\<lambda>modifier. rx_test (rx_word modifier) line)
       [''public'', ''private'', ''protected'', ''static'', ''final'', ''abstract'', ''synchronized'']"

definition extractCppModifiers :: "string \<Rightarrow> string list" where
  "extractCppModifiers line =
     filter (\<lambda>modifier. rx_test (rx_word modifier) line)
       [''static'', ''extern'', ''inline'', ''const'', ''virtual'', ''override'']"

text \<open>
  \<^verbatim>\<open>extractPythonDecorators\<close> walks from the line before the definition to the top;
  \<open>decorators_back\<close> gets those lines nearest first.
\<close>

fun decorators_back :: "string list \<Rightarrow> string list \<Rightarrow> string list" where
  "decorators_back [] decorators = decorators"
| "decorators_back (l # earlier) decorators =
     (let line = trim l
      in if startsWith line ''@'' then decorators_back earlier (line # decorators)
         else if line \<noteq> [] then decorators
         else decorators_back earlier decorators)"

definition extractPythonDecorators :: "string list \<Rightarrow> nat \<Rightarrow> string list" where
  "extractPythonDecorators lines functionIndex = decorators_back (rev (take functionIndex lines)) []"

fun docstring_rest :: "string \<Rightarrow> string list \<Rightarrow> string \<Rightarrow> string" where
  "docstring_rest quote [] docstring = docstring"
| "docstring_rest quote (nextLine # rest) docstring =
     (if str_includes nextLine quote
      then docstring @ newline @ take (nat (indexOf nextLine quote)) nextLine
      else docstring_rest quote rest (docstring @ newline @ nextLine))"

definition extractPythonDocstring :: "string list \<Rightarrow> nat \<Rightarrow> string option" where
  "extractPythonDocstring lines startIndex =
     (if startIndex \<ge> length lines then None
      else
        (let line = trim (lines ! startIndex)
         in if startsWith line [CHR 0x22, CHR 0x22, CHR 0x22] \<or>
               startsWith line [CHR 0x27, CHR 0x27, CHR 0x27]
            then
              (let quote = take 3 line; docstring = drop 3 line
               in if endsWith line quote \<and> length line > 6
                  then Some (take (length docstring - 3) docstring)
                  else Some (trim (docstring_rest quote (drop (startIndex + 1) lines) docstring)))
            else None))"

fun insideClass_back :: "string list \<Rightarrow> bool" where
  "insideClass_back [] = False"
| "insideClass_back (l # earlier) =
     (let line = trim l
      in if startsWith line ''class '' \<and> str_includes line ''{'' then True
         else if line = ''}'' \<or> startsWith line ''function '' then False
         else insideClass_back earlier)"

definition isInsideClass :: "string list \<Rightarrow> nat \<Rightarrow> bool" where
  "isInsideClass lines currentIndex = insideClass_back (rev (take currentIndex lines))"

definition re_package :: rx where
  \<comment> \<open>\<^verbatim>\<open>/^package\s+([a-zA-Z_][a-zA-Z0-9_.]*);?/m\<close>\<close>
  "re_package =
     rx_seq [BolM, rx_lit ''package'', spaces1,
             Grp 1 (Then (Cls ident_start) (Star dotted_char)), rx_opt (rx_lit '';'')]"

definition getCurrentPackage :: "string \<Rightarrow> string" where
  "getCurrentPackage content =
     (case str_match content re_package of
        None \<Rightarrow> []
      | Some packageMatch \<Rightarrow> group_text content packageMatch 1)"

text \<open>\<^verbatim>\<open>a || b\<close> on line numbers: \<open>b\<close> when \<open>a\<close> is 0.\<close>

definition or_else :: "nat \<Rightarrow> nat \<Rightarrow> nat" where
  "or_else a b = (if a = 0 then b else a)"

definition column :: "string \<Rightarrow> string \<Rightarrow> nat" where
  \<comment> \<open>\<^verbatim>\<open>line.indexOf(word) + 1\<close>\<close>
  "column line word = nat (indexOf line word + 1)"

subsection \<open>JavaScript and TypeScript symbols\<close>

definition re_js_function :: rx where
  \<comment> \<open>\<^verbatim>\<open>/(?:export\s+)?(?:async\s+)?function\s+([a-zA-Z_$][a-zA-Z0-9_$]*)\s*\(/\<close>\<close>
  "re_js_function =
     rx_seq [kw ''export'', kw ''async'', rx_lit ''function'', spaces1, Grp 1 ident_d,
             Star is_space, rx_lit ''('']"

definition re_decl :: rx where
  \<comment> \<open>\<^verbatim>\<open>(?:const|let|var)\<close>\<close>
  "re_decl = Or (rx_lit ''const'') (Or (rx_lit ''let'') (rx_lit ''var''))"

definition not_char :: "char \<Rightarrow> char \<Rightarrow> bool" where
  "not_char d c = (c \<noteq> d)"

definition re_js_arrow :: rx where
  \<comment> \<open>\<^verbatim>\<open>/(?:export\s+)?(?:const|let|var)\s+([a-zA-Z_$][a-zA-Z0-9_$]*)\s*=\s*(?:async\s*)?\([^)]*\)\s*=>/\<close>\<close>
  "re_js_arrow =
     rx_seq [kw ''export'', re_decl, spaces1, Grp 1 ident_d, Star is_space, rx_lit ''='',
             Star is_space, rx_opt (rx_seq [rx_lit ''async'', Star is_space]), rx_lit ''('',
             Star (not_char (CHR '')'')), rx_lit '')'', Star is_space, rx_lit ''=>'']"

definition re_js_class :: rx where
  \<comment> \<open>\<^verbatim>\<open>/(?:export\s+)?class\s+([a-zA-Z_$][a-zA-Z0-9_$]*)/\<close>\<close>
  "re_js_class = rx_seq [kw ''export'', rx_lit ''class'', spaces1, Grp 1 ident_d]"

definition re_js_interface :: rx where
  \<comment> \<open>\<^verbatim>\<open>/(?:export\s+)?interface\s+([a-zA-Z_$][a-zA-Z0-9_$]*)/\<close>\<close>
  "re_js_interface = rx_seq [kw ''export'', rx_lit ''interface'', spaces1, Grp 1 ident_d]"

definition re_js_type :: rx where
  \<comment> \<open>\<^verbatim>\<open>/(?:export\s+)?type\s+([a-zA-Z_$][a-zA-Z0-9_$]*)\s*=/\<close>\<close>
  "re_js_type =
     rx_seq [kw ''export'', rx_lit ''type'', spaces1, Grp 1 ident_d, Star is_space, rx_lit ''='']"

definition re_js_var :: rx where
  \<comment> \<open>\<^verbatim>\<open>/(?:export\s+)?(?:const|let|var)\s+([a-zA-Z_$][a-zA-Z0-9_$]*)/\<close>\<close>
  "re_js_var = rx_seq [kw ''export'', re_decl, spaces1, Grp 1 ident_d]"

definition re_js_method :: rx where
  \<comment> \<open>\<^verbatim>\<open>/^\s*(?:async\s+)?([a-zA-Z_$][a-zA-Z0-9_$]*)\s*\([^)]*\)\s*[:{]/\<close>\<close>
  "re_js_method =
     rx_seq [Bol, Star is_space, kw ''async'', Grp 1 ident_d, Star is_space, rx_lit ''('',
             Star (not_char (CHR '')'')), rx_lit '')'', Star is_space,
             Cls (\<lambda>c. c = CHR '':'' \<or> c = CHR ''{'')]"

text \<open>The body of the loop of \<^verbatim>\<open>parseJavaScriptSymbols\<close> at index \<open>i\<close>, where the line is \<open>line\<close>.\<close>

definition js_symbols_at :: "string list \<Rightarrow> nat \<Rightarrow> string \<Rightarrow> ParsedSymbol list" where
  "js_symbols_at lines i line =
     (let lineNumber = i + 1;
          functionMatch = str_match line re_js_function;
          arrowMatch = str_match line re_js_arrow;
          classMatch = str_match line re_js_class;
          interfaceMatch = str_match line re_js_interface;
          typeMatch = str_match line re_js_type;
          varMatch = str_match line re_js_var;
          methodMatch = str_match line re_js_method
      in
        (case functionMatch of
           None \<Rightarrow> []
         | Some mt \<Rightarrow>
             [\<lparr>s_name = group_text line mt 1, s_type = Function, s_startLine = lineNumber,
               s_endLine = findEndLine lines i (CHR ''{'') (CHR ''}''),
               s_startColumn = column line ''function'', s_endColumn = length line + 1,
               s_definition = getDefinition lines i ''function'', s_docstring = None,
               s_modifiers = extractModifiers line\<rparr>]) @
        (case arrowMatch of
           None \<Rightarrow> []
         | Some mt \<Rightarrow>
             (let name = group_text line mt 1 in
              [\<lparr>s_name = name, s_type = Function, s_startLine = lineNumber,
                s_endLine = or_else (findEndLine lines i (CHR ''{'') (CHR ''}'')) lineNumber,
                s_startColumn = column line name, s_endColumn = length line + 1,
                s_definition = getDefinition lines i ''arrow'', s_docstring = None,
                s_modifiers = extractModifiers line\<rparr>])) @
        (case classMatch of
           None \<Rightarrow> []
         | Some mt \<Rightarrow>
             [\<lparr>s_name = group_text line mt 1, s_type = Class, s_startLine = lineNumber,
               s_endLine = findEndLine lines i (CHR ''{'') (CHR ''}''),
               s_startColumn = column line ''class'', s_endColumn = length line + 1,
               s_definition = getDefinition lines i ''class'', s_docstring = None,
               s_modifiers = extractModifiers line\<rparr>]) @
        (case interfaceMatch of
           None \<Rightarrow> []
         | Some mt \<Rightarrow>
             [\<lparr>s_name = group_text line mt 1, s_type = Interface, s_startLine = lineNumber,
               s_endLine = findEndLine lines i (CHR ''{'') (CHR ''}''),
               s_startColumn = column line ''interface'', s_endColumn = length line + 1,
               s_definition = getDefinition lines i ''interface'', s_docstring = None,
               s_modifiers = extractModifiers line\<rparr>]) @
        (case typeMatch of
           None \<Rightarrow> []
         | Some mt \<Rightarrow>
             [\<lparr>s_name = group_text line mt 1, s_type = Type, s_startLine = lineNumber,
               s_endLine = lineNumber,
               s_startColumn = column line ''type'', s_endColumn = length line + 1,
               s_definition = trim line, s_docstring = None,
               s_modifiers = extractModifiers line\<rparr>]) @
        (case varMatch of
           None \<Rightarrow> []
         | Some mt \<Rightarrow>
             if arrowMatch \<noteq> None then []
             else
               (let name = group_text line mt 1 in
                [\<lparr>s_name = name, s_type = Variable, s_startLine = lineNumber,
                  s_endLine = lineNumber,
                  s_startColumn = column line name, s_endColumn = length line + 1,
                  s_definition = trim line, s_docstring = None,
                  s_modifiers = extractModifiers line\<rparr>])) @
        (case methodMatch of
           None \<Rightarrow> []
         | Some mt \<Rightarrow>
             if \<not> isInsideClass lines i then []
             else
               (let name = group_text line mt 1 in
                [\<lparr>s_name = name, s_type = Method, s_startLine = lineNumber,
                  s_endLine = findEndLine lines i (CHR ''{'') (CHR ''}''),
                  s_startColumn = column line name, s_endColumn = length line + 1,
                  s_definition = getDefinition lines i ''method'', s_docstring = None,
                  s_modifiers = extractModifiers line\<rparr>])))"

text \<open>The loop \<^verbatim>\<open>for (let i = 0; i < lines.length; i++)\<close> that all four parsers share.\<close>

definition each_line ::
  "(string list \<Rightarrow> nat \<Rightarrow> string \<Rightarrow> 'a list) \<Rightarrow> string list \<Rightarrow> 'a list" where
  "each_line body lines = concat (map (\<lambda>(i, line). body lines i line) (enumerate 0 lines))"

definition parseJavaScriptSymbols :: "string \<Rightarrow> ParsedSymbol list" where
  "parseJavaScriptSymbols content = each_line js_symbols_at (split_lines content)"

subsection \<open>Python symbols\<close>

definition re_py_def :: rx where
  \<comment> \<open>\<^verbatim>\<open>/^(\s*)def\s+([a-zA-Z_][a-zA-Z0-9_]*)\s*\(/\<close>\<close>
  "re_py_def =
     rx_seq [Bol, Grp 1 (Star is_space), rx_lit ''def'', spaces1, Grp 2 ident, Star is_space,
             rx_lit ''('']"

definition re_py_class :: rx where
  \<comment> \<open>\<^verbatim>\<open>/^(\s*)class\s+([a-zA-Z_][a-zA-Z0-9_]*)/\<close>\<close>
  "re_py_class = rx_seq [Bol, Grp 1 (Star is_space), rx_lit ''class'', spaces1, Grp 2 ident]"

definition re_py_var :: rx where
  \<comment> \<open>\<^verbatim>\<open>/^([a-zA-Z_][a-zA-Z0-9_]*)\s*=/\<close>\<close>
  "re_py_var = rx_seq [Bol, Grp 1 ident, Star is_space, rx_lit ''='']"

definition py_symbols_at :: "string list \<Rightarrow> nat \<Rightarrow> string \<Rightarrow> ParsedSymbol list" where
  "py_symbols_at lines i line =
     (let lineNumber = i + 1;
          functionMatch = str_match line re_py_def;
          classMatch = str_match line re_py_class;
          varMatch = str_match line re_py_var
      in
        (case functionMatch of
           None \<Rightarrow> []
         | Some mt \<Rightarrow>
             (let name = group_text line mt 2; indent = length (group_text line mt 1) in
              [\<lparr>s_name = name, s_type = Function, s_startLine = lineNumber,
                s_endLine = findPythonBlockEnd lines i indent,
                s_startColumn = column line ''def'', s_endColumn = length line + 1,
                s_definition = getDefinition lines i ''def'',
                s_docstring = extractPythonDocstring lines (i + 1),
                s_modifiers = extractPythonDecorators lines i\<rparr>])) @
        (case classMatch of
           None \<Rightarrow> []
         | Some mt \<Rightarrow>
             (let name = group_text line mt 2; indent = length (group_text line mt 1) in
              [\<lparr>s_name = name, s_type = Class, s_startLine = lineNumber,
                s_endLine = findPythonBlockEnd lines i indent,
                s_startColumn = column line ''class'', s_endColumn = length line + 1,
                s_definition = getDefinition lines i ''class'',
                s_docstring = extractPythonDocstring lines (i + 1),
                s_modifiers = extractPythonDecorators lines i\<rparr>])) @
        (case varMatch of
           None \<Rightarrow> []
         | Some mt \<Rightarrow>
             if str_includes line ''def '' \<or> str_includes line ''class '' then []
             else
               [\<lparr>s_name = group_text line mt 1, s_type = Variable, s_startLine = lineNumber,
                 s_endLine = lineNumber,
                 s_startColumn = 1, s_endColumn = length line + 1,
                 s_definition = trim line, s_docstring = None,
                 s_modifiers = []\<rparr>]))"

definition parsePythonSymbols :: "string \<Rightarrow> ParsedSymbol list" where
  "parsePythonSymbols content = each_line py_symbols_at (split_lines content)"

subsection \<open>Java symbols\<close>

definition re_java_visibility :: rx where
  \<comment> \<open>\<^verbatim>\<open>(?:public\s+|private\s+|protected\s+)?\<close>\<close>
  "re_java_visibility =
     rx_opt (Or (rx_seq [rx_lit ''public'', spaces1])
                (Or (rx_seq [rx_lit ''private'', spaces1])
                    (rx_seq [rx_lit ''protected'', spaces1])))"

definition re_java_class :: rx where
  \<comment> \<open>\<^verbatim>\<open>/(?:public\s+|private\s+|protected\s+)?(?:static\s+)?(?:final\s+)?class\s+([a-zA-Z_$][a-zA-Z0-9_$]*)/\<close>\<close>
  "re_java_class =
     rx_seq [re_java_visibility, kw ''static'', kw ''final'', rx_lit ''class'', spaces1,
             Grp 1 ident_d]"

definition java_type_char :: "char \<Rightarrow> bool" where
  \<comment> \<open>\<^verbatim>\<open>[a-zA-Z_$<>[\]]\<close>\<close>
  "java_type_char c =
     (ident_start_d c \<or> c = CHR ''<'' \<or> c = CHR ''>'' \<or> c = CHR ''['' \<or> c = CHR '']'')"

definition re_java_method :: rx where
  \<comment> \<open>\<^verbatim>\<open>/(?:public\s+|private\s+|protected\s+)?(?:static\s+)?(?:final\s+)?(?:synchronized\s+)?[a-zA-Z_$<>[\]]+\s+([a-zA-Z_$][a-zA-Z0-9_$]*)\s*\(/\<close>\<close>
  "re_java_method =
     rx_seq [re_java_visibility, kw ''static'', kw ''final'', kw ''synchronized'',
             rx_plus java_type_char, spaces1, Grp 1 ident_d, Star is_space, rx_lit ''('']"

definition re_java_interface :: rx where
  \<comment> \<open>\<^verbatim>\<open>/(?:public\s+)?interface\s+([a-zA-Z_$][a-zA-Z0-9_$]*)/\<close>\<close>
  "re_java_interface = rx_seq [kw ''public'', rx_lit ''interface'', spaces1, Grp 1 ident_d]"

definition java_symbols_at :: "string list \<Rightarrow> nat \<Rightarrow> string \<Rightarrow> ParsedSymbol list" where
  "java_symbols_at lines i line =
     (let lineNumber = i + 1;
          classMatch = str_match line re_java_class;
          methodMatch = str_match line re_java_method;
          interfaceMatch = str_match line re_java_interface
      in
        (case classMatch of
           None \<Rightarrow> []
         | Some mt \<Rightarrow>
             [\<lparr>s_name = group_text line mt 1, s_type = Class, s_startLine = lineNumber,
               s_endLine = findEndLine lines i (CHR ''{'') (CHR ''}''),
               s_startColumn = column line ''class'', s_endColumn = length line + 1,
               s_definition = getDefinition lines i ''class'', s_docstring = None,
               s_modifiers = extractJavaModifiers line\<rparr>]) @
        (case methodMatch of
           None \<Rightarrow> []
         | Some mt \<Rightarrow>
             if str_includes line ''class '' then []
             else
               (let name = group_text line mt 1 in
                [\<lparr>s_name = name, s_type = Method, s_startLine = lineNumber,
                  s_endLine = findEndLine lines i (CHR ''{'') (CHR ''}''),
                  s_startColumn = column line name, s_endColumn = length line + 1,
                  s_definition = getDefinition lines i ''method'', s_docstring = None,
                  s_modifiers = extractJavaModifiers line\<rparr>])) @
        (case interfaceMatch of
           None \<Rightarrow> []
         | Some mt \<Rightarrow>
             [\<lparr>s_name = group_text line mt 1, s_type = Interface, s_startLine = lineNumber,
               s_endLine = findEndLine lines i (CHR ''{'') (CHR ''}''),
               s_startColumn = column line ''interface'', s_endColumn = length line + 1,
               s_definition = getDefinition lines i ''interface'', s_docstring = None,
               s_modifiers = extractJavaModifiers line\<rparr>]))"

definition parseJavaSymbols :: "string \<Rightarrow> ParsedSymbol list" where
  "parseJavaSymbols content = each_line java_symbols_at (split_lines content)"

subsection \<open>C and C++ symbols\<close>

definition cpp_type_char :: "char \<Rightarrow> bool" where
  \<comment> \<open>\<^verbatim>\<open>[a-zA-Z_*&:<>[\]\s]\<close>\<close>
  "cpp_type_char c =
     (ident_start c \<or> c = CHR ''*'' \<or> c = CHR ''&'' \<or> c = CHR '':'' \<or> c = CHR ''<'' \<or>
      c = CHR ''>'' \<or> c = CHR ''['' \<or> c = CHR '']'' \<or> is_space c)"

definition re_cpp_function :: rx where
  \<comment> \<open>\<^verbatim>\<open>/^(?:inline\s+|static\s+|extern\s+)?(?:const\s+)?[a-zA-Z_*&:<>[\]\s]+\s+([a-zA-Z_][a-zA-Z0-9_]*)\s*\([^)]*\)/\<close>\<close>
  "re_cpp_function =
     rx_seq [Bol,
             rx_opt (Or (rx_seq [rx_lit ''inline'', spaces1])
                        (Or (rx_seq [rx_lit ''static'', spaces1])
                            (rx_seq [rx_lit ''extern'', spaces1]))),
             kw ''const'', rx_plus cpp_type_char, spaces1, Grp 1 ident, Star is_space,
             rx_lit ''('', Star (not_char (CHR '')'')), rx_lit '')'']"

definition re_cpp_template :: rx where
  \<comment> \<open>\<^verbatim>\<open>(?:template\s*<[^>]*>\s*)?\<close>\<close>
  "re_cpp_template =
     rx_opt (rx_seq [rx_lit ''template'', Star is_space, rx_lit ''<'',
                     Star (not_char (CHR ''>'')), rx_lit ''>'', Star is_space])"

definition re_cpp_class :: rx where
  \<comment> \<open>\<^verbatim>\<open>/(?:template\s*<[^>]*>\s*)?class\s+([a-zA-Z_][a-zA-Z0-9_]*)/\<close>\<close>
  "re_cpp_class = rx_seq [re_cpp_template, rx_lit ''class'', spaces1, Grp 1 ident]"

definition re_cpp_struct :: rx where
  \<comment> \<open>\<^verbatim>\<open>/(?:template\s*<[^>]*>\s*)?struct\s+([a-zA-Z_][a-zA-Z0-9_]*)/\<close>\<close>
  "re_cpp_struct = rx_seq [re_cpp_template, rx_lit ''struct'', spaces1, Grp 1 ident]"

definition cpp_symbols_at :: "string list \<Rightarrow> nat \<Rightarrow> string \<Rightarrow> ParsedSymbol list" where
  "cpp_symbols_at lines i line =
     (let lineNumber = i + 1;
          functionMatch = str_match line re_cpp_function;
          classMatch = str_match line re_cpp_class;
          structMatch = str_match line re_cpp_struct
      in
        (case functionMatch of
           None \<Rightarrow> []
         | Some mt \<Rightarrow>
             if str_includes line ''class '' \<or> str_includes line ''struct '' then []
             else
               (let name = group_text line mt 1 in
                [\<lparr>s_name = name, s_type = Function, s_startLine = lineNumber,
                  s_endLine = or_else (findEndLine lines i (CHR ''{'') (CHR ''}'')) lineNumber,
                  s_startColumn = column line name, s_endColumn = length line + 1,
                  s_definition = getDefinition lines i ''function'', s_docstring = None,
                  s_modifiers = extractCppModifiers line\<rparr>])) @
        (case classMatch of
           None \<Rightarrow> []
         | Some mt \<Rightarrow>
             [\<lparr>s_name = group_text line mt 1, s_type = Class, s_startLine = lineNumber,
               s_endLine = findEndLine lines i (CHR ''{'') (CHR ''}''),
               s_startColumn = column line ''class'', s_endColumn = length line + 1,
               s_definition = getDefinition lines i ''class'', s_docstring = None,
               s_modifiers = extractCppModifiers line\<rparr>]) @
        (case structMatch of
           None \<Rightarrow> []
         | Some mt \<Rightarrow>
             [\<lparr>s_name = group_text line mt 1, s_type = Class, s_startLine = lineNumber,
               s_endLine = findEndLine lines i (CHR ''{'') (CHR ''}''),
               s_startColumn = column line ''struct'', s_endColumn = length line + 1,
               s_definition = getDefinition lines i ''struct'', s_docstring = None,
               s_modifiers = extractCppModifiers line\<rparr>]))"

definition parseCppSymbols :: "string \<Rightarrow> ParsedSymbol list" where
  "parseCppSymbols content = each_line cpp_symbols_at (split_lines content)"

subsection \<open>The two entry points\<close>

text \<open>
  The text handed in is \<open>None\<close> for \<^verbatim>\<open>null\<close> or \<^verbatim>\<open>undefined\<close>. \<^verbatim>\<open>parseSymbols\<close> starts with
  \<^verbatim>\<open>if (!content) return []\<close>, which holds for the empty string as well.
\<close>

definition parseSymbols :: "string option \<Rightarrow> string \<Rightarrow> error + ParsedSymbol list" where
  "parseSymbols content language =
     (case content of
        None \<Rightarrow> Inr []
      | Some text \<Rightarrow>
          if text = [] then Inr []
          else if language = ''javascript'' \<or> language = ''typescript''
            then Inr (parseJavaScriptSymbols text)
          else if language = ''python'' then Inr (parsePythonSymbols text)
          else if language = ''java'' then Inr (parseJavaSymbols text)
          else if language = ''cpp'' \<or> language = ''c'' then Inr (parseCppSymbols text)
          else Inr [])"

subsection \<open>Dependencies\<close>

definition re_js_import :: rx where
  \<comment> \<open>\<^verbatim>\<open>/import\s+(?:(.+?)\s+from\s+)?['"](.*?)['"];?/\<close>\<close>
  "re_js_import =
     rx_seq [rx_lit ''import'', spaces1,
             rx_opt (rx_seq [Grp 1 (rx_lazy_plus any_char), spaces1, rx_lit ''from'', spaces1]),
             Cls is_quote, Grp 2 (Lazy any_char), Cls is_quote, rx_opt (rx_lit '';'')]"

definition re_js_require :: rx where
  \<comment> \<open>\<^verbatim>\<open>/(?:const|let|var)\s+(.+?)\s*=\s*require\s*\(\s*['"](.*?)['"]?\s*\)/\<close>\<close>
  "re_js_require =
     rx_seq [re_decl, spaces1, Grp 1 (rx_lazy_plus any_char), Star is_space, rx_lit ''='',
             Star is_space, rx_lit ''require'', Star is_space, rx_lit ''('', Star is_space,
             Cls is_quote, Grp 2 (Lazy any_char), rx_opt (Cls is_quote), Star is_space,
             rx_lit '')'']"

definition re_braces :: rx where
  \<comment> \<open>\<^verbatim>\<open>/\{([^}]+)\}/\<close>\<close>
  "re_braces = rx_seq [rx_lit ''{'', Grp 1 (rx_plus (not_char (CHR ''}''))), rx_lit ''}'']"

definition local_path :: "string \<Rightarrow> bool" where
  "local_path importPath = (startsWith importPath ''.'' \<or> startsWith importPath ''/'')"

definition js_dependencies_at :: "string \<Rightarrow> ParsedDependency list" where
  "js_dependencies_at line =
     (case str_match line re_js_import of
        None \<Rightarrow> []
      | Some importMatch \<Rightarrow>
          (let importPath = group_text line importMatch 2;
               isExternal = (\<not> startsWith importPath ''.'' \<and> \<not> startsWith importPath ''/'');
               symbols =
                 (case match_group line importMatch 1 of
                    None \<Rightarrow> []
                  | Some g \<Rightarrow>
                      if g = [] then []
                      else
                        (let importClause = trim g
                         in if str_includes importClause ''{'' then
                              (case str_match importClause re_braces of
                                 None \<Rightarrow> []
                               | Some namedImports \<Rightarrow>
                                   map (\<lambda>s. before_sep '' as '' (trim s))
                                     (split_char (CHR '','') (group_text importClause namedImports 1)))
                            else if \<not> str_includes importClause ''*'' then [importClause]
                            else []))
           in [\<lparr>d_importPath = importPath, d_importType = Import, d_isExternal = isExternal,
                d_symbols = symbols\<rparr>])) @
     (case str_match line re_js_require of
        None \<Rightarrow> []
      | Some requireMatch \<Rightarrow>
          (let importPath = group_text line requireMatch 2;
               isExternal = (\<not> startsWith importPath ''.'' \<and> \<not> startsWith importPath ''/'');
               varPart = trim (group_text line requireMatch 1);
               symbols =
                 (if str_includes varPart ''{'' then
                    (case str_match varPart re_braces of
                       None \<Rightarrow> []
                     | Some destructured \<Rightarrow>
                         map trim (split_char (CHR '','') (group_text varPart destructured 1)))
                  else [varPart])
           in [\<lparr>d_importPath = importPath, d_importType = Require, d_isExternal = isExternal,
                d_symbols = symbols\<rparr>]))"

definition parseJavaScriptDependencies :: "string \<Rightarrow> ParsedDependency list" where
  "parseJavaScriptDependencies content = concat (map js_dependencies_at (split_lines content))"

definition re_py_import :: rx where
  \<comment> \<open>\<^verbatim>\<open>/^import\s+([a-zA-Z_][a-zA-Z0-9_.]*)(?:\s+as\s+([a-zA-Z_][a-zA-Z0-9_]*))?/\<close>\<close>
  "re_py_import =
     rx_seq [Bol, rx_lit ''import'', spaces1, Grp 1 (Then (Cls ident_start) (Star dotted_char)),
             rx_opt (rx_seq [spaces1, rx_lit ''as'', spaces1, Grp 2 ident])]"

definition re_py_from :: rx where
  \<comment> \<open>\<^verbatim>\<open>/^from\s+([a-zA-Z_][a-zA-Z0-9_.]*)\s+import\s+(.+)/\<close>\<close>
  "re_py_from =
     rx_seq [Bol, rx_lit ''from'', spaces1, Grp 1 (Then (Cls ident_start) (Star dotted_char)),
             spaces1, rx_lit ''import'', spaces1, Grp 2 (rx_plus any_char)]"

definition last_part :: "string \<Rightarrow> string" where
  \<comment> \<open>\<^verbatim>\<open>importPath.split('.').pop() || importPath\<close>\<close>
  "last_part importPath =
     (let l = last (split_char (CHR ''.'') importPath) in if l = [] then importPath else l)"

definition py_dependencies_at :: "string \<Rightarrow> ParsedDependency list" where
  "py_dependencies_at line =
     (case str_match line re_py_import of
        None \<Rightarrow> []
      | Some importMatch \<Rightarrow>
          (let importPath = group_text line importMatch 1;
               alias = match_group line importMatch 2;
               isExternal = (\<not> startsWith importPath ''.'')
           in [\<lparr>d_importPath = importPath, d_importType = Import, d_isExternal = isExternal,
                d_symbols =
                  (case alias of
                     None \<Rightarrow> [last_part importPath]
                   | Some a \<Rightarrow> if a = [] then [last_part importPath] else [a])\<rparr>])) @
     (case str_match line re_py_from of
        None \<Rightarrow> []
      | Some fromImportMatch \<Rightarrow>
          (let importPath = group_text line fromImportMatch 1;
               importedItems = group_text line fromImportMatch 2;
               isExternal = (\<not> startsWith importPath ''.'');
               symbols =
                 (if str_includes importedItems '','' then
                    map (\<lambda>s. before_sep '' as '' (trim s)) (split_char (CHR '','') importedItems)
                  else [before_sep '' as '' (trim importedItems)])
           in [\<lparr>d_importPath = importPath, d_importType = Import, d_isExternal = isExternal,
                d_symbols = symbols\<rparr>]))"

definition parsePythonDependencies :: "string \<Rightarrow> ParsedDependency list" where
  "parsePythonDependencies content = concat (map py_dependencies_at (split_lines content))"

definition re_java_import :: rx where
  \<comment> \<open>\<^verbatim>\<open>/^import\s+(?:static\s+)?([a-zA-Z_][a-zA-Z0-9_.]*(?:\.\*)?);?/\<close>\<close>
  "re_java_import =
     rx_seq [Bol, rx_lit ''import'', spaces1, kw ''static'',
             Grp 1 (rx_seq [Cls ident_start, Star dotted_char, rx_opt (rx_lit ''.*'')]),
             rx_opt (rx_lit '';'')]"

definition java_dependencies_at :: "string \<Rightarrow> string \<Rightarrow> ParsedDependency list" where
  "java_dependencies_at content line =
     (case str_match line re_java_import of
        None \<Rightarrow> []
      | Some importMatch \<Rightarrow>
          (let importPath = group_text line importMatch 1;
               isExternal = (\<not> startsWith importPath (getCurrentPackage content));
               symbols = (if endsWith importPath ''.*'' then [''*''] else [last_part importPath])
           in [\<lparr>d_importPath = importPath, d_importType = Import, d_isExternal = isExternal,
                d_symbols = symbols\<rparr>]))"

definition parseJavaDependencies :: "string \<Rightarrow> ParsedDependency list" where
  "parseJavaDependencies content =
     concat (map (java_dependencies_at content) (split_lines content))"

text \<open>
  \<^verbatim>\<open>parseDependencies\<close> has no test of \<^verbatim>\<open>content\<close>: in the three languages it reads, the
  first thing done is \<^verbatim>\<open>content.split('\n')\<close>, a \<^verbatim>\<open>TypeError\<close> on \<^verbatim>\<open>null\<close> and on
  \<^verbatim>\<open>undefined\<close>. The parameter \<^verbatim>\<open>filePath\<close> is not read.
\<close>

definition on_text :: "string option \<Rightarrow> (string \<Rightarrow> 'a) \<Rightarrow> error + 'a" where
  "on_text content f = (case content of None \<Rightarrow> Inl TypeError | Some text \<Rightarrow> Inr (f text))"

definition parseDependencies ::
  "string option \<Rightarrow> string \<Rightarrow> string \<Rightarrow> error + ParsedDependency list" where
  "parseDependencies content language filePath =
     (if language = ''javascript'' \<or> language = ''typescript''
        then on_text content parseJavaScriptDependencies
      else if language = ''python'' then on_text content parsePythonDependencies
      else if language = ''java'' then on_text content parseJavaDependencies
      else Inr [])"

section \<open>The world outside\<close>

text \<open>
  What the program reads from outside: the file system (content, size in bytes and
  modification time of each absolute path), the working directory of the process, the
  SHA-256 function, SQLite's clock at the moment the row of a path is written, the remote
  embedding service (the \<^verbatim>\<open>Float32Array\<close> made of its answer to a text, or \<open>None\<close> when the
  request fails),
  and \<^verbatim>\<open>Math.log\<close> and \<^verbatim>\<open>Math.sin\<close>, which the language leaves to the implementation to
  approximate.
\<close>

record FsEntry =
  fs_content :: string
  fs_size :: nat
  fs_mtime :: int

record Env =
  env_fs :: "string \<Rightarrow> FsEntry option"
  env_cwd :: string
  env_sha256 :: "string \<Rightarrow> string"
  env_clock :: "string \<Rightarrow> int"
  env_remote :: "string \<Rightarrow> number list option"
  env_log :: "real \<Rightarrow> real"
  env_sin :: "real \<Rightarrow> real"

section \<open>The embedding provider (EmbeddingGenerator.ts)\<close>

record EmbeddingGenerator =
  g_apiKey :: "string option"
  g_model :: string
  g_dimensions :: nat

definition or_default :: "nat option \<Rightarrow> nat \<Rightarrow> nat" where
  \<comment> \<open>\<^verbatim>\<open>options.x || d\<close>\<close>
  "or_default x d = (case x of None \<Rightarrow> d | Some n \<Rightarrow> if n = 0 then d else n)"

text \<open>
  The constructor: \<open>key\<close> is the environment variable \<^verbatim>\<open>OPENAI_API_KEY\<close>, \<open>dims\<close> is
  \<^verbatim>\<open>options.dimensions\<close>.
\<close>

definition new_EmbeddingGenerator :: "string option \<Rightarrow> nat option \<Rightarrow> EmbeddingGenerator" where
  "new_EmbeddingGenerator key dims =
     \<lparr>g_apiKey = (case key of None \<Rightarrow> None | Some k \<Rightarrow> if k = [] then None else Some k),
      g_model = ''text-embedding-3-small'',
      g_dimensions = or_default dims 1536\<rparr>"

text \<open>\<^verbatim>\<open>s.split(/\s+/)\<close>\<close>

function split_spaces :: "string \<Rightarrow> string list" where
  "split_spaces [] = [[]]"
| "split_spaces (c # s) =
     (if is_space c then [] # split_spaces (dropWhile is_space s)
      else (case split_spaces s of [] \<Rightarrow> [[c]] | x # xs \<Rightarrow> (c # x) # xs))"
  by pat_completeness auto
termination
  by (relation "measure length") (auto simp: length_dropWhile_le less_Suc_eq_le)

definition tokenize :: "string \<Rightarrow> string list" where
  "tokenize text =
     take 1000
       (filter (\<lambda>word. length word > 1)
          (split_spaces
             (map (\<lambda>c. if is_word c \<or> is_space c then c else CHR '' '') (toLowerCase text))))"

text \<open>
  \<^verbatim>\<open>hashString\<close>: \<^verbatim>\<open>hash << 5\<close> and \<^verbatim>\<open>hash & hash\<close> keep the hash a 32-bit integer, so the
  loop is arithmetic on a 32-bit word; \<^verbatim>\<open>Math.abs\<close> is taken of its signed value.
\<close>

definition hash_step :: "32 word \<Rightarrow> char \<Rightarrow> 32 word" where
  "hash_step hash c = (push_bit 5 hash - hash) + of_nat (of_char c)"

definition hashString :: "string \<Rightarrow> nat" where
  "hashString str = nat \<bar>sint (foldl hash_step 0 str)\<bar>"

text \<open>
  The \<^verbatim>\<open>Map\<close> of word counts keeps its keys in the order of their first insertion.
\<close>

fun count_word :: "string \<Rightarrow> (string \<times> nat) list \<Rightarrow> (string \<times> nat) list" where
  "count_word word [] = [(word, 1)]"
| "count_word word ((w, n) # rest) =
     (if w = word then (w, n + 1) # rest else (w, n) # count_word word rest)"

definition wordCounts :: "string list \<Rightarrow> (string \<times> nat) list" where
  "wordCounts words = foldl (\<lambda>counts word. count_word word counts) [] words"

definition scatter :: "Env \<Rightarrow> nat \<Rightarrow> real list \<Rightarrow> string \<times> nat \<Rightarrow> real list" where
  \<comment> \<open>the body of the loop over the entries of the map, with its inner loop over \<open>i\<close>\<close>
  "scatter env dimensions embedding entry =
     (let hash = hashString (fst entry); count = snd entry
      in foldl (\<lambda>emb i.
                  (let index = (hash + i * 17) mod dimensions;
                       v = env_log env (1 + real count) * env_sin env (real (hash * (i + 1)))
                   in emb[index := emb ! index + v]))
           embedding [0, 1, 2])"

definition generateLocalEmbedding :: "Env \<Rightarrow> EmbeddingGenerator \<Rightarrow> string \<Rightarrow> real list" where
  "generateLocalEmbedding env g text =
     (let words = tokenize text;
          counts = wordCounts words;
          embedding = foldl (scatter env (g_dimensions g)) (replicate (g_dimensions g) 0) counts;
          norm = sqrt (foldl (\<lambda>sum val. sum + val * val) 0 embedding)
      in if norm > 0 then map (\<lambda>val. val / norm) embedding else embedding)"

text \<open>
  \<^verbatim>\<open>generateEmbedding\<close>: the remote service when there is a key, the local method when there
  is none or when the request fails. The local method computes with logarithms of counts,
  sines, sums and a quotient by a positive norm, which are real numbers; what the remote
  service sends is any array of numbers.
\<close>

definition generateEmbedding :: "Env \<Rightarrow> EmbeddingGenerator \<Rightarrow> string \<Rightarrow> number list" where
  "generateEmbedding env g text =
     (case g_apiKey g of
        None \<Rightarrow> map Fin (generateLocalEmbedding env g text)
      | Some key \<Rightarrow>
          (case env_remote env (take 8000 text) of
             Some v \<Rightarrow> v
           | None \<Rightarrow> map Fin (generateLocalEmbedding env g text)))"

text \<open>
  \<^verbatim>\<open>cosineSimilarity\<close>, the same text in EmbeddingGenerator.ts and in SearchEngine.ts.
\<close>

definition cosine_sums :: "number list \<Rightarrow> number list \<Rightarrow> number \<times> number \<times> number" where
  "cosine_sums a b =
     foldl (\<lambda>(dotProduct, normA, normB) (x, y).
              (js_add dotProduct (js_mul x y), js_add normA (js_mul x x), js_add normB (js_mul y y)))
       (Fin 0, Fin 0, Fin 0) (zip a b)"

definition cosineSimilarity :: "number list \<Rightarrow> number list \<Rightarrow> number" where
  "cosineSimilarity a b =
     (if length a \<noteq> length b then Fin 0
      else
        (case cosine_sums a b of
           (dotProduct, normA, normB) \<Rightarrow>
             if normA = Fin 0 \<or> normB = Fin 0 then Fin 0
             else js_div dotProduct (js_mul (js_sqrt normA) (js_sqrt normB))))"

section \<open>The indexing pipeline (CodeIndexer.ts)\<close>

subsection \<open>Paths\<close>

text \<open>
  Node's \<^verbatim>\<open>path.resolve\<close> and \<^verbatim>\<open>path.relative\<close> on POSIX paths, on the components of a
  path: \<^verbatim>\<open>relative\<close> resolves both paths against the working directory, drops their common
  components and climbs out of what is left of \<open>from\<close>.
\<close>

definition push_segment :: "string list \<Rightarrow> string \<Rightarrow> string list" where
  "push_segment stack seg =
     (if seg = [] \<or> seg = ''.'' then stack
      else if seg = ''..'' then butlast stack
      else stack @ [seg])"

definition resolve :: "string \<Rightarrow> string \<Rightarrow> string list" where
  "resolve cwd p =
     foldl push_segment []
       (split_char (CHR ''/'') (if startsWith p ''/'' then p else cwd @ ''/'' @ p))"

fun drop_common :: "string list \<Rightarrow> string list \<Rightarrow> string list \<times> string list" where
  "drop_common (x # xs) (y # ys) = (if x = y then drop_common xs ys else (x # xs, y # ys))"
| "drop_common xs ys = (xs, ys)"

definition relative :: "string \<Rightarrow> string \<Rightarrow> string \<Rightarrow> string" where
  "relative cwd from to =
     (case drop_common (resolve cwd from) (resolve cwd to) of
        (up, down) \<Rightarrow> join ''/'' (map (\<lambda>_. ''..'') up @ down))"

subsection \<open>Chunks\<close>

record Chunk =
  c_content :: string
  c_startLine :: nat
  c_endLine :: nat
  c_type :: chunk_type
  c_symbolId :: "nat option"

definition maxChunkSize :: nat where
  "maxChunkSize = 500"

text \<open>
  The loop of \<^verbatim>\<open>splitIntoChunks\<close> over the lines, on its four variables
  \<^verbatim>\<open>chunks\<close>, \<^verbatim>\<open>currentChunk\<close>, \<^verbatim>\<open>chunkStartLine\<close> and \<^verbatim>\<open>currentLine\<close>.
\<close>

fun chunk_loop ::
  "string list \<Rightarrow> Chunk list \<Rightarrow> string \<Rightarrow> nat \<Rightarrow> nat \<Rightarrow> Chunk list \<times> string \<times> nat \<times> nat" where
  "chunk_loop [] chunks currentChunk chunkStartLine currentLine =
     (chunks, currentChunk, chunkStartLine, currentLine)"
| "chunk_loop (line # rest) chunks currentChunk chunkStartLine currentLine =
     (if length currentChunk + length line > maxChunkSize \<and> length currentChunk > 0
      then chunk_loop rest
             (chunks @ [\<lparr>c_content = trim currentChunk, c_startLine = chunkStartLine,
                          c_endLine = currentLine - 1, c_type = Code, c_symbolId = None\<rparr>])
             line currentLine (currentLine + 1)
      else chunk_loop rest chunks
             (currentChunk @ (if currentChunk \<noteq> [] then newline else []) @ line)
             chunkStartLine (currentLine + 1))"

text \<open>The parameter \<^verbatim>\<open>language\<close> of \<^verbatim>\<open>splitIntoChunks\<close> is not read by the source.\<close>

definition splitIntoChunks :: "string \<Rightarrow> string \<Rightarrow> Chunk list" where
  "splitIntoChunks content language =
     (case chunk_loop (split_lines content) [] [] 1 1 of
        (chunks, currentChunk, chunkStartLine, currentLine) \<Rightarrow>
          if trim currentChunk \<noteq> []
          then chunks @ [\<lparr>c_content = trim currentChunk, c_startLine = chunkStartLine,
                           c_endLine = currentLine - 1, c_type = Code, c_symbolId = None\<rparr>]
          else chunks)"

subsection \<open>Indexing one file\<close>

text \<open>
  A method of the indexer that writes to the store gives the store as it leaves it and the
  error it throws, if any: what was written before a \<^verbatim>\<open>throw\<close> stays written, since the
  source opens no transaction.
\<close>

type_synonym outcome = "DatabaseManager \<times> error option"

definition then_do :: "error + 'a \<Rightarrow> DatabaseManager \<Rightarrow> ('a \<Rightarrow> outcome) \<Rightarrow> outcome" where
  \<comment> \<open>\<^verbatim>\<open>await\<close> of a store call made on \<open>db\<close>: its error ends the method there\<close>
  "then_do r db f = (case r of Inl e \<Rightarrow> (db, Some e) | Inr x \<Rightarrow> f x)"

text \<open>
  \<^verbatim>\<open>generateFileEmbeddings\<close>: the loop stops at the first error, which the \<^verbatim>\<open>catch\<close> logs
  and drops.
\<close>

fun embed_chunks ::
  "Env \<Rightarrow> EmbeddingGenerator \<Rightarrow> nat \<Rightarrow> string \<Rightarrow> Chunk list \<Rightarrow> nat \<Rightarrow> DatabaseManager \<Rightarrow>
   DatabaseManager" where
  "embed_chunks env g fileId language [] i db = db"
| "embed_chunks env g fileId language (chunk # rest) i db =
     (let embedding = generateEmbedding env g (c_content chunk)
      in case insertEmbedding db
                \<lparr>e_fileId = fileId, e_symbolId = c_symbolId chunk, e_chunkIndex = i,
                 e_content = c_content chunk, e_embedding = embedding,
                 e_metadata = \<lparr>m_language = language, m_startLine = c_startLine chunk,
                               m_endLine = c_endLine chunk, m_type = c_type chunk\<rparr>\<rparr> of
           Inl e \<Rightarrow> db
         | Inr (_, db') \<Rightarrow> embed_chunks env g fileId language rest (i + 1) db')"

definition generateFileEmbeddings ::
  "Env \<Rightarrow> EmbeddingGenerator \<Rightarrow> DatabaseManager \<Rightarrow> nat \<Rightarrow> string \<Rightarrow> string \<Rightarrow> DatabaseManager" where
  "generateFileEmbeddings env g db fileId content language =
     embed_chunks env g fileId language (splitIntoChunks content language) 0 db"

fun insert_symbols :: "DatabaseManager \<Rightarrow> nat \<Rightarrow> ParsedSymbol list \<Rightarrow> outcome" where
  "insert_symbols db fileId [] = (db, None)"
| "insert_symbols db fileId (symbol # rest) =
     then_do (insertSymbol db (ParsedSymbol.extend symbol \<lparr>s_fileId = fileId\<rparr>)) db
       (\<lambda>(_, db'). insert_symbols db' fileId rest)"

fun insert_dependencies :: "DatabaseManager \<Rightarrow> nat \<Rightarrow> ParsedDependency list \<Rightarrow> outcome" where
  "insert_dependencies db fileId [] = (db, None)"
| "insert_dependencies db fileId (dependency # rest) =
     then_do (getFile db (d_importPath dependency)) db
       (\<lambda>targetFileRecord.
          then_do (insertDependency db
                     (ParsedDependency.extend dependency
                        \<lparr>d_sourceFileId = fileId,
                         d_targetFileId = map_option f_id targetFileRecord\<rparr>)) db
            (\<lambda>(_, db'). insert_dependencies db' fileId rest))"

definition index_symbols_and_dependencies ::
  "DatabaseManager \<Rightarrow> nat \<Rightarrow> string \<Rightarrow> string \<Rightarrow> string \<Rightarrow> outcome" where
  \<comment> \<open>the body of \<^verbatim>\<open>if (this.languageParser.isSupported(language))\<close>\<close>
  "index_symbols_and_dependencies db fileId content language relativePath =
     then_do (parseSymbols (Some content) language) db
       (\<lambda>symbols.
          case insert_symbols db fileId symbols of
            (db1, Some e) \<Rightarrow> (db1, Some e)
          | (db1, None) \<Rightarrow>
              then_do (parseDependencies (Some content) language relativePath) db1
                (\<lambda>dependencies. insert_dependencies db1 fileId dependencies))"

definition indexFile ::
  "Env \<Rightarrow> EmbeddingGenerator \<Rightarrow> DatabaseManager \<Rightarrow> string \<Rightarrow> string \<Rightarrow> outcome" where
  "indexFile env g db filePath repoPath =
     (let relativePath = relative (env_cwd env) repoPath filePath
      in case env_fs env filePath of
           None \<Rightarrow> (db, Some FsError)
         | Some stats \<Rightarrow>
             (let content = fs_content stats;
                  hash = env_sha256 env content;
                  language = detectLanguage filePath;
                  fileRecord = \<lparr>f_path = relativePath, f_content = content, f_hash = hash,
                                f_size = fs_size stats, f_language = language,
                                f_lastModified = fs_mtime stats\<rparr>
              in then_do (insertFile db (env_clock env relativePath) fileRecord) db
                   (\<lambda>(fileId, db1).
                      then_do (clearSymbolsByFile db1 fileId) db1
                        (\<lambda>db2.
                           then_do (clearDependenciesByFile db2 fileId) db2
                             (\<lambda>db3.
                                then_do (clearEmbeddingsByFile db3 fileId) db3
                                  (\<lambda>db4.
                                     case (if isSupported language
                                           then index_symbols_and_dependencies db4 fileId content
                                                  language relativePath
                                           else (db4, None)) of
                                       (db5, Some e) \<Rightarrow> (db5, Some e)
                                     | (db5, None) \<Rightarrow>
                                         (generateFileEmbeddings env g db5 fileId content language,
                                          None)))))))"

definition updateFile ::
  "Env \<Rightarrow> EmbeddingGenerator \<Rightarrow> DatabaseManager \<Rightarrow> string \<Rightarrow> string \<Rightarrow> outcome" where
  "updateFile env g db filePath repoPath = indexFile env g db filePath repoPath"

definition removeFile :: "Env \<Rightarrow> DatabaseManager \<Rightarrow> string \<Rightarrow> string \<Rightarrow> outcome" where
  "removeFile env db filePath repoPath =
     then_do (deleteFile db (relative (env_cwd env) repoPath filePath)) db (\<lambda>db'. (db', None))"

subsection \<open>Scanning a repository\<close>

definition shouldProcessFile :: "Env \<Rightarrow> DatabaseManager \<Rightarrow> string \<Rightarrow> bool \<Rightarrow> bool" where
  "shouldProcessFile env db filePath force =
     (if force then True
      else
        (case env_fs env filePath of
           None \<Rightarrow> False
         | Some stats \<Rightarrow>
             if fs_size stats > 1024 * 1024 then False
             else
               (let relativePath = relative (env_cwd env) (env_cwd env) filePath
                in case getFile db relativePath of
                     Inl e \<Rightarrow> False
                   | Inr existingFile \<Rightarrow>
                       (case existingFile of
                          None \<Rightarrow> True
                        | Some existing \<Rightarrow>
                            if f_lastModified existing \<ge> fs_mtime stats then False else True))))"

record ScanSummary =
  processed :: nat
  skipped :: nat
  errors :: nat

text \<open>
  \<^verbatim>\<open>indexRepository\<close>. \<open>found\<close> is what \<^verbatim>\<open>findCodeFiles(repoPath)\<close> returns, the absolute paths
  that the glob library finds under the root and the ignore filter lets through, in that
  order. The three counters are what the source logs at the end.
\<close>

fun scan_files ::
  "Env \<Rightarrow> EmbeddingGenerator \<Rightarrow> string \<Rightarrow> bool \<Rightarrow> string list \<Rightarrow> DatabaseManager \<times> ScanSummary \<Rightarrow>
   DatabaseManager \<times> ScanSummary" where
  "scan_files env g repoPath force [] (db, n) = (db, n)"
| "scan_files env g repoPath force (filePath # rest) (db, n) =
     scan_files env g repoPath force rest
       (if shouldProcessFile env db filePath force
        then (case indexFile env g db filePath repoPath of
                (db', None) \<Rightarrow> (db', n\<lparr>processed := processed n + 1\<rparr>)
              | (db', Some e) \<Rightarrow> (db', n\<lparr>errors := errors n + 1\<rparr>))
        else (db, n\<lparr>skipped := skipped n + 1\<rparr>))"

definition indexRepository ::
  "Env \<Rightarrow> EmbeddingGenerator \<Rightarrow> DatabaseManager \<Rightarrow> string \<Rightarrow> bool \<Rightarrow> string list \<Rightarrow>
   DatabaseManager \<times> ScanSummary" where
  "indexRepository env g db repoPath force found =
     scan_files env g repoPath force found (db, \<lparr>processed = 0, skipped = 0, errors = 0\<rparr>)"

section \<open>The retrieval engine (SearchEngine.ts)\<close>

record SearchOptions =
  o_limit :: "number option"
  o_fileExtensions :: "string list option"
  o_threshold :: "number option"

record Match =
  mt_start :: nat
  mt_end :: nat
  mt_text :: string

record SearchResult =
  r_file :: FileRecord
  r_symbol :: "SymbolRecord option"
  r_score :: number
  r_snippet :: string
  r_line :: nat
  r_matches :: "Match list"

definition getFileExtension :: "string \<Rightarrow> string" where
  "getFileExtension filePath =
     (let parts = split_char (CHR ''.'') filePath
      in if length parts > 1 then CHR ''.'' # last parts else [])"

text \<open>
  \<^verbatim>\<open>findMatches\<close>: the \<^verbatim>\<open>while\<close> loop over \<^verbatim>\<open>indexOf(word, index + 1)\<close> visits every position
  where the word starts, from left to right.
\<close>

fun occurrences :: "nat \<Rightarrow> string \<Rightarrow> string \<Rightarrow> nat list" where
  "occurrences i [] word = []"
| "occurrences i (c # s) word =
     (if startsWith (c # s) word then [i] else []) @ occurrences (Suc i) s word"

definition findMatches :: "string \<Rightarrow> string \<Rightarrow> Match list" where
  "findMatches query content =
     (let queryWords = split_spaces (toLowerCase query);
          contentLower = toLowerCase content
      in sort_key mt_start
           (concat (map (\<lambda>word.
                      if length word < 2 then []
                      else map (\<lambda>index. \<lparr>mt_start = index, mt_end = index + length word,
                                          mt_text = js_slice index (index + length word) content\<rparr>)
                             (occurrences 0 contentLower word))
                    queryWords)))"

text \<open>
  The body of the loop of \<^verbatim>\<open>searchCode\<close> over the candidates, up to \<^verbatim>\<open>results.push\<close>:
  the result to push, or \<open>None\<close> where the source says \<^verbatim>\<open>continue\<close>. The source keeps the
  files it has looked up in a \<^verbatim>\<open>Map\<close>; the store does not change during the call, so every
  lookup is the same search of \<^verbatim>\<open>getAllFiles\<close>.
\<close>

definition search_result ::
  "DatabaseManager \<Rightarrow> string \<Rightarrow> string list option \<Rightarrow> EmbeddingRecord \<times> number \<Rightarrow>
   error + SearchResult option" where
  "search_result db query fileExtensions candidate =
     (case candidate of
        (embedding, score) \<Rightarrow>
          bind_e (getAllFiles db)
            (\<lambda>files.
               case find (\<lambda>f. f_id f = e_fileId embedding) files of
                 None \<Rightarrow> Inr None
               | Some file \<Rightarrow>
                   if (case fileExtensions of
                         None \<Rightarrow> False
                       | Some exts \<Rightarrow> length exts > 0 \<and> getFileExtension (f_path file) \<notin> set exts)
                   then Inr None
                   else
                     bind_e (case or_null (e_symbolId embedding) of
                               None \<Rightarrow> Inr None
                             | Some symbolId \<Rightarrow>
                                 bind_e (getSymbolsByFile db (e_fileId embedding))
                                   (\<lambda>symbols. Inr (find (\<lambda>s. s_id s = symbolId) symbols)))
                       (\<lambda>symbol.
                          (let content = e_content embedding;
                               snippet = take 200 content @
                                 (if length content > 200 then ''...'' else []);
                               matches = findMatches query content
                           in Inr (Some \<lparr>r_file = file, r_symbol = symbol, r_score = score,
                                         r_snippet = snippet,
                                         r_line = or_else (m_startLine (e_metadata embedding)) 1,
                                         r_matches = matches\<rparr>)))))"

text \<open>
  The loop itself, with its \<^verbatim>\<open>break\<close> after a \<^verbatim>\<open>push\<close> that makes
  \<^verbatim>\<open>results.length >= limit\<close> true.
\<close>

fun build_results ::
  "DatabaseManager \<Rightarrow> string \<Rightarrow> number \<Rightarrow> string list option \<Rightarrow>
   (EmbeddingRecord \<times> number) list \<Rightarrow> SearchResult list \<Rightarrow> error + SearchResult list" where
  "build_results db query limit fileExtensions [] results = Inr results"
| "build_results db query limit fileExtensions (candidate # rest) results =
     bind_e (search_result db query fileExtensions candidate)
       (\<lambda>found.
          case found of
            None \<Rightarrow> build_results db query limit fileExtensions rest results
          | Some result \<Rightarrow>
              if js_ge (Fin (real (length (results @ [result])))) limit
              then Inr (results @ [result])
              else build_results db query limit fileExtensions rest (results @ [result]))"

text \<open>
  \<^verbatim>\<open>searchCode\<close>. \<^verbatim>\<open>limit\<close> and \<^verbatim>\<open>threshold\<close> are any numbers, 10 and 0.7 when the
  options leave them out. A score that is \<^verbatim>\<open>NaN\<close> fails \<^verbatim>\<open>item.score >= threshold\<close>. The
  comparator of the sort is \<^verbatim>\<open>b.score - a.score\<close>. An error anywhere is caught and the
  result is the empty array.
\<close>

definition searchCode ::
  "Env \<Rightarrow> EmbeddingGenerator \<Rightarrow> DatabaseManager \<Rightarrow> string \<Rightarrow> SearchOptions \<Rightarrow> SearchResult list" where
  "searchCode env g db query options =
     (let limit = (case o_limit options of None \<Rightarrow> Fin 10 | Some l \<Rightarrow> l);
          fileExtensions = o_fileExtensions options;
          threshold = (case o_threshold options of None \<Rightarrow> Fin (7 / 10) | Some t \<Rightarrow> t);
          queryEmbedding = generateEmbedding env g query
      in case bind_e (getAllEmbeddings db)
                (\<lambda>embeddings.
                   (let similarities =
                          map (\<lambda>embedding.
                                 (embedding, cosineSimilarity queryEmbedding (e_embedding embedding)))
                            embeddings;
                        filteredSimilarities =
                          array_slice_to (js_mul limit (Fin 2))
                            (sort_by (\<lambda>a b. js_sub (snd b) (snd a))
                               (filter (\<lambda>item. js_ge (snd item) threshold) similarities))
                    in build_results db query limit fileExtensions filteredSimilarities [])) of
           Inl e \<Rightarrow> []
         | Inr results \<Rightarrow> results)"

subsection \<open>References\<close>

datatype reference_type = Definition | Usage | ImportRef

record ReferenceResult =
  ref_file :: FileRecord
  ref_line :: nat
  ref_column :: nat
  ref_context :: string
  ref_type :: reference_type

text \<open>
  The loop \<^verbatim>\<open>while ((match = symbolRegex.exec(line)) !== null)\<close> on a pattern with the
  \<^verbatim>\<open>g\<close> flag: \<^verbatim>\<open>exec\<close> searches from \<^verbatim>\<open>lastIndex\<close>, moves \<^verbatim>\<open>lastIndex\<close> to the end of the
  match, and sets it back to 0 when nothing is found. \<open>exec_all\<close> gives the positions where
  the matches start. A match that ends where the search began leaves \<^verbatim>\<open>lastIndex\<close> in
  place, the next \<^verbatim>\<open>exec\<close> finds it again and the loop of the source never ends: that is
  the result \<open>None\<close>.
\<close>

function exec_all :: "rx \<Rightarrow> string \<Rightarrow> nat \<Rightarrow> nat list option" where
  "exec_all r line lastIndex =
     (case rx_search r (rev (take lastIndex line)) (drop lastIndex line) of
        None \<Rightarrow> Some []
      | Some (start, e, cs) \<Rightarrow>
          if lastIndex < e then map_option ((#) start) (exec_all r line e) else None)"
  by pat_completeness auto
termination
proof -
  have run: "rx_run k pre s cs = Some (cs', e) \<Longrightarrow> e \<le> length pre + length s"
    for k pre s cs cs' e
    by (induction k pre s cs rule: rx_run.induct) (auto split: option.splits if_splits)
  have search: "rx_search r pre s = Some (start, e, cs) \<Longrightarrow> e \<le> length pre + length s"
    for r pre s start e cs
    by (induction r pre s rule: rx_search.induct) (auto split: option.splits dest: run)
  have step: "length line - e < length line - i"
    if "rx_search r (rev (take i line)) (drop i line) = Some (start, e, cs)" and "i < e"
    for r line i start e cs
    using search [OF that(1)] that(2) by simp
  show ?thesis
    by (relation "measure (\<lambda>(r, line, lastIndex). length line - lastIndex)")
      (auto dest: step)
qed

text \<open>
  The test \<^verbatim>\<open>symbols.some(...)\<close> of the source: the line lies in the span of a symbol of
  that name in that file.
\<close>

definition isDefinition :: "SymbolRecord list \<Rightarrow> FileRecord \<Rightarrow> nat \<Rightarrow> bool" where
  "isDefinition syms file lineIndex =
     (\<exists>s \<in> set syms.
        s_fileId s = f_id file \<and> lineIndex + 1 \<ge> s_startLine s \<and> lineIndex + 1 \<le> s_endLine s)"

definition usages_in_line ::
  "rx \<Rightarrow> SymbolRecord list \<Rightarrow> FileRecord \<Rightarrow> nat \<times> string \<Rightarrow> ReferenceResult list option" where
  "usages_in_line symbolRegex syms file il =
     (case il of
        (lineIndex, line) \<Rightarrow>
          map_option
            (\<lambda>starts.
               concat (map (\<lambda>index.
                          if \<not> isDefinition syms file lineIndex
                          then [\<lparr>ref_file = file, ref_line = lineIndex + 1, ref_column = index + 1,
                                 ref_context = trim line, ref_type = Usage\<rparr>]
                          else [])
                        starts))
            (exec_all symbolRegex line 0))"

text \<open>A sequence of loops, each of which may fail to end: the first that does not ends all.\<close>

fun all_or_none :: "'a list option list \<Rightarrow> 'a list option" where
  "all_or_none [] = Some []"
| "all_or_none (None # rest) = None"
| "all_or_none (Some xs # rest) = map_option ((@) xs) (all_or_none rest)"

definition usages_in_file :: "rx \<Rightarrow> SymbolRecord list \<Rightarrow> FileRecord \<Rightarrow> ReferenceResult list option" where
  "usages_in_file symbolRegex syms file =
     all_or_none (map (usages_in_line symbolRegex syms file)
                    (enumerate 0 (split_lines (f_content file))))"

definition definitions_of ::
  "SymbolRecord list \<Rightarrow> FileRecord list \<Rightarrow> string option \<Rightarrow> ReferenceResult list" where
  "definitions_of syms fls filePath =
     concat (map (\<lambda>symbol.
               case find (\<lambda>f. f_id f = s_fileId symbol) fls of
                 None \<Rightarrow> []
               | Some file \<Rightarrow>
                   if (case filePath of None \<Rightarrow> False | Some p \<Rightarrow> p \<noteq> [] \<and> f_path file \<noteq> p)
                   then []
                   else [\<lparr>ref_file = file, ref_line = s_startLine symbol,
                          ref_column = s_startColumn symbol,
                          ref_context = take 100 (s_definition symbol) @
                            (if length (s_definition symbol) > 100 then ''...'' else []),
                          ref_type = Definition\<rparr>])
             syms)"

text \<open>
  \<^verbatim>\<open>getReferences\<close>. \<open>RegExp\<close> is the constructor of the regular expression engine: the
  pattern that a source text compiles to, or the \<^verbatim>\<open>SyntaxError\<close> it throws. The name of the
  symbol is pasted into the source text as it is. The result is \<open>None\<close> when the call does
  not return; an error is caught and the result is the empty array.
\<close>

definition getReferences ::
  "(string \<Rightarrow> error + rx) \<Rightarrow> DatabaseManager \<Rightarrow> string \<Rightarrow> string option \<Rightarrow>
   ReferenceResult list option" where
  "getReferences RegExp db symbolName filePath =
     (case findSymbolsByName db symbolName None of
        Inl e \<Rightarrow> Some []
      | Inr syms \<Rightarrow>
          (case getAllFiles db of
             Inl e \<Rightarrow> Some []
           | Inr allFiles \<Rightarrow>
               (case RegExp ([CHR 0x5C, CHR ''b''] @ symbolName @ [CHR 0x5C, CHR ''b'']) of
                  Inl e \<Rightarrow> Some []
                | Inr symbolRegex \<Rightarrow>
                    map_option (\<lambda>usages. definitions_of syms allFiles filePath @ usages)
                      (all_or_none (map (usages_in_file symbolRegex syms) allFiles)))))"

text \<open>
  What \<open>RegExp\<close> gives for a name made of letters, digits and underscores: the name between
  two word boundaries.
\<close>

definition RegExp_word :: "string \<Rightarrow> string \<Rightarrow> error + rx" where
  "RegExp_word name source =
     (if source = [CHR 0x5C, CHR ''b''] @ name @ [CHR 0x5C, CHR ''b''] \<and> list_all is_word name
      then Inr (rx_word name) else Inl SyntaxError)"

text \<open>The Euclidean norm of a vector.\<close>

definition sum_squares :: "real list \<Rightarrow> real" where
  "sum_squares a = sum_list (map (\<lambda>x. x * x) a)"

definition vec_norm :: "real list \<Rightarrow> real" where
  "vec_norm a = sqrt (sum_squares a)"

section \<open>Concrete stores and files\<close>

text \<open>
  The file of the test \<^verbatim>\<open>should delete files and related data\<close>, and a store that
  holds it with one symbol, one embedding and one dependency.
\<close>

definition temp_file :: FileInput where
  "temp_file =
     \<lparr>f_path = ''src/temp.ts'', f_content = ''function test() { return true; }'',
      f_hash = ''hash123'', f_size = 35, f_language = ''typescript'', f_lastModified = 0\<rparr>"

definition fill_store :: "DatabaseManager \<Rightarrow> error + (nat \<times> DatabaseManager)" where
  "fill_store db =
     bind_e (insertFile db 0 temp_file)
       (\<lambda>(fileId, db1).
          bind_e (insertSymbol db1
                    \<lparr>s_name = ''test'', s_type = Function, s_startLine = 1, s_endLine = 1,
                     s_startColumn = 1, s_endColumn = 33,
                     s_definition = ''function test() { return true; }'', s_docstring = None,
                     s_modifiers = [], s_fileId = fileId\<rparr>)
            (\<lambda>(symbolId, db2).
               bind_e (insertEmbedding db2
                         \<lparr>e_fileId = fileId, e_symbolId = None, e_chunkIndex = 0,
                          e_content = ''function test() { return true; }'',
                          e_embedding = [Fin 1, Fin 0],
                          e_metadata = \<lparr>m_language = ''typescript'', m_startLine = 1,
                                        m_endLine = 1, m_type = Code\<rparr>\<rparr>)
                 (\<lambda>(embeddingId, db3).
                    bind_e (insertDependency db3
                              \<lparr>d_importPath = ''./util'', d_importType = Import,
                               d_isExternal = False, d_symbols = [''util''],
                               d_sourceFileId = fileId, d_targetFileId = None\<rparr>)
                      (\<lambda>(dependencyId, db4). Inr (fileId, db4)))))"

text \<open>
  The text of the test \<^verbatim>\<open>should handle malformed code gracefully\<close>, in which no brace is
  closed, and the two symbols that \<^verbatim>\<open>parseSymbols\<close> finds in it.
\<close>

definition broken_code :: string where
  "broken_code =
     join newline ['''', ''class Broken {'', ''  method() {'', ''    // Missing brace'', '''']"

definition broken_symbols :: "ParsedSymbol list" where
  "broken_symbols =
     [\<lparr>s_name = ''Broken'', s_type = Class, s_startLine = 2, s_endLine = 2,
       s_startColumn = 1, s_endColumn = 15,
       s_definition = join newline [''class Broken {'', ''  method() {'', ''    // Missing brace''],
       s_docstring = None, s_modifiers = []\<rparr>,
      \<lparr>s_name = ''method'', s_type = Method, s_startLine = 3, s_endLine = 3,
       s_startColumn = 3, s_endColumn = 13,
       s_definition = join newline [''method() {'', ''    // Missing brace''],
       s_docstring = None, s_modifiers = []\<rparr>]"

definition well_spanned :: "ParsedSymbol \<Rightarrow> bool" where
  "well_spanned s = (1 \<le> s_startLine s \<and> s_startLine s \<le> s_endLine s)"

text \<open>
  An environment in which \<^verbatim>\<open>Math.log\<close> and \<^verbatim>\<open>Math.sin\<close> are the exact functions, and
  which has no files and no remote service.
\<close>

definition local_env :: Env where
  "local_env =
     \<lparr>env_fs = (\<lambda>p. None), env_cwd = ''/'', env_sha256 = (\<lambda>s. s), env_clock = (\<lambda>p. 0),
      env_remote = (\<lambda>t. None), env_log = ln, env_sin = sin\<rparr>"

text \<open>
  What a list of chunks is measured against: its line ranges follow each other from a
  given line on; \<^verbatim>\<open>currentChunk += (currentChunk ? '\n' : '') + line\<close> as a function; the
  number of characters of a text that are not line separators.
\<close>

fun contiguous :: "nat \<Rightarrow> Chunk list \<Rightarrow> bool" where
  "contiguous n [] = True"
| "contiguous n (c # cs) =
     (c_startLine c = n \<and> n \<le> c_endLine c \<and> contiguous (c_endLine c + 1) cs)"

definition append_line :: "string \<Rightarrow> string \<Rightarrow> string" where
  "append_line currentChunk line =
     currentChunk @ (if currentChunk \<noteq> [] then newline else []) @ line"

definition line_text :: "string \<Rightarrow> nat" where
  "line_text s = length (filter (\<lambda>x. x \<noteq> CHR 0x0A) s)"

definition bounded_text :: "string \<Rightarrow> bool" where
  "bounded_text s = (CHR 0x0A \<notin> set s \<or> line_text s \<le> maxChunkSize)"

definition chunk_ok :: "string list \<Rightarrow> Chunk \<Rightarrow> bool" where
  "chunk_ok lines c =
     (c_endLine c \<le> length lines \<and>
      c_content c = trim (join newline (js_slice (c_startLine c - 1) (c_endLine c) lines)) \<and>
      bounded_text (c_content c))"

definition next_line :: "Chunk list \<Rightarrow> nat" where
  "next_line chunks = (if chunks = [] then 1 else c_endLine (last chunks) + 1)"

definition chunk_inv ::
  "string list \<Rightarrow> string list \<Rightarrow> Chunk list \<Rightarrow> string \<Rightarrow> nat \<Rightarrow> nat \<Rightarrow> bool" where
  "chunk_inv lines seen chunks cur start line =
     (line = length seen + 1 \<and> 1 \<le> start \<and> start \<le> line \<and> (cur \<noteq> [] \<longrightarrow> start < line) \<and>
      cur = foldl append_line [] (drop (start - 1) seen) \<and>
      contiguous 1 chunks \<and> start = next_line chunks \<and>
      (\<forall>c \<in> set chunks. chunk_ok lines c) \<and> bounded_text cur)"

text \<open>
  A text of two lines of 300 characters, as the only file of a repository, and a text of
  one line of 501 characters.
\<close>

definition long_lines :: string where
  "long_lines = replicate 300 (CHR ''a'') @ newline @ replicate 300 (CHR ''b'')"

definition notes_stats :: FsEntry where
  "notes_stats = \<lparr>fs_content = long_lines, fs_size = 601, fs_mtime = 1000\<rparr>"

definition chunk_env :: Env where
  "chunk_env =
     \<lparr>env_fs = (\<lambda>p. if p = ''/repo/notes.txt'' then Some notes_stats else None),
      env_cwd = ''/repo'', env_sha256 = (\<lambda>s. ''0''), env_clock = (\<lambda>p. 2000),
      env_remote = (\<lambda>t. None), env_log = ln, env_sin = sin\<rparr>"

definition one_long_line :: string where
  "one_long_line = replicate 501 (CHR ''a'')"

subsection \<open>A store of three vectors\<close>

text \<open>
  One file with three stored vectors, and a provider that answers every query with the vector
  \<open>[1, 0]\<close>: the similarities are 1, 0 and 4/5.
\<close>

definition search_env :: Env where
  "search_env =
     \<lparr>env_fs = (\<lambda>p. None), env_cwd = ''/repo'', env_sha256 = (\<lambda>s. ''0''),
      env_clock = (\<lambda>p. 0), env_remote = (\<lambda>t. Some [Fin 1, Fin 0]), env_log = ln,
      env_sin = sin\<rparr>"

definition search_gen :: EmbeddingGenerator where
  "search_gen = new_EmbeddingGenerator (Some ''key'') None"

definition math_file :: FileInput where
  "math_file =
     \<lparr>f_path = ''src/math.ts'', f_content = ''function add(a, b) { return a + b; }'',
      f_hash = ''0'', f_size = 36, f_language = ''typescript'', f_lastModified = 0\<rparr>"

definition vector_row :: "nat \<Rightarrow> nat \<Rightarrow> string \<Rightarrow> number list \<Rightarrow> EmbeddingInput" where
  "vector_row fileId i content v =
     \<lparr>e_fileId = fileId, e_symbolId = None, e_chunkIndex = i, e_content = content,
      e_embedding = v,
      e_metadata = \<lparr>m_language = ''typescript'', m_startLine = i + 1, m_endLine = i + 1,
                    m_type = Code\<rparr>\<rparr>"

definition search_store :: DatabaseManager where
  "search_store =
     (case bind_e (insertFile initialize 0 math_file)
             (\<lambda>(fileId, db1).
                bind_e (insertEmbedding db1 (vector_row fileId 0 ''function add'' [Fin 1, Fin 0]))
                  (\<lambda>(i1, db2).
                     bind_e (insertEmbedding db2 (vector_row fileId 1 ''return'' [Fin 0, Fin 1]))
                       (\<lambda>(i2, db3).
                          insertEmbedding db3 (vector_row fileId 2 ''a + b'' [Fin 4, Fin 3])))) of
        Inl e \<Rightarrow> None
      | Inr (i3, db4) \<Rightarrow> db4)"

definition search_options :: SearchOptions where
  "search_options = \<lparr>o_limit = Some (Fin 5), o_fileExtensions = None, o_threshold = None\<rparr>"

text \<open>The same search with a limit of one half.\<close>

definition half_options :: SearchOptions where
  "half_options = \<lparr>o_limit = Some (Fin (1 / 2)), o_fileExtensions = None, o_threshold = None\<rparr>"

subsection \<open>A repository of two modules\<close>

text \<open>
  Two files under \<^verbatim>\<open>/repo\<close>, of which \<^verbatim>\<open>b.js\<close> imports \<^verbatim>\<open>a.js\<close> by a relative path; an
  environment that holds them, with a working directory and a time of the clock to choose;
  the scan of the two files from the root; and two scans of \<^verbatim>\<open>a.js\<close> one after the other
  from the working directory \<^verbatim>\<open>/work\<close>, the file system unchanged between them. \<open>row_ids\<close>
  reads off a store the rows of its files (id, path, modification time, time of indexing)
  and the ids of its symbols and of its embeddings.
\<close>

definition module_a :: FsEntry where
  "module_a = \<lparr>fs_content = ''export const x = 1;'', fs_size = 19, fs_mtime = 100\<rparr>"

definition module_b :: FsEntry where
  "module_b = \<lparr>fs_content = ''import { x } from './a';'', fs_size = 24, fs_mtime = 100\<rparr>"

definition two_files :: "string \<Rightarrow> FsEntry option" where
  "two_files p =
     (if p = ''/repo/a.js'' then Some module_a
      else if p = ''/repo/b.js'' then Some module_b
      else None)"

definition repo_env :: "string \<Rightarrow> int \<Rightarrow> Env" where
  "repo_env cwd now =
     \<lparr>env_fs = two_files, env_cwd = cwd, env_sha256 = (\<lambda>s. s), env_clock = (\<lambda>p. now),
      env_remote = (\<lambda>t. Some [Fin 1, Fin 0]), env_log = ln, env_sin = sin\<rparr>"

definition two_file_scan :: "DatabaseManager \<times> ScanSummary" where
  "two_file_scan =
     indexRepository (repo_env ''/repo'' 200) search_gen initialize ''/repo'' False
       [''/repo/a.js'', ''/repo/b.js'']"

definition first_scan :: "DatabaseManager \<times> ScanSummary" where
  "first_scan =
     indexRepository (repo_env ''/work'' 200) search_gen initialize ''/repo'' False [''/repo/a.js'']"

definition second_scan :: "DatabaseManager \<times> ScanSummary" where
  "second_scan =
     indexRepository (repo_env ''/work'' 300) search_gen (fst first_scan) ''/repo'' False
       [''/repo/a.js'']"

definition row_ids :: "DatabaseManager \<Rightarrow> (nat \<times> string \<times> int \<times> int) list \<times> nat list \<times> nat list" where
  "row_ids db =
     (case db of
        None \<Rightarrow> ([], [], [])
      | Some c \<Rightarrow>
          (map (\<lambda>f. (f_id f, f_path f, f_lastModified f, f_indexedAt f)) (files c),
           map s_id (symbols c), map e_id (embeddings c)))"

subsection \<open>A file with a function and a call of it\<close>

text \<open>
  A store that holds one file with its symbols, and the references to \<^verbatim>\<open>add\<close> in it.
\<close>

definition calc_file :: FileInput where
  "calc_file =
     \<lparr>f_path = ''calc.js'',
      f_content = join newline [''function add(a, b) {'', ''  return a + b;'', ''}'', ''add(1, 2);''],
      f_hash = ''0'', f_size = 50, f_language = ''javascript'', f_lastModified = 0\<rparr>"

definition calc_store :: DatabaseManager where
  "calc_store =
     (case insertFile initialize 0 calc_file of
        Inl e \<Rightarrow> None
      | Inr (fileId, db1) \<Rightarrow>
          (case parseSymbols (Some (f_content calc_file)) ''javascript'' of
             Inl e \<Rightarrow> None
           | Inr syms \<Rightarrow> fst (insert_symbols db1 fileId syms)))"

definition calc_connection :: connection where
  "calc_connection = (case calc_store of None \<Rightarrow> new_connection | Some c \<Rightarrow> c)"

definition calc_references :: "ReferenceResult list" where
  "calc_references =
     (case getReferences (RegExp_word ''add'') calc_store ''add'' None of
        None \<Rightarrow> []
      | Some results \<Rightarrow> results)"

section \<open>Properties of the similarity\<close>

lemma cosine_sums_acc:
  "length a = length b \<Longrightarrow>
   foldl (\<lambda>(dotProduct, normA, normB) (x, y).
            (js_add dotProduct (js_mul x y), js_add normA (js_mul x x), js_add normB (js_mul y y)))
     (Fin d, Fin na, Fin nb) (zip (map Fin a) (map Fin b))
   = (Fin (d + sum_list (map2 (*) a b)), Fin (na + sum_squares a), Fin (nb + sum_squares b))"
  by (induction a b arbitrary: d na nb rule: list_induct2)
    (simp_all add: sum_squares_def algebra_simps)

lemma cosine_sums_eq:
  "length a = length b \<Longrightarrow>
   cosine_sums (map Fin a) (map Fin b)
   = (Fin (sum_list (map2 (*) a b)), Fin (sum_squares a), Fin (sum_squares b))"
  unfolding cosine_sums_def using cosine_sums_acc [of a b 0 0 0] by simp

lemma sum_squares_nonneg: "0 \<le> sum_squares a"
  unfolding sum_squares_def by (induction a) simp_all

lemma norm_a_acc:
  "length a = length b \<Longrightarrow>
   fst (snd (foldl (\<lambda>(dotProduct, normA, normB) (x, y).
            (js_add dotProduct (js_mul x y), js_add normA (js_mul x x), js_add normB (js_mul y y)))
     (d, na, nb) (zip a b)))
   = foldl (\<lambda>n x. js_add n (js_mul x x)) na a"
  by (induction a b arbitrary: d na nb rule: list_induct2) simp_all

lemma norm_b_acc:
  "length a = length b \<Longrightarrow>
   snd (snd (foldl (\<lambda>(dotProduct, normA, normB) (x, y).
            (js_add dotProduct (js_mul x y), js_add normA (js_mul x x), js_add normB (js_mul y y)))
     (d, na, nb) (zip a b)))
   = foldl (\<lambda>n x. js_add n (js_mul x x)) nb b"
  by (induction a b arbitrary: d na nb rule: list_induct2) simp_all

lemma norm_of_zeros:
  "\<forall>x \<in> set a. x = Fin 0 \<Longrightarrow> foldl (\<lambda>n x. js_add n (js_mul x x)) (Fin 0) a = Fin 0"
  by (induction a) simp_all

lemma cosineSimilarity_zero_vector:
  assumes "(\<forall>x \<in> set u. x = Fin 0) \<or> (\<forall>x \<in> set v. x = Fin 0)"
  shows "cosineSimilarity u v = Fin 0"
proof (cases "length u = length v")
  case False
  then show ?thesis by (simp add: cosineSimilarity_def)
next
  case True
  obtain d na nb where sums: "cosine_sums u v = (d, na, nb)"
    by (cases "cosine_sums u v")
  from norm_a_acc [OF True, of "Fin 0" "Fin 0" "Fin 0"] sums
  have na: "na = foldl (\<lambda>n x. js_add n (js_mul x x)) (Fin 0) u"
    by (simp add: cosine_sums_def)
  from norm_b_acc [OF True, of "Fin 0" "Fin 0" "Fin 0"] sums
  have nb: "nb = foldl (\<lambda>n x. js_add n (js_mul x x)) (Fin 0) v"
    by (simp add: cosine_sums_def)
  from assms na nb norm_of_zeros [of u] norm_of_zeros [of v] have "na = Fin 0 \<or> nb = Fin 0"
    by blast
  with sums True show ?thesis
    by (auto simp: cosineSimilarity_def)
qed

text \<open>
  C9. On two vectors whose components are all finite, \<^verbatim>\<open>cosineSimilarity\<close> returns a finite
  number, never \<^verbatim>\<open>NaN\<close> or an infinity: the division is reached only with a divisor that
  is not 0. It returns 0 when the lengths differ and when one of the two vectors has norm 0.
  On any two vectors, finite or not, it returns 0 when the lengths differ and when one of
  the two consists of zeros.
\<close>

theorem cosineSimilarity_finite:
  "(\<exists>r. cosineSimilarity (map Fin a) (map Fin b) = Fin r) \<and>
   (length a \<noteq> length b \<or> vec_norm a = 0 \<or> vec_norm b = 0 \<longrightarrow>
      cosineSimilarity (map Fin a) (map Fin b) = Fin 0) \<and>
   (length u \<noteq> length v \<or> (\<forall>x \<in> set u. x = Fin 0) \<or> (\<forall>x \<in> set v. x = Fin 0) \<longrightarrow>
      cosineSimilarity u v = Fin 0)"
proof -
  have any: "cosineSimilarity u v = Fin 0"
    if "length u \<noteq> length v \<or> (\<forall>x \<in> set u. x = Fin 0) \<or> (\<forall>x \<in> set v. x = Fin 0)"
    using that cosineSimilarity_zero_vector [of u v] by (auto simp: cosineSimilarity_def)
  have finite: "(\<exists>r. cosineSimilarity (map Fin a) (map Fin b) = Fin r) \<and>
   (length a \<noteq> length b \<or> vec_norm a = 0 \<or> vec_norm b = 0 \<longrightarrow>
      cosineSimilarity (map Fin a) (map Fin b) = Fin 0)"
  proof (cases "length a = length b")
    case False
    then show ?thesis by (simp add: cosineSimilarity_def)
  next
    case True
    note sums = cosine_sums_eq [OF True]
    have denom: "sqrt (sum_squares a) * sqrt (sum_squares b) \<noteq> 0"
      if "sum_squares a \<noteq> 0" and "sum_squares b \<noteq> 0"
      using that by simp
    have nonneg: "\<not> sum_squares a < 0" "\<not> sum_squares b < 0"
      using sum_squares_nonneg [of a] sum_squares_nonneg [of b] by simp_all
    have total: "\<exists>r. cosineSimilarity (map Fin a) (map Fin b) = Fin r"
      using denom nonneg by (simp add: cosineSimilarity_def sums True)
    have zero: "cosineSimilarity (map Fin a) (map Fin b) = Fin 0"
      if "vec_norm a = 0 \<or> vec_norm b = 0"
      using that by (auto simp: cosineSimilarity_def sums True vec_norm_def)
    from total zero True show ?thesis by blast
  qed
  from any finite show ?thesis by blast
qed

theorem cosineSimilarity_finite_witness:
  "vec_norm [0, 0] = 0 \<and> cosineSimilarity (map Fin [0, 0]) (map Fin [3, 4]) = Fin 0 \<and>
   length [Fin 1] \<noteq> length [Fin 1, NaN] \<and> cosineSimilarity [Fin 1] [Fin 1, NaN] = Fin 0 \<and>
   cosineSimilarity [NaN, PosInf] [Fin 0, Fin 0] = Fin 0"
  using cosineSimilarity_finite [of "[0, 0]" "[3, 4]" "[Fin 1]" "[Fin 1, NaN]"]
    cosineSimilarity_finite [of "[0, 0]" "[3, 4]" "[NaN, PosInf]" "[Fin 0, Fin 0]"]
  by (simp add: vec_norm_def sum_squares_def)

text \<open>
  With a component that is not finite both tests of the source pass and the quotient is
  \<^verbatim>\<open>NaN\<close>: an infinity by an infinity, or a \<^verbatim>\<open>NaN\<close> that the sums carry along.
\<close>

theorem cosineSimilarity_not_a_number:
  "cosineSimilarity [PosInf, Fin 0] [Fin 1, Fin 0] = NaN \<and>
   cosineSimilarity [NaN, Fin 1] [Fin 1, Fin 1] = NaN"
  by (simp add: cosineSimilarity_def cosine_sums_def)

section \<open>Deleting a file\<close>

lemmas store_defs =
  initialize_def new_connection_def insertFile_def insertSymbol_def insertEmbedding_def
  insertDependency_def deleteFile_def delete_files_where_def getFile_def getSymbolsByFile_def
  getEmbeddingsByFile_def getDependenciesByFile_def bind_e_def or_null_def
  FileInput.defs FileRecord.defs ParsedSymbol.defs SymbolInput.defs SymbolRecord.defs
  EmbeddingInput.defs EmbeddingRecord.defs ParsedDependency.defs DependencyInput.defs
  DependencyRecord.defs

text \<open>
  C1. On the connection that \<^verbatim>\<open>initialize\<close> opens, \<^verbatim>\<open>deleteFile\<close> removes the row of the
  file and nothing else: the symbol, the embedding and the dependency of the deleted
  file are still returned by the three queries on its id.
\<close>

theorem deleteFile_leaves_rows:
  "\<exists>fileId db db'.
     fill_store initialize = Inr (fileId, db) \<and>
     deleteFile db ''src/temp.ts'' = Inr db' \<and>
     getFile db' ''src/temp.ts'' = Inr None \<and>
     (\<exists>s. getSymbolsByFile db' fileId = Inr [s]) \<and>
     (\<exists>e. getEmbeddingsByFile db' fileId = Inr [e]) \<and>
     (\<exists>d. getDependenciesByFile db' fileId = Inr [d])"
  by (simp add: fill_store_def temp_file_def store_defs)

text \<open>
  On a connection that enforces foreign keys the same delete empties the three queries,
  as the schema of \<^verbatim>\<open>createTables\<close> asks.
\<close>

lemma deleteFile_cascades_if_enforced:
  assumes "foreign_keys c" and "f \<in> set (files c)" and "f_path f = p"
    and "deleteFile (Some c) p = Inr db'"
  shows "getSymbolsByFile db' (f_id f) = Inr [] \<and>
         getEmbeddingsByFile db' (f_id f) = Inr [] \<and>
         getDependenciesByFile db' (f_id f) = Inr []"
proof -
  define c' where "c' = delete_files_where (\<lambda>f. f_path f = p) c"
  have db': "db' = Some c'"
    using assms(4) by (simp add: deleteFile_def c'_def)
  have gone: "f_id f \<in> set (map f_id (filter (\<lambda>f. f_path f = p) (files c)))"
    using assms(2,3) by auto
  have s: "filter (\<lambda>s. s_fileId s = f_id f) (symbols c') = []"
    using assms(1) gone unfolding c'_def delete_files_where_def Let_def
    by (auto simp: filter_empty_conv)
  have e: "filter (\<lambda>e. e_fileId e = f_id f) (embeddings c') = []"
    using assms(1) gone unfolding c'_def delete_files_where_def Let_def
    by (auto simp: filter_empty_conv)
  have d: "filter (\<lambda>d. d_sourceFileId d = f_id f) (dependencies c') = []"
    using assms(1) gone unfolding c'_def delete_files_where_def Let_def
    by (auto simp: filter_empty_conv)
  show ?thesis
    by (simp add: db' getSymbolsByFile_def getEmbeddingsByFile_def getDependenciesByFile_def s e d)
qed

section \<open>Extraction on empty and on missing text\<close>

lemma parseSymbols_empty:
  "parseSymbols None language = Inr [] \<and> parseSymbols (Some []) language = Inr []"
  by (simp add: parseSymbols_def)

lemma js_dependencies_empty: "parseJavaScriptDependencies [] = []"
  by code_simp

lemma py_dependencies_empty: "parsePythonDependencies [] = []"
  by code_simp

lemma java_dependencies_empty: "parseJavaDependencies [] = []"
  by code_simp

lemma parseDependencies_empty: "parseDependencies (Some []) language filePath = Inr []"
  by (simp add: parseDependencies_def on_text_def js_dependencies_empty py_dependencies_empty
      java_dependencies_empty)

text \<open>
  C4. \<^verbatim>\<open>parseSymbols\<close> returns the empty list on \<^verbatim>\<open>null\<close> and on the empty string, and
  \<^verbatim>\<open>parseDependencies\<close> does on the empty string (the lemmas above). On \<^verbatim>\<open>null\<close>,
  \<^verbatim>\<open>parseDependencies\<close> throws a \<^verbatim>\<open>TypeError\<close> in each of the languages it reads.
\<close>

theorem parseDependencies_null_throws:
  "parseDependencies None ''javascript'' filePath = Inl TypeError \<and>
   parseDependencies None ''typescript'' filePath = Inl TypeError \<and>
   parseDependencies None ''python'' filePath = Inl TypeError \<and>
   parseDependencies None ''java'' filePath = Inl TypeError"
  by (simp add: parseDependencies_def on_text_def)

section \<open>The span of a symbol\<close>

lemma findEnd_lines_ge:
  "findEnd_lines openChar closeChar ls i depth found = Some n \<Longrightarrow> i + 1 \<le> n"
  by (induction ls arbitrary: i depth found) (fastforce split: option.splits)+

lemma findEndLine_ge: "startIndex + 1 \<le> findEndLine lines startIndex openChar closeChar"
  unfolding findEndLine_def
  by (auto split: option.splits dest: findEnd_lines_ge)

lemma pythonBlockEnd_from_ge:
  "pythonBlockEnd_from ls i baseIndent = Some n \<Longrightarrow> i \<le> n"
  by (induction ls arbitrary: i) (fastforce split: if_splits)+

lemma findPythonBlockEnd_ge:
  "startIndex < length lines \<Longrightarrow> startIndex + 1 \<le> findPythonBlockEnd lines startIndex baseIndent"
  unfolding findPythonBlockEnd_def
  by (auto split: option.splits dest: pythonBlockEnd_from_ge)

lemma js_symbols_at_spanned: "s \<in> set (js_symbols_at lines i line) \<Longrightarrow> well_spanned s"
  using findEndLine_ge [of i lines "CHR ''{''" "CHR ''}''"]
  by (auto simp: js_symbols_at_def well_spanned_def Let_def or_else_def
      split: option.splits if_splits)

lemma py_symbols_at_spanned:
  "i < length lines \<Longrightarrow> s \<in> set (py_symbols_at lines i line) \<Longrightarrow> well_spanned s"
  using findPythonBlockEnd_ge [of i lines]
  by (auto simp: py_symbols_at_def well_spanned_def Let_def split: option.splits if_splits)

lemma java_symbols_at_spanned: "s \<in> set (java_symbols_at lines i line) \<Longrightarrow> well_spanned s"
  using findEndLine_ge [of i lines "CHR ''{''" "CHR ''}''"]
  by (auto simp: java_symbols_at_def well_spanned_def Let_def split: option.splits if_splits)

lemma cpp_symbols_at_spanned: "s \<in> set (cpp_symbols_at lines i line) \<Longrightarrow> well_spanned s"
  using findEndLine_ge [of i lines "CHR ''{''" "CHR ''}''"]
  by (auto simp: cpp_symbols_at_def well_spanned_def Let_def or_else_def
      split: option.splits if_splits)

lemma each_line_elem:
  "s \<in> set (each_line body lines) \<Longrightarrow> \<exists>i line. i < length lines \<and> s \<in> set (body lines i line)"
  by (auto simp: each_line_def in_set_enumerate_eq)

text \<open>
  C10. Every symbol that \<^verbatim>\<open>parseSymbols\<close> returns, in every language and on every text,
  starts at line 1 or later and ends at its start line or later. Where the closing brace
  is never found \<^verbatim>\<open>findEndLine\<close> falls back to the start line, and where no dedent is
  found \<^verbatim>\<open>findPythonBlockEnd\<close> gives the number of lines.
\<close>

theorem parseSymbols_spans:
  "parseSymbols content language = Inr syms \<Longrightarrow>
   \<forall>s \<in> set syms. 1 \<le> s_startLine s \<and> s_startLine s \<le> s_endLine s"
proof
  fix s
  assume res: "parseSymbols content language = Inr syms" and s: "s \<in> set syms"
  have "well_spanned s"
  proof (cases content)
    case None
    with res s show ?thesis by (simp add: parseSymbols_def)
  next
    case (Some src)
    with res s consider
        "s \<in> set (parseJavaScriptSymbols src)" | "s \<in> set (parsePythonSymbols src)"
      | "s \<in> set (parseJavaSymbols src)" | "s \<in> set (parseCppSymbols src)"
      by (auto simp: parseSymbols_def split: if_splits)
    then show ?thesis
    proof cases
      case 1
      then show ?thesis
        unfolding parseJavaScriptSymbols_def by (auto dest!: each_line_elem js_symbols_at_spanned)
    next
      case 2
      then show ?thesis
        unfolding parsePythonSymbols_def by (auto dest!: each_line_elem dest: py_symbols_at_spanned)
    next
      case 3
      then show ?thesis
        unfolding parseJavaSymbols_def by (auto dest!: each_line_elem java_symbols_at_spanned)
    next
      case 4
      then show ?thesis
        unfolding parseCppSymbols_def by (auto dest!: each_line_elem cpp_symbols_at_spanned)
    qed
  qed
  then show "1 \<le> s_startLine s \<and> s_startLine s \<le> s_endLine s"
    by (simp add: well_spanned_def)
qed

theorem parseSymbols_spans_witness:
  "parseSymbols (Some broken_code) ''typescript'' = Inr broken_symbols \<and>
   length broken_symbols = 2 \<and>
   list_all (\<lambda>s. 1 \<le> s_startLine s \<and> s_startLine s \<le> s_endLine s) broken_symbols"
proof -
  have run: "parseSymbols (Some broken_code) ''typescript'' = Inr broken_symbols"
    by code_simp
  have "length broken_symbols = 2"
    by (simp add: broken_symbols_def)
  with run parseSymbols_spans [OF run] show ?thesis
    by (simp add: list_all_iff)
qed

section \<open>The local embedding\<close>

lemma length_scatter: "length (scatter env d emb entry) = length emb"
proof -
  have "length (foldl (\<lambda>emb i. emb[f emb i := h emb i]) emb is) = length emb"
    for f :: "real list \<Rightarrow> nat \<Rightarrow> nat" and h "is"
    by (induction "is" arbitrary: emb) simp_all
  then show ?thesis
    by (simp add: scatter_def Let_def)
qed

lemma length_foldl_scatter: "length (foldl (scatter env d) emb counts) = length emb"
  by (induction counts arbitrary: emb) (simp_all add: length_scatter)

lemma scatter_cong:
  "env_log env' = env_log env \<Longrightarrow> env_sin env' = env_sin env \<Longrightarrow> scatter env' = scatter env"
  by (intro ext) (simp add: scatter_def)

text \<open>
  C8. The local embedding of a text is a vector of the configured number of dimensions,
  and it is a function of the tokens of the text, of the number of dimensions and of
  \<^verbatim>\<open>Math.log\<close> and \<^verbatim>\<open>Math.sin\<close> alone: two calls, in any two environments and on any two
  generators that agree on these, on two texts with the same tokens, and so on the same
  text, give the same vector, component by component.
\<close>

theorem generateLocalEmbedding_deterministic:
  "length (generateLocalEmbedding env g text) = g_dimensions g \<and>
   (env_log env' = env_log env \<and> env_sin env' = env_sin env \<and>
    g_dimensions g' = g_dimensions g \<and> tokenize text' = tokenize text \<longrightarrow>
      generateLocalEmbedding env' g' text' = generateLocalEmbedding env g text)"
  by (auto simp: generateLocalEmbedding_def Let_def length_foldl_scatter dest: scatter_cong)

theorem generateLocalEmbedding_deterministic_witness:
  "tokenize ''foo, BAR'' = tokenize ''Foo bar'' \<and>
   env_remote search_env ''Foo bar'' \<noteq> env_remote local_env ''Foo bar'' \<and>
   g_apiKey search_gen \<noteq> g_apiKey (new_EmbeddingGenerator None None) \<and>
   generateLocalEmbedding search_env search_gen ''foo, BAR'' =
     generateLocalEmbedding local_env (new_EmbeddingGenerator None None) ''Foo bar'' \<and>
   length (generateLocalEmbedding local_env (new_EmbeddingGenerator None None) ''Foo bar'') = 1536"
proof -
  have tokens: "tokenize ''foo, BAR'' = tokenize ''Foo bar''"
    by code_simp
  have dims: "g_dimensions (new_EmbeddingGenerator None None) = 1536"
    "g_dimensions search_gen = g_dimensions (new_EmbeddingGenerator None None)"
    by (simp_all add: search_gen_def new_EmbeddingGenerator_def or_default_def)
  have envs: "env_log search_env = env_log local_env" "env_sin search_env = env_sin local_env"
    by (simp_all add: search_env_def local_env_def)
  have differ: "env_remote search_env ''Foo bar'' \<noteq> env_remote local_env ''Foo bar''"
    "g_apiKey search_gen \<noteq> g_apiKey (new_EmbeddingGenerator None None)"
    by (simp_all add: search_env_def local_env_def search_gen_def new_EmbeddingGenerator_def)
  note th = generateLocalEmbedding_deterministic
         [of local_env "new_EmbeddingGenerator None None" "''Foo bar''" search_env search_gen
            "''foo, BAR''"]
  from envs dims(2) tokens have agree:
    "env_log search_env = env_log local_env \<and> env_sin search_env = env_sin local_env \<and>
     g_dimensions search_gen = g_dimensions (new_EmbeddingGenerator None None) \<and>
     tokenize ''foo, BAR'' = tokenize ''Foo bar''"
    by (intro conjI)
  from th [THEN conjunct2] agree have same:
    "generateLocalEmbedding search_env search_gen ''foo, BAR'' =
     generateLocalEmbedding local_env (new_EmbeddingGenerator None None) ''Foo bar''"
    by (rule mp)
  from th have
    "length (generateLocalEmbedding local_env (new_EmbeddingGenerator None None) ''Foo bar'') =
     g_dimensions (new_EmbeddingGenerator None None)"
    by (rule conjunct1)
  with dims(1) have len:
    "length (generateLocalEmbedding local_env (new_EmbeddingGenerator None None) ''Foo bar'') = 1536"
    by (simp only:)
  from tokens differ same len show ?thesis
    by (intro conjI)
qed

section \<open>Chunks\<close>

lemma split_char_nonempty: "split_char d s \<noteq> []"
  by (induction s) (auto split: list.splits)

lemma split_char_no_sep: "x \<in> set (split_char d s) \<Longrightarrow> d \<notin> set x"
proof (induction s arbitrary: x)
  case Nil
  then show ?case by simp
next
  case (Cons c s)
  then show ?case
    by (cases "split_char d s") (auto split: if_splits)
qed

lemma trim_parts: "\<exists>a b. s = a @ trim s @ b"
proof -
  have 1: "s = takeWhile is_space s @ trimStart s"
    by (simp add: trimStart_def)
  have 2: "t = trimEnd t @ rev (takeWhile is_space (rev t))" for t
  proof -
    have "t = rev (takeWhile is_space (rev t) @ dropWhile is_space (rev t))"
      by (simp only: takeWhile_dropWhile_id rev_rev_ident)
    also have "\<dots> = rev (dropWhile is_space (rev t)) @ rev (takeWhile is_space (rev t))"
      by (rule rev_append)
    finally show ?thesis
      by (simp only: trimEnd_def)
  qed
  from 1 2 [of "trimStart s"] show ?thesis
    unfolding trim_def by metis
qed

lemma set_trim: "set (trim s) \<subseteq> set s"
proof -
  obtain a b where "s = a @ trim s @ b" using trim_parts by blast
  then have "set s = set a \<union> set (trim s) \<union> set b" by (metis set_append Un_assoc)
  then show ?thesis by blast
qed

lemma line_text_trim: "line_text (trim s) \<le> line_text s"
proof -
  obtain a b where s: "s = a @ trim s @ b" using trim_parts by blast
  have "line_text (a @ trim s @ b) = line_text a + line_text (trim s) + line_text b"
    by (simp add: line_text_def)
  with s show ?thesis by simp
qed

lemma bounded_trim: "bounded_text s \<Longrightarrow> bounded_text (trim s)"
  using set_trim [of s] line_text_trim [of s] unfolding bounded_text_def by fastforce

lemma trim_newline: "trim (newline @ s) = trim s"
  by (simp add: trim_def trimStart_def newline_def is_space_def)

lemma append_line_Nil: "append_line [] l = l"
  by (simp add: append_line_def)

lemma foldl_append_line:
  "cur \<noteq> [] \<Longrightarrow> foldl append_line cur ls = cur @ concat (map ((@) newline) ls)"
  by (induction ls arbitrary: cur) (simp_all add: append_line_def)

lemma join_newline_Cons: "join newline (l # ls) = l @ concat (map ((@) newline) ls)"
  by (induction ls arbitrary: l) simp_all

lemma trim_foldl_append_line: "trim (foldl append_line [] ls) = trim (join newline ls)"
proof (induction ls)
  case Nil
  show ?case by simp
next
  case (Cons l ls)
  show ?case
  proof (cases "l = []")
    case False
    then show ?thesis
      by (simp add: append_line_Nil foldl_append_line join_newline_Cons del: join.simps)
  next
    case True
    show ?thesis
    proof (cases ls)
      case Nil
      with True show ?thesis by (simp add: append_line_Nil)
    next
      case (Cons x xs)
      have "join newline ([] # ls) = newline @ join newline ls"
        using Cons by simp
      with True Cons.IH show ?thesis
        by (simp add: append_line_Nil trim_newline del: join.simps)
    qed
  qed
qed

lemma chunk_inv_init: "\<forall>l \<in> set lines. CHR 0x0A \<notin> set l \<Longrightarrow> chunk_inv lines [] [] [] 1 1"
  by (simp add: chunk_inv_def next_line_def bounded_text_def)

lemma contiguous_snoc:
  "contiguous n (cs @ [c]) \<longleftrightarrow>
   contiguous n cs \<and> c_startLine c = (if cs = [] then n else c_endLine (last cs) + 1) \<and>
   c_startLine c \<le> c_endLine c"
  by (induction cs arbitrary: n) auto

lemma chunk_invD:
  assumes "chunk_inv lines seen chunks cur start line"
  shows "line = length seen + 1" and "1 \<le> start" and "start \<le> line"
    and "cur \<noteq> [] \<Longrightarrow> start < line"
    and "cur = foldl append_line [] (drop (start - 1) seen)"
    and "contiguous 1 chunks" and "start = next_line chunks"
    and "\<And>c. c \<in> set chunks \<Longrightarrow> chunk_ok lines c" and "bounded_text cur"
  using assms unfolding chunk_inv_def by blast+

lemma chunk_inv_append:
  assumes inv: "chunk_inv lines seen chunks cur start line"
    and lines: "lines = seen @ l # ls"
    and nonl: "\<forall>l \<in> set lines. CHR 0x0A \<notin> set l"
    and cond: "\<not> (length cur + length l > maxChunkSize \<and> length cur > 0)"
  shows "chunk_inv lines (seen @ [l]) chunks (append_line cur l) start (line + 1)"
proof -
  note d = chunk_invD [OF inv]
  from d(1,3) have start: "start - 1 \<le> length seen"
    by simp
  have l: "CHR 0x0A \<notin> set l"
    using lines nonl by simp
  then have "filter (\<lambda>x. x \<noteq> CHR 0x0A) l = l"
    by (induction l) auto
  then have ll: "line_text l = length l"
    by (simp add: line_text_def)
  have b: "bounded_text (append_line cur l)"
  proof (cases "cur = []")
    case True
    with l show ?thesis
      by (simp add: append_line_Nil bounded_text_def)
  next
    case False
    with cond have le: "length cur + length l \<le> maxChunkSize"
      by simp
    have "line_text (append_line cur l) = line_text cur + line_text l"
      using False by (simp add: append_line_def line_text_def newline_def)
    moreover have "line_text cur \<le> length cur"
      by (simp add: line_text_def)
    ultimately have "line_text (append_line cur l) \<le> maxChunkSize"
      using le ll by linarith
    then show ?thesis
      by (simp add: bounded_text_def)
  qed
  have cur: "append_line cur l = foldl append_line [] (drop (start - 1) (seen @ [l]))"
    using start d(5) by simp
  show ?thesis
    unfolding chunk_inv_def
    using d(1,2,3,6,7,8) b cur by auto
qed

lemma chunk_inv_push:
  assumes inv: "chunk_inv lines seen chunks cur start line"
    and lines: "lines = seen @ l # ls"
    and nonl: "\<forall>l \<in> set lines. CHR 0x0A \<notin> set l"
    and cond: "length cur > 0"
  shows "chunk_inv lines (seen @ [l])
           (chunks @ [\<lparr>c_content = trim cur, c_startLine = start, c_endLine = line - 1,
                       c_type = Code, c_symbolId = None\<rparr>])
           l line (line + 1)"
proof -
  note d = chunk_invD [OF inv]
  let ?c = "\<lparr>c_content = trim cur, c_startLine = start, c_endLine = line - 1,
             c_type = Code, c_symbolId = None\<rparr>"
  from cond d(4) have lt: "start < line"
    by simp
  have sl: "js_slice (start - 1) (line - 1) lines = drop (start - 1) seen"
    using d(1) lt lines by (simp add: js_slice_def)
  have content: "trim cur = trim (join newline (js_slice (start - 1) (line - 1) lines))"
    using d(5) sl by (simp add: trim_foldl_append_line)
  have sel: "c_content ?c = trim cur" "c_startLine ?c = start" "c_endLine ?c = line - 1"
    by simp_all
  have b: "bounded_text (trim cur)"
    using d(9) by (rule bounded_trim)
  have e: "line - 1 \<le> length lines"
    using d(1) lines by simp
  have ok: "chunk_ok lines ?c"
    unfolding chunk_ok_def sel using e content b by blast
  have contig: "contiguous 1 (chunks @ [?c])"
    using d(6,7) lt by (auto simp: contiguous_snoc next_line_def split: if_splits)
  have l: "CHR 0x0A \<notin> set l"
    using lines nonl by simp
  have cur': "l = foldl append_line [] (drop (line - 1) (seen @ [l]))"
    using d(1) by (simp add: append_line_Nil)
  show ?thesis
    unfolding chunk_inv_def
    using d(1,2,3,8) ok contig l cur' lt by (auto simp: next_line_def bounded_text_def)
qed

lemma chunk_loop_inv:
  assumes "chunk_inv lines seen chunks cur start line"
    and "lines = seen @ ls"
    and "\<forall>l \<in> set lines. CHR 0x0A \<notin> set l"
    and "chunk_loop ls chunks cur start line = (chunks', cur', start', line')"
  shows "chunk_inv lines lines chunks' cur' start' line'"
  using assms
proof (induction ls arbitrary: seen chunks cur start line)
  case Nil
  then show ?case by simp
next
  case (Cons l ls)
  show ?case
  proof (cases "length cur + length l > maxChunkSize \<and> length cur > 0")
    case True
    have inv: "chunk_inv lines (seen @ [l])
           (chunks @ [\<lparr>c_content = trim cur, c_startLine = start, c_endLine = line - 1,
                       c_type = Code, c_symbolId = None\<rparr>])
           l line (line + 1)"
      using chunk_inv_push [OF Cons.prems(1,2,3)] True by simp
    have step: "chunk_loop (l # ls) chunks cur start line =
        chunk_loop ls
          (chunks @ [\<lparr>c_content = trim cur, c_startLine = start, c_endLine = line - 1,
                      c_type = Code, c_symbolId = None\<rparr>])
          l line (line + 1)"
      using True by simp
    show ?thesis
      using Cons.IH [OF inv _ Cons.prems(3)] Cons.prems(2,4) by (simp only: step append_assoc append_Cons append_Nil)
  next
    case False
    have inv: "chunk_inv lines (seen @ [l]) chunks (append_line cur l) start (line + 1)"
      using chunk_inv_append [OF Cons.prems(1,2,3) False] .
    have step: "chunk_loop (l # ls) chunks cur start line =
        chunk_loop ls chunks (append_line cur l) start (line + 1)"
      using False by (auto simp: append_line_def)
    show ?thesis
      using Cons.IH [OF inv _ Cons.prems(3)] Cons.prems(2,4) by (simp only: step append_assoc append_Cons append_Nil)
  qed
qed

lemma splitIntoChunks_lines:
  "contiguous 1 (splitIntoChunks content language) \<and>
   (\<forall>c \<in> set (splitIntoChunks content language).
      c_endLine c \<le> length (split_lines content) \<and>
      c_content c =
        trim (join newline (js_slice (c_startLine c - 1) (c_endLine c) (split_lines content))) \<and>
      (CHR 0x0A \<notin> set (c_content c) \<or>
       length (filter (\<lambda>x. x \<noteq> CHR 0x0A) (c_content c)) \<le> maxChunkSize))"
proof -
  define lines where "lines = split_lines content"
  have nonl: "\<forall>l \<in> set lines. CHR 0x0A \<notin> set l"
    by (auto simp: lines_def split_lines_def dest: split_char_no_sep)
  obtain chunks cur start line where loop: "chunk_loop lines [] [] 1 1 = (chunks, cur, start, line)"
    by (metis prod_cases4)
  have inv: "chunk_inv lines lines chunks cur start line"
    using chunk_loop_inv [OF chunk_inv_init [OF nonl] _ nonl loop] by simp
  note d = chunk_invD [OF inv]
  let ?c = "\<lparr>c_content = trim cur, c_startLine = start, c_endLine = line - 1,
             c_type = Code, c_symbolId = None\<rparr>"
  have res: "splitIntoChunks content language = (if trim cur \<noteq> [] then chunks @ [?c] else chunks)"
    using loop by (simp add: splitIntoChunks_def lines_def)
  have all: "contiguous 1 (splitIntoChunks content language) \<and>
             (\<forall>c \<in> set (splitIntoChunks content language). chunk_ok lines c)"
  proof (cases "trim cur \<noteq> []")
    case False
    with res d(6,8) show ?thesis by simp
  next
    case True
    then have "cur \<noteq> []"
      by (auto simp: trim_def trimStart_def trimEnd_def)
    with d(4) have lt: "start < line" by simp
    have sl: "js_slice (start - 1) (line - 1) lines = drop (start - 1) lines"
      using d(1) by (simp add: js_slice_def)
    have "trim cur = trim (join newline (js_slice (start - 1) (line - 1) lines))"
      using d(5) sl by (simp add: trim_foldl_append_line)
    moreover have "bounded_text (trim cur)"
      using d(9) by (rule bounded_trim)
    moreover have "line - 1 \<le> length lines"
      using d(1) by simp
    moreover have "c_content ?c = trim cur" "c_startLine ?c = start" "c_endLine ?c = line - 1"
      by simp_all
    ultimately have ok: "chunk_ok lines ?c"
      unfolding chunk_ok_def by metis
    have "contiguous 1 (chunks @ [?c])"
      using d(6,7) lt by (auto simp: contiguous_snoc next_line_def split: if_splits)
    with res True ok d(8) show ?thesis by auto
  qed
  then show ?thesis
    unfolding chunk_ok_def bounded_text_def line_text_def lines_def by blast
qed

lemma find_update_file:
  "find (\<lambda>f. f_path f = p) (map (update_file now file) fs) =
   map_option (update_file now file) (find (\<lambda>f. f_path f = p) fs)"
  by (induction fs) (auto simp: update_file_def)

lemma f_id_update_file: "f_id (update_file now file row) = f_id row"
  by (simp add: update_file_def)

lemma find_append_new:
  "find P xs = None \<Longrightarrow> P x \<Longrightarrow> find P (xs @ [x]) = Some x"
  by (induction xs) (auto split: if_splits)

lemma insertFile_row:
  assumes "insertFile (Some c) now file = Inr (fileId, db1)"
  shows "\<exists>c1 f. db1 = Some c1 \<and> find (\<lambda>f. f_path f = f_path file) (files c1) = Some f \<and>
           f_id f = fileId \<and> embeddings c1 = embeddings c \<and> foreign_keys c1 = foreign_keys c"
proof (cases "find (\<lambda>f. f_path f = f_path file) (files c)")
  case None
  with assms show ?thesis
    by (auto simp: insertFile_def Let_def find_append_new FileInput.defs FileRecord.defs)
next
  case (Some row)
  with assms show ?thesis
    by (auto simp: insertFile_def find_update_file f_id_update_file)
qed

lemma find_Some_set: "find P xs = Some x \<Longrightarrow> x \<in> set xs"
  by (induction xs) (auto split: if_splits)

lemma find_file_exists: "find P (files c) = Some f \<Longrightarrow> file_exists c (f_id f)"
  unfolding file_exists_def by (blast dest: find_Some_set)

lemma parseSymbols_total: "\<exists>syms. parseSymbols content language = Inr syms"
  by (simp add: parseSymbols_def split: option.splits)

lemma parseDependencies_total:
  "\<exists>deps. parseDependencies (Some content) language filePath = Inr deps"
  by (simp add: parseDependencies_def on_text_def)

lemma insert_symbols_frame:
  "insert_symbols (Some c) fileId syms = (db', err) \<Longrightarrow>
   \<exists>c'. db' = Some c' \<and> files c' = files c \<and> embeddings c' = embeddings c \<and>
        foreign_keys c' = foreign_keys c"
proof (induction syms arbitrary: c)
  case Nil
  then show ?case by auto
next
  case (Cons s syms)
  show ?case
  proof (cases "insertSymbol (Some c) (ParsedSymbol.extend s \<lparr>s_fileId = fileId\<rparr>)")
    case (Inl e)
    with Cons.prems show ?thesis by (auto simp: then_do_def)
  next
    case (Inr r)
    obtain i db1 where r: "r = (i, db1)" by (cases r)
    from Inr r obtain c1 where c1: "db1 = Some c1" "files c1 = files c"
      "embeddings c1 = embeddings c" "foreign_keys c1 = foreign_keys c"
      by (auto simp: insertSymbol_def Let_def split: if_splits)
    from Cons.prems Inr r c1 have "insert_symbols (Some c1) fileId syms = (db', err)"
      by (simp add: then_do_def)
    from Cons.IH [OF this] c1 show ?thesis by simp
  qed
qed

lemma insert_dependencies_frame:
  "insert_dependencies (Some c) fileId deps = (db', err) \<Longrightarrow>
   \<exists>c'. db' = Some c' \<and> files c' = files c \<and> embeddings c' = embeddings c \<and>
        foreign_keys c' = foreign_keys c"
proof (induction deps arbitrary: c)
  case Nil
  then show ?case by auto
next
  case (Cons d deps)
  obtain target where target: "getFile (Some c) (d_importPath d) = Inr target"
    by (simp add: getFile_def)
  show ?case
  proof (cases "insertDependency (Some c)
                  (ParsedDependency.extend d
                     \<lparr>d_sourceFileId = fileId, d_targetFileId = map_option f_id target\<rparr>)")
    case (Inl e)
    with Cons.prems target show ?thesis by (auto simp: then_do_def)
  next
    case (Inr r)
    obtain i db1 where r: "r = (i, db1)" by (cases r)
    from Inr r obtain c1 where c1: "db1 = Some c1" "files c1 = files c"
      "embeddings c1 = embeddings c" "foreign_keys c1 = foreign_keys c"
      by (auto simp: insertDependency_def Let_def split: if_splits)
    from Cons.prems Inr r c1 target have "insert_dependencies (Some c1) fileId deps = (db', err)"
      by (simp add: then_do_def)
    from Cons.IH [OF this] c1 show ?thesis by simp
  qed
qed

lemma index_symbols_and_dependencies_frame:
  assumes "index_symbols_and_dependencies (Some c) fileId content language relativePath = (db', err)"
  shows "\<exists>c'. db' = Some c' \<and> files c' = files c \<and> embeddings c' = embeddings c \<and>
           foreign_keys c' = foreign_keys c"
proof -
  obtain syms where syms: "parseSymbols (Some content) language = Inr syms"
    using parseSymbols_total by blast
  obtain db1 e1 where s1: "insert_symbols (Some c) fileId syms = (db1, e1)"
    by (cases "insert_symbols (Some c) fileId syms")
  from insert_symbols_frame [OF s1] obtain c1 where c1: "db1 = Some c1" "files c1 = files c"
    "embeddings c1 = embeddings c" "foreign_keys c1 = foreign_keys c"
    by blast
  show ?thesis
  proof (cases e1)
    case (Some e)
    with assms syms s1 c1 show ?thesis
      by (auto simp: index_symbols_and_dependencies_def then_do_def)
  next
    case None
    obtain deps where deps: "parseDependencies (Some content) language relativePath = Inr deps"
      using parseDependencies_total by blast
    from assms syms s1 None deps c1
    have "insert_dependencies (Some c1) fileId deps = (db', err)"
      by (simp add: index_symbols_and_dependencies_def then_do_def)
    from insert_dependencies_frame [OF this] c1 show ?thesis by simp
  qed
qed

lemma chunk_loop_symbolId:
  "\<forall>c \<in> set chunks. c_symbolId c = None \<Longrightarrow>
   chunk_loop ls chunks cur start line = (chunks', cur', start', line') \<Longrightarrow>
   \<forall>c \<in> set chunks'. c_symbolId c = None"
proof (induction ls arbitrary: chunks cur start line)
  case Nil
  then show ?case by simp
next
  case (Cons l ls)
  show ?case
  proof (cases "length cur + length l > maxChunkSize \<and> length cur > 0")
    case True
    with Cons.prems(2) have
      "chunk_loop ls
         (chunks @ [\<lparr>c_content = trim cur, c_startLine = start, c_endLine = line - 1,
                     c_type = Code, c_symbolId = None\<rparr>])
         l line (line + 1) = (chunks', cur', start', line')"
      by simp
    from Cons.IH [OF _ this] Cons.prems(1) show ?thesis by simp
  next
    case False
    with Cons.prems(2) have
      "chunk_loop ls chunks (append_line cur l) start (line + 1) = (chunks', cur', start', line')"
      by (auto simp: append_line_def)
    from Cons.IH [OF Cons.prems(1) this] show ?thesis .
  qed
qed

lemma splitIntoChunks_symbolId: "c \<in> set (splitIntoChunks content language) \<Longrightarrow> c_symbolId c = None"
proof -
  obtain chunks cur start line where
    loop: "chunk_loop (split_lines content) [] [] 1 1 = (chunks, cur, start, line)"
    by (metis prod_cases4)
  from chunk_loop_symbolId [OF _ loop] have "\<forall>c \<in> set chunks. c_symbolId c = None"
    by simp
  moreover assume "c \<in> set (splitIntoChunks content language)"
  ultimately show ?thesis
    using loop by (auto simp: splitIntoChunks_def split: if_splits)
qed

lemma embed_chunks_rows:
  assumes "\<not> foreign_keys c \<or> file_exists c fileId"
    and "\<forall>chunk \<in> set chunks. c_symbolId chunk = None"
  shows "\<exists>c' rows. embed_chunks env g fileId language chunks i (Some c) = Some c' \<and>
           files c' = files c \<and> embeddings c' = embeddings c @ rows \<and>
           map e_chunkIndex rows = [i..<i + length chunks] \<and>
           map e_content rows = map c_content chunks \<and>
           (\<forall>r \<in> set rows. e_fileId r = fileId)"
  using assms
proof (induction chunks arbitrary: c i)
  case Nil
  then show ?case by simp
next
  case (Cons chunk chunks)
  let ?row = "\<lparr>e_fileId = fileId, e_symbolId = c_symbolId chunk, e_chunkIndex = i,
                e_content = c_content chunk,
                e_embedding = generateEmbedding env g (c_content chunk),
                e_metadata = \<lparr>m_language = language, m_startLine = c_startLine chunk,
                              m_endLine = c_endLine chunk, m_type = c_type chunk\<rparr>\<rparr>"
  from Cons.prems obtain c1 r where
    ins: "insertEmbedding (Some c) ?row = Inr (Suc (embeddings_seq c), Some c1)"
    and c1: "files c1 = files c" "embeddings c1 = embeddings c @ [r]"
      "foreign_keys c1 = foreign_keys c" "e_chunkIndex r = i" "e_content r = c_content chunk"
      "e_fileId r = fileId"
    by (auto simp: insertEmbedding_def or_null_def Let_def EmbeddingInput.defs EmbeddingRecord.defs)
  have ok: "\<not> foreign_keys c1 \<or> file_exists c1 fileId"
    using Cons.prems(1) c1 by (simp add: file_exists_def)
  from Cons.IH [OF ok, of "i + 1"] Cons.prems(2) obtain c' rows where
    rest: "embed_chunks env g fileId language chunks (i + 1) (Some c1) = Some c'"
      "files c' = files c1" "embeddings c' = embeddings c1 @ rows"
      "map e_chunkIndex rows = [i + 1..<i + 1 + length chunks]"
      "map e_content rows = map c_content chunks" "\<forall>r \<in> set rows. e_fileId r = fileId"
    by auto
  have run: "embed_chunks env g fileId language (chunk # chunks) i (Some c) = Some c'"
    using ins rest(1) by (simp add: Let_def)
  have idx: "map e_chunkIndex (r # rows) = [i..<i + length (chunk # chunks)]"
    using c1(4) rest(4) by (simp add: upt_rec)
  show ?case
    using run rest c1 idx by (intro exI [of _ c'] exI [of _ "r # rows"]) simp
qed


lemma filter_fileId_rows:
  assumes "\<forall>r \<in> set rows. e_fileId r = fileId"
    and "map e_chunkIndex rows = [i..<i + n]"
  shows "sort_key e_chunkIndex
           (filter (\<lambda>e. e_fileId e = fileId)
              (filter (\<lambda>e. e_fileId e \<noteq> fileId) old @ rows)) = rows"
proof -
  have "filter (\<lambda>e. e_fileId e = fileId) (filter (\<lambda>e. e_fileId e \<noteq> fileId) old) = []"
    by (simp add: filter_empty_conv)
  moreover have "filter (\<lambda>e. e_fileId e = fileId) rows = rows"
    using assms(1) by (simp add: filter_id_conv)
  moreover have "sorted (map e_chunkIndex rows)"
    using assms(2) by simp
  ultimately show ?thesis
    by (simp add: sort_key_id_if_sorted)
qed

lemma insertFile_total: "\<exists>fileId db1. insertFile (Some c) now file = Inr (fileId, db1)"
  by (simp add: insertFile_def Let_def split: option.splits)

lemma indexFile_embeddings:
  assumes fs: "env_fs env filePath = Some stats"
    and run: "indexFile env g db filePath repoPath = (db', None)"
  shows "\<exists>f es. getFile db' (relative (env_cwd env) repoPath filePath) = Inr (Some f) \<and>
           getEmbeddingsByFile db' (f_id f) = Inr es \<and>
           map e_chunkIndex es =
             [0..<length (splitIntoChunks (fs_content stats) (detectLanguage filePath))] \<and>
           map e_content es =
             map c_content (splitIntoChunks (fs_content stats) (detectLanguage filePath))"
proof -
  define rel where "rel = relative (env_cwd env) repoPath filePath"
  define content where "content = fs_content stats"
  define language where "language = detectLanguage filePath"
  define fileRecord where
    "fileRecord = \<lparr>f_path = rel, f_content = content, f_hash = env_sha256 env content,
                    f_size = fs_size stats, f_language = language,
                    f_lastModified = fs_mtime stats\<rparr>"
  obtain c where c: "db = Some c"
    using run fs
    by (cases db) (auto simp: indexFile_def Let_def then_do_def insertFile_def)
  obtain fileId db1 where ins: "insertFile (Some c) (env_clock env rel) fileRecord = Inr (fileId, db1)"
    using insertFile_total by blast
  from insertFile_row [OF ins] obtain c1 f where c1: "db1 = Some c1"
    and f: "find (\<lambda>f. f_path f = rel) (files c1) = Some f" "f_id f = fileId"
    by (auto simp: fileRecord_def)
  define c2 where "c2 = delete_symbols_where (\<lambda>s. s_fileId s = fileId) c1"
  define c3 where "c3 = c2\<lparr>dependencies := filter (\<lambda>d. d_sourceFileId d \<noteq> fileId) (dependencies c2)\<rparr>"
  define c4 where "c4 = c3\<lparr>embeddings := filter (\<lambda>e. e_fileId e \<noteq> fileId) (embeddings c3)\<rparr>"
  have files4: "files c4 = files c1"
    by (simp add: c4_def c3_def c2_def delete_symbols_where_def Let_def)
  have emb4: "embeddings c4 = filter (\<lambda>e. e_fileId e \<noteq> fileId) (embeddings c3)"
    by (simp add: c4_def)
  obtain db5 e5 where step:
    "(if isSupported language
      then index_symbols_and_dependencies (Some c4) fileId content language rel
      else (Some c4, None)) = (db5, e5)"
    by (metis surj_pair)
  have "\<exists>c5. db5 = Some c5 \<and> files c5 = files c4 \<and> embeddings c5 = embeddings c4 \<and>
          foreign_keys c5 = foreign_keys c4"
    using step index_symbols_and_dependencies_frame [of c4 fileId content language rel db5 e5]
    by (auto split: if_splits)
  then obtain c5 where c5: "db5 = Some c5" "files c5 = files c4" "embeddings c5 = embeddings c4"
    by blast
  have result: "indexFile env g db filePath repoPath =
      (case e5 of
         Some e \<Rightarrow> (db5, Some e)
       | None \<Rightarrow> (generateFileEmbeddings env g db5 fileId content language, None))"
    using fs c ins c1 step
    by (simp add: indexFile_def Let_def then_do_def rel_def [symmetric] content_def [symmetric]
        language_def [symmetric] fileRecord_def [symmetric] clearSymbolsByFile_def
        clearDependenciesByFile_def clearEmbeddingsByFile_def c2_def [symmetric]
        c3_def [symmetric] c4_def [symmetric])
  with run have e5: "e5 = None"
    and db': "db' = generateFileEmbeddings env g db5 fileId content language"
    by (auto split: option.splits)
  have exists: "\<not> foreign_keys c5 \<or> file_exists c5 fileId"
    using find_file_exists [of "\<lambda>f. f_path f = rel" c1 f] f files4 c5(2)
    by (simp add: file_exists_def)
  from embed_chunks_rows [OF exists, of "splitIntoChunks content language" env g language 0]
  obtain c' rows where
    emb: "embed_chunks env g fileId language (splitIntoChunks content language) 0 (Some c5) = Some c'"
      "files c' = files c5" "embeddings c' = embeddings c5 @ rows"
      "map e_chunkIndex rows = [0..<0 + length (splitIntoChunks content language)]"
      "map e_content rows = map c_content (splitIntoChunks content language)"
      "\<forall>r \<in> set rows. e_fileId r = fileId"
    using splitIntoChunks_symbolId by blast
  have db'': "db' = Some c'"
    using db' c5(1) emb(1) by (simp add: generateFileEmbeddings_def)
  have gf: "getFile db' rel = Inr (Some f)"
    using db'' emb(2) c5(2) files4 f(1) by (simp add: getFile_def)
  have rows: "getEmbeddingsByFile db' (f_id f) = Inr rows"
    using db'' emb(3) c5(3) emb4 f(2) filter_fileId_rows [OF emb(6) emb(4)]
    by (simp add: getEmbeddingsByFile_def)
  show ?thesis
    using gf rows emb(4,5)
    unfolding rel_def content_def language_def by auto
qed


lemma insert_symbols_ok:
  "\<not> foreign_keys c \<Longrightarrow> snd (insert_symbols (Some c) fileId syms) = None"
proof (induction syms arbitrary: c)
  case Nil
  then show ?case by simp
next
  case (Cons s syms)
  from Cons.prems obtain i c1 where
    "insertSymbol (Some c) (ParsedSymbol.extend s \<lparr>s_fileId = fileId\<rparr>) = Inr (i, Some c1)"
    and "\<not> foreign_keys c1"
    by (auto simp: insertSymbol_def Let_def)
  with Cons.IH [of c1] show ?case
    by (simp add: then_do_def)
qed

lemma insert_dependencies_ok:
  "\<not> foreign_keys c \<Longrightarrow> snd (insert_dependencies (Some c) fileId deps) = None"
proof (induction deps arbitrary: c)
  case Nil
  then show ?case by simp
next
  case (Cons d deps)
  obtain target where target: "getFile (Some c) (d_importPath d) = Inr target"
    by (simp add: getFile_def)
  from Cons.prems obtain i c1 where
    "insertDependency (Some c)
       (ParsedDependency.extend d
          \<lparr>d_sourceFileId = fileId, d_targetFileId = map_option f_id target\<rparr>) = Inr (i, Some c1)"
    and "\<not> foreign_keys c1"
    by (auto simp: insertDependency_def Let_def)
  with Cons.IH [of c1] target show ?case
    by (simp add: then_do_def)
qed

lemma index_symbols_and_dependencies_ok:
  assumes "\<not> foreign_keys c"
  shows "snd (index_symbols_and_dependencies (Some c) fileId content language relativePath) = None"
proof -
  obtain syms where syms: "parseSymbols (Some content) language = Inr syms"
    using parseSymbols_total by blast
  obtain deps where deps: "parseDependencies (Some content) language relativePath = Inr deps"
    using parseDependencies_total by blast
  obtain db1 e1 where s1: "insert_symbols (Some c) fileId syms = (db1, e1)"
    by (cases "insert_symbols (Some c) fileId syms")
  from insert_symbols_ok [OF assms, of fileId syms] s1 have e1: "e1 = None"
    by simp
  from insert_symbols_frame [OF s1] assms obtain c1 where c1: "db1 = Some c1" "\<not> foreign_keys c1"
    by auto
  show ?thesis
    using syms deps s1 e1 c1 insert_dependencies_ok [OF c1(2), of fileId deps]
    by (simp add: index_symbols_and_dependencies_def then_do_def)
qed

lemma indexFile_succeeds:
  assumes fs: "env_fs env filePath = Some stats" and fk: "\<not> foreign_keys c"
  shows "snd (indexFile env g (Some c) filePath repoPath) = None"
proof -
  define rel where "rel = relative (env_cwd env) repoPath filePath"
  define content where "content = fs_content stats"
  define language where "language = detectLanguage filePath"
  define fileRecord where
    "fileRecord = \<lparr>f_path = rel, f_content = content, f_hash = env_sha256 env content,
                    f_size = fs_size stats, f_language = language,
                    f_lastModified = fs_mtime stats\<rparr>"
  obtain fileId db1 where ins: "insertFile (Some c) (env_clock env rel) fileRecord = Inr (fileId, db1)"
    using insertFile_total by blast
  from insertFile_row [OF ins] fk obtain c1 where c1: "db1 = Some c1" "\<not> foreign_keys c1"
    by auto
  define c2 where "c2 = delete_symbols_where (\<lambda>s. s_fileId s = fileId) c1"
  define c3 where "c3 = c2\<lparr>dependencies := filter (\<lambda>d. d_sourceFileId d \<noteq> fileId) (dependencies c2)\<rparr>"
  define c4 where "c4 = c3\<lparr>embeddings := filter (\<lambda>e. e_fileId e \<noteq> fileId) (embeddings c3)\<rparr>"
  have fk4: "\<not> foreign_keys c4"
    using c1(2) by (simp add: c4_def c3_def c2_def delete_symbols_where_def Let_def)
  obtain db5 e5 where step:
    "(if isSupported language
      then index_symbols_and_dependencies (Some c4) fileId content language rel
      else (Some c4, None)) = (db5, e5)"
    by (metis surj_pair)
  have e5: "e5 = None"
    using step index_symbols_and_dependencies_ok [OF fk4, of fileId content language rel]
    by (auto split: if_splits)
  have "indexFile env g (Some c) filePath repoPath =
      (case e5 of
         Some e \<Rightarrow> (db5, Some e)
       | None \<Rightarrow> (generateFileEmbeddings env g db5 fileId content language, None))"
    using fs ins c1 step
    by (simp add: indexFile_def Let_def then_do_def rel_def [symmetric] content_def [symmetric]
        language_def [symmetric] fileRecord_def [symmetric] clearSymbolsByFile_def
        clearDependenciesByFile_def clearEmbeddingsByFile_def c2_def [symmetric]
        c3_def [symmetric] c4_def [symmetric])
  with e5 show ?thesis by simp
qed

text \<open>
  C6, as the code has it. The line ranges of the chunks follow one another from line 1 and
  stay within the text, and the content of a chunk is the text of its lines, joined by
  newlines and trimmed. A content that spans several lines holds at most 500 characters
  of line text, the separators not counted; a content that is a single line can be longer,
  since a line is never split. When \<^verbatim>\<open>indexFile\<close> returns without an error, the embeddings
  stored for the file carry the chunk indices 0, 1, 2, ... in order, one for each chunk.
\<close>

theorem chunks_line_aligned_and_numbered:
  "contiguous 1 (splitIntoChunks content language) \<and>
   (\<forall>c \<in> set (splitIntoChunks content language).
      c_endLine c \<le> length (split_lines content) \<and>
      c_content c =
        trim (join newline (js_slice (c_startLine c - 1) (c_endLine c) (split_lines content))) \<and>
      (CHR 0x0A \<notin> set (c_content c) \<or>
       length (filter (\<lambda>x. x \<noteq> CHR 0x0A) (c_content c)) \<le> maxChunkSize)) \<and>
   (env_fs env filePath = Some stats \<and> indexFile env g db filePath repoPath = (db', None) \<longrightarrow>
      (\<exists>f es. getFile db' (relative (env_cwd env) repoPath filePath) = Inr (Some f) \<and>
         getEmbeddingsByFile db' (f_id f) = Inr es \<and>
         map e_chunkIndex es =
           [0..<length (splitIntoChunks (fs_content stats) (detectLanguage filePath))] \<and>
         map e_content es =
           map c_content (splitIntoChunks (fs_content stats) (detectLanguage filePath))))"
  using splitIntoChunks_lines [of content language] indexFile_embeddings [of env filePath stats g db repoPath db']
  by blast

theorem chunks_line_aligned_and_numbered_witness:
  "env_fs chunk_env ''/repo/notes.txt'' = Some notes_stats \<and>
   snd (indexFile chunk_env (new_EmbeddingGenerator None None) initialize
          ''/repo/notes.txt'' ''/repo'') = None \<and>
   map (\<lambda>c. (c_startLine c, c_endLine c)) (splitIntoChunks long_lines ''unknown'') =
     [(1, 1), (2, 2)] \<and>
   (\<exists>f es.
      getFile (fst (indexFile chunk_env (new_EmbeddingGenerator None None) initialize
                      ''/repo/notes.txt'' ''/repo'')) ''notes.txt'' = Inr (Some f) \<and>
      getEmbeddingsByFile
        (fst (indexFile chunk_env (new_EmbeddingGenerator None None) initialize
                ''/repo/notes.txt'' ''/repo'')) (f_id f) = Inr es \<and>
      map e_chunkIndex es = [0, 1])"
proof -
  let ?g = "new_EmbeddingGenerator None None"
  have fs: "env_fs chunk_env ''/repo/notes.txt'' = Some notes_stats"
    by (simp add: chunk_env_def)
  have ranges: "map (\<lambda>c. (c_startLine c, c_endLine c)) (splitIntoChunks long_lines ''unknown'') =
      [(1, 1), (2, 2)]"
    by code_simp
  then have "length (map (\<lambda>c. (c_startLine c, c_endLine c)) (splitIntoChunks long_lines ''unknown'')) = 2"
    by simp
  then have two: "length (splitIntoChunks long_lines ''unknown'') = 2"
    by simp
  have "relative ''/repo'' ''/repo'' ''/repo/notes.txt'' = ''notes.txt''"
    by code_simp
  then have rel: "relative (env_cwd chunk_env) ''/repo'' ''/repo/notes.txt'' = ''notes.txt''"
    by (simp add: chunk_env_def)
  have lang: "detectLanguage ''/repo/notes.txt'' = ''unknown''"
    by code_simp
  have ok: "snd (indexFile chunk_env ?g initialize ''/repo/notes.txt'' ''/repo'') = None"
    using indexFile_succeeds [OF fs, of new_connection ?g "''/repo''"]
    by (simp add: initialize_def new_connection_def)
  then obtain db' where run:
    "indexFile chunk_env ?g initialize ''/repo/notes.txt'' ''/repo'' = (db', None)"
    by (cases "indexFile chunk_env ?g initialize ''/repo/notes.txt'' ''/repo''") simp
  from chunks_line_aligned_and_numbered
         [of long_lines "''unknown''" chunk_env "''/repo/notes.txt''" notes_stats ?g initialize
            "''/repo''" db']
       fs run
  obtain f es where "getFile db' ''notes.txt'' = Inr (Some f)"
    and "getEmbeddingsByFile db' (f_id f) = Inr es" and "map e_chunkIndex es = [0..<2]"
    unfolding rel lang by (auto simp: notes_stats_def two)
  moreover have "[0..<2] = [0, 1 :: nat]"
    by (simp add: upt_rec)
  ultimately have "\<exists>f es. getFile db' ''notes.txt'' = Inr (Some f) \<and>
      getEmbeddingsByFile db' (f_id f) = Inr es \<and> map e_chunkIndex es = [0, 1]"
    by auto
  with fs ok ranges run show ?thesis
    by simp
qed

text \<open>
  A text of one line of 501 characters is one chunk of 501 characters: the bound of 500
  characters on the content of a chunk does not hold.
\<close>

theorem chunk_longer_than_maximum:
  "map (\<lambda>c. length (c_content c)) (splitIntoChunks one_long_line ''typescript'') = [501] \<and>
   \<not> 501 \<le> maxChunkSize"
  by code_simp

section \<open>Ranking of search results\<close>

lemma js_ge_trans: "js_ge a b \<Longrightarrow> js_ge b c \<Longrightarrow> js_ge a c"
  by (cases a; cases b; cases c) simp_all

lemma js_ge_number: "js_ge a t \<Longrightarrow> a \<noteq> NaN"
  by (cases a) simp_all

lemma comparator_positive:
  "a \<noteq> NaN \<Longrightarrow> b \<noteq> NaN \<Longrightarrow> js_positive (js_sub b a) \<Longrightarrow> js_ge b a"
  by (cases a; cases b) (simp_all add: js_sub_def)

lemma comparator_not_positive:
  "a \<noteq> NaN \<Longrightarrow> b \<noteq> NaN \<Longrightarrow> \<not> js_positive (js_sub b a) \<Longrightarrow> js_ge a b"
  by (cases a; cases b) (simp_all add: js_sub_def)

lemma set_insert_by: "set (insert_by cmp x ys) = insert x (set ys)"
  by (induction ys) auto

lemma set_sort_by: "set (sort_by cmp xs) = set xs"
  unfolding sort_by_def by (induction xs) (simp_all add: set_insert_by)

lemma insert_by_falling:
  assumes "sorted_wrt (\<lambda>x y. js_ge (snd x) (snd y)) ys"
    and "snd x \<noteq> NaN" and "\<forall>y \<in> set ys. snd y \<noteq> NaN"
  shows "sorted_wrt (\<lambda>x y. js_ge (snd x) (snd y)) (insert_by (\<lambda>a b. js_sub (snd b) (snd a)) x ys)"
  using assms
proof (induction ys)
  case Nil
  then show ?case by simp
next
  case (Cons y ys)
  show ?case
  proof (cases "js_positive (js_sub (snd y) (snd x))")
    case True
    with Cons.prems have "js_ge (snd y) (snd x)"
      by (simp add: comparator_positive)
    with True Cons show ?thesis
      by (auto simp: set_insert_by)
  next
    case False
    with Cons.prems have first: "js_ge (snd x) (snd y)"
      by (simp add: comparator_not_positive)
    with Cons.prems have "\<forall>z \<in> set ys. js_ge (snd x) (snd z)"
      by (auto intro: js_ge_trans)
    with False first Cons.prems show ?thesis
      by simp
  qed
qed

lemma sort_by_falling:
  "\<forall>x \<in> set xs. snd x \<noteq> NaN \<Longrightarrow>
   sorted_wrt (\<lambda>x y. js_ge (snd x) (snd y)) (sort_by (\<lambda>a b. js_sub (snd b) (snd a)) xs)"
proof (induction xs)
  case Nil
  then show ?case by (simp add: sort_by_def)
next
  case (Cons x xs)
  then have "sorted_wrt (\<lambda>x y. js_ge (snd x) (snd y)) (sort_by (\<lambda>a b. js_sub (snd b) (snd a)) xs)"
    by simp
  from insert_by_falling [OF this, of x] Cons.prems show ?case
    by (simp add: sort_by_def set_sort_by [unfolded sort_by_def])
qed

lemma array_slice_to_take: "\<exists>n. array_slice_to e xs = take n xs"
proof (cases e)
  case (Fin x)
  then have "array_slice_to e xs =
      take (if js_trunc x < 0 then nat (int (length xs) + js_trunc x) else nat (js_trunc x)) xs"
    by (simp add: array_slice_to_def)
  then show ?thesis ..
next
  case PosInf
  then have "array_slice_to e xs = take (length xs) xs"
    by (simp add: array_slice_to_def)
  then show ?thesis ..
next
  case NegInf
  then have "array_slice_to e xs = take 0 xs"
    by (simp add: array_slice_to_def)
  then show ?thesis ..
next
  case NaN
  then have "array_slice_to e xs = take 0 xs"
    by (simp add: array_slice_to_def)
  then show ?thesis ..
qed


lemma sorted_wrt_drop_middle:
  "sorted_wrt P (xs @ y # ys) \<Longrightarrow> sorted_wrt P (xs @ ys)"
  by (auto simp: sorted_wrt_append)

lemma sorted_wrt_prefix:
  "sorted_wrt P (xs @ ys) \<Longrightarrow> sorted_wrt P xs"
  by (simp add: sorted_wrt_append)

lemma sorted_wrt_take': "sorted_wrt P xs \<Longrightarrow> sorted_wrt P (take n xs)"
  by (metis append_take_drop_id sorted_wrt_append)

lemma search_result_score:
  "search_result db query exts (embedding, score) = Inr (Some r) \<Longrightarrow> r_score r = score"
  by (auto simp: search_result_def bind_e_def Let_def split: sum.splits option.splits if_splits)

lemma build_results_cases:
  assumes "build_results db query limit exts ((embedding, score) # rest) acc = Inr res"
  obtains
    (skip) "build_results db query limit exts rest acc = Inr res"
  | (last) r where "r_score r = score"
      and "js_ge (Fin (real (length (acc @ [r])))) limit" and "res = acc @ [r]"
  | (more) r where "r_score r = score"
      and "\<not> js_ge (Fin (real (length (acc @ [r])))) limit"
      and "build_results db query limit exts rest (acc @ [r]) = Inr res"
proof (cases "search_result db query exts (embedding, score)")
  case (Inl e)
  with assms show ?thesis by (simp add: bind_e_def)
next
  case (Inr found)
  show ?thesis
  proof (cases found)
    case None
    with Inr assms have "build_results db query limit exts rest acc = Inr res"
      by (simp add: bind_e_def)
    then show ?thesis by (rule skip)
  next
    case (Some r)
    with Inr have score: "r_score r = score"
      by (simp add: search_result_score)
    show ?thesis
    proof (cases "js_ge (Fin (real (length (acc @ [r])))) limit")
      case True
      with Some Inr assms have "res = acc @ [r]"
        by (simp add: bind_e_def)
      with score True show ?thesis by (rule last)
    next
      case False
      with Some Inr assms have "build_results db query limit exts rest (acc @ [r]) = Inr res"
        by (simp add: bind_e_def)
      with score False show ?thesis by (rule more)
    qed
  qed
qed

lemma build_results_ranked:
  assumes "build_results db query limit exts cands acc = Inr res"
    and "sorted_wrt js_ge (map r_score acc @ map snd cands)"
    and "\<forall>r \<in> set acc. js_ge (r_score r) t"
    and "\<forall>x \<in> set cands. js_ge (snd x) t"
  shows "sorted_wrt js_ge (map r_score res) \<and> (\<forall>r \<in> set res. js_ge (r_score r) t)"
  using assms
proof (induction cands arbitrary: acc)
  case Nil
  then show ?case by simp
next
  case (Cons cand rest)
  obtain embedding score where cand: "cand = (embedding, score)"
    by (cases cand)
  from Cons.prems(2) have skip_sorted: "sorted_wrt js_ge (map r_score acc @ map snd rest)"
    using sorted_wrt_drop_middle [of js_ge "map r_score acc" "snd cand" "map snd rest"] by simp
  from Cons.prems(4) have rest_t: "\<forall>x \<in> set rest. js_ge (snd x) t" and score_t: "js_ge score t"
    using cand by simp_all
  from Cons.prems(1) [unfolded cand] show ?case
  proof (cases rule: build_results_cases)
    case skip
    from Cons.IH [OF skip skip_sorted Cons.prems(3) rest_t] show ?thesis .
  next
    case (last r)
    have "sorted_wrt js_ge (map r_score (acc @ [r]))"
      using Cons.prems(2) cand last(1)
        sorted_wrt_prefix [of js_ge "map r_score acc @ [score]" "map snd rest"]
      by simp
    moreover have "\<forall>x \<in> set (acc @ [r]). js_ge (r_score x) t"
      using Cons.prems(3) score_t last(1) by simp
    ultimately show ?thesis
      unfolding last(3) by (rule conjI)
  next
    case (more r)
    have falling: "sorted_wrt js_ge (map r_score (acc @ [r]) @ map snd rest)"
      using Cons.prems(2) cand more(1) by simp
    from score_t more(1) have "js_ge (r_score r) t"
      by (simp only:)
    with Cons.prems(3) have kept: "\<forall>x \<in> set (acc @ [r]). js_ge (r_score x) t"
      by simp
    from Cons.IH [OF more(3) falling kept rest_t] show ?thesis .
  qed
qed

lemma build_results_length:
  assumes "build_results db query (Fin (real n)) exts cands acc = Inr res"
    and "length acc < n \<or> (cands = [] \<and> length acc \<le> n)"
  shows "length res \<le> n"
  using assms
proof (induction cands arbitrary: acc)
  case Nil
  then show ?case by auto
next
  case (Cons cand rest)
  obtain embedding score where cand: "cand = (embedding, score)"
    by (cases cand)
  from Cons.prems(2) have lt: "length acc < n"
    by simp
  from Cons.prems(1) [unfolded cand] show ?case
  proof (cases rule: build_results_cases)
    case skip
    from Cons.IH [OF skip] lt show ?thesis by simp
  next
    case (last r)
    with lt show ?thesis by simp
  next
    case (more r)
    from more(2) have "length (acc @ [r]) < n"
      by simp
    with Cons.IH [OF more(3)] show ?thesis by simp
  qed
qed

text \<open>
  C5. The results of \<open>searchCode\<close> are ordered by falling score and every score is at least
  the threshold (0.7 when none is given), whatever numbers the limit and the threshold
  are. When the limit is a natural number there are at most that many results, and at
  most 10 when no limit is given.
\<close>

theorem searchCode_ranked:
  "sorted_wrt js_ge (map r_score (searchCode env g db query options)) \<and>
   (\<forall>r \<in> set (searchCode env g db query options).
      js_ge (r_score r) (case o_threshold options of None \<Rightarrow> Fin (7 / 10) | Some t \<Rightarrow> t)) \<and>
   (o_limit options = None \<longrightarrow> length (searchCode env g db query options) \<le> 10) \<and>
   (o_limit options = Some (Fin (real n)) \<longrightarrow> length (searchCode env g db query options) \<le> n)"
proof (cases "getAllEmbeddings db")
  case (Inl e)
  then show ?thesis
    by (simp add: searchCode_def bind_e_def)
next
  case (Inr embeddings)
  define limit where "limit = (case o_limit options of None \<Rightarrow> Fin 10 | Some l \<Rightarrow> l)"
  define threshold where
    "threshold = (case o_threshold options of None \<Rightarrow> Fin (7 / 10) | Some t \<Rightarrow> t)"
  define kept where
    "kept = filter (\<lambda>item. js_ge (snd item) threshold)
              (map (\<lambda>embedding.
                      (embedding,
                       cosineSimilarity (generateEmbedding env g query) (e_embedding embedding)))
                 embeddings)"
  define ranked where "ranked = sort_by (\<lambda>a b. js_sub (snd b) (snd a)) kept"
  define cands where "cands = array_slice_to (js_mul limit (Fin 2)) ranked"
  have result: "searchCode env g db query options =
      (case build_results db query limit (o_fileExtensions options) cands [] of
         Inl e \<Rightarrow> []
       | Inr results \<Rightarrow> results)"
    unfolding searchCode_def Let_def cands_def ranked_def kept_def limit_def threshold_def
    using Inr by (simp add: bind_e_def)
  show ?thesis
  proof (cases "build_results db query limit (o_fileExtensions options) cands []")
    case (Inl e)
    with result show ?thesis by simp
  next
    case (Inr res)
    obtain k where slice: "cands = take k ranked"
      unfolding cands_def using array_slice_to_take [of "js_mul limit (Fin 2)" ranked] by blast
    have kept_t: "\<forall>x \<in> set kept. js_ge (snd x) threshold"
      unfolding kept_def by simp
    then have "\<forall>x \<in> set kept. snd x \<noteq> NaN"
      using js_ge_number by blast
    then have "sorted_wrt (\<lambda>x y. js_ge (snd x) (snd y)) ranked"
      unfolding ranked_def by (rule sort_by_falling)
    then have "sorted_wrt (\<lambda>x y. js_ge (snd x) (snd y)) cands"
      unfolding slice by (rule sorted_wrt_take')
    then have falling: "sorted_wrt js_ge (map r_score [] @ map snd cands)"
      by (simp add: sorted_wrt_map)
    have above: "\<forall>x \<in> set cands. js_ge (snd x) threshold"
      using kept_t unfolding slice ranked_def
      by (auto dest!: in_set_takeD simp: set_sort_by)
    have none: "\<forall>r \<in> set ([] :: SearchResult list). js_ge (r_score r) threshold"
      by simp
    from result Inr have res: "searchCode env g db query options = res"
      by simp
    have ten: "length res \<le> 10" if "o_limit options = None"
    proof -
      from that have limit: "limit = Fin (real 10)"
        by (simp add: limit_def)
      have room: "length ([] :: SearchResult list) < 10 \<or>
                  (cands = [] \<and> length ([] :: SearchResult list) \<le> 10)"
        by simp
      from build_results_length [OF Inr [unfolded limit] room] show ?thesis .
    qed
    have bound: "length res \<le> n" if "o_limit options = Some (Fin (real n))"
    proof -
      from that have limit: "limit = Fin (real n)"
        by (simp add: limit_def)
      have "cands = []" if "n = 0"
        using that unfolding cands_def limit by (simp add: array_slice_to_def js_trunc_def)
      then have room: "length ([] :: SearchResult list) < n \<or>
                  (cands = [] \<and> length ([] :: SearchResult list) \<le> n)"
        by (cases n) simp_all
      from build_results_length [OF Inr [unfolded limit] room] show ?thesis .
    qed
    from build_results_ranked [OF Inr falling none above] ten bound show ?thesis
      unfolding res threshold_def by simp
  qed
qed

lemma sqrt_25: "sqrt 25 = 5"
  by (rule real_sqrt_unique) simp_all

lemma cosine_same: "cosineSimilarity [Fin 1, Fin 0] [Fin 1, Fin 0] = Fin 1"
  by (simp add: cosineSimilarity_def cosine_sums_def)

lemma cosine_orthogonal: "cosineSimilarity [Fin 1, Fin 0] [Fin 0, Fin 1] = Fin 0"
  by (simp add: cosineSimilarity_def cosine_sums_def)

lemma cosine_near: "cosineSimilarity [Fin 1, Fin 0] [Fin 4, Fin 3] = Fin (4 / 5)"
  by (simp add: cosineSimilarity_def cosine_sums_def sqrt_25)

lemmas search_store_defs =
  searchCode_def search_env_def search_gen_def search_store_def
  math_file_def vector_row_def new_EmbeddingGenerator_def or_default_def generateEmbedding_def
  getAllEmbeddings_def getAllFiles_def search_result_def store_defs Let_def
  sort_by_def js_sub_def array_slice_to_def js_trunc_def
  cosine_same cosine_orthogonal cosine_near

lemma search_store_scores:
  "map r_score (searchCode search_env search_gen search_store ''add'' search_options)
   = [Fin 1, Fin (4 / 5)]"
  by (simp add: search_store_defs search_options_def)

theorem searchCode_ranked_witness:
  "map r_score (searchCode search_env search_gen search_store ''add'' search_options)
     = [Fin 1, Fin (4 / 5)] \<and>
   sorted_wrt js_ge (map r_score (searchCode search_env search_gen search_store ''add'' search_options)) \<and>
   list_all (\<lambda>r. js_ge (r_score r) (Fin (7 / 10)))
     (searchCode search_env search_gen search_store ''add'' search_options) \<and>
   length (searchCode search_env search_gen search_store ''add'' search_options) \<le> 5"
  using searchCode_ranked [of search_env search_gen search_store "''add''" search_options 5]
    search_store_scores
  by (simp add: search_options_def list_all_iff)

text \<open>
  A limit that is not a whole number is passed by more results: with a limit of one half
  the candidates are cut to \<^verbatim>\<open>slice(0, 1)\<close>, and the loop stops only after the first
  \<^verbatim>\<open>push\<close>.
\<close>

theorem searchCode_more_than_limit:
  "o_limit half_options = Some (Fin (1 / 2)) \<and>
   length (searchCode search_env search_gen search_store ''add'' half_options) = 1 \<and>
   \<not> js_ge (Fin (1 / 2))
        (Fin (real (length (searchCode search_env search_gen search_store ''add'' half_options))))"
proof -
  have "map r_score (searchCode search_env search_gen search_store ''add'' half_options) = [Fin 1]"
    by (simp add: search_store_defs half_options_def)
  then have "length (searchCode search_env search_gen search_store ''add'' half_options) = 1"
    by (metis length_map list.size(3,4) One_nat_def add_0)
  then show ?thesis
    by (simp add: half_options_def)
qed

section \<open>Resolving an import\<close>

lemma scan_paths:
  "relative ''/repo'' ''/repo'' ''/repo/a.js'' = ''a.js''"
  "relative ''/repo'' ''/repo'' ''/repo/b.js'' = ''b.js''"
  "relative ''/work'' ''/repo'' ''/repo/a.js'' = ''a.js''"
  "relative ''/work'' ''/work'' ''/repo/a.js'' = ''../repo/a.js''"
  "detectLanguage ''/repo/a.js'' = ''javascript''"
  "detectLanguage ''/repo/b.js'' = ''javascript''"
  "isSupported ''javascript''"
  by code_simp+

lemma parsed_a:
  "parseSymbols (Some ''export const x = 1;'') ''javascript'' =
     Inr [\<lparr>s_name = ''x'', s_type = Variable, s_startLine = 1, s_endLine = 1,
           s_startColumn = 2, s_endColumn = 20,
           s_definition = ''export const x = 1;'', s_docstring = None,
           s_modifiers = [''export'', ''const'']\<rparr>]"
  "parseDependencies (Some ''export const x = 1;'') ''javascript'' ''a.js'' = Inr []"
  "splitIntoChunks ''export const x = 1;'' ''javascript'' =
     [\<lparr>c_content = ''export const x = 1;'', c_startLine = 1, c_endLine = 1, c_type = Code,
       c_symbolId = None\<rparr>]"
  by code_simp+

lemma parsed_b:
  "parseSymbols (Some ''import { x } from './a';'') ''javascript'' = Inr []"
  "parseDependencies (Some ''import { x } from './a';'') ''javascript'' ''b.js'' =
     Inr [\<lparr>d_importPath = ''./a'', d_importType = Import, d_isExternal = False,
           d_symbols = [''x'']\<rparr>]"
  "splitIntoChunks ''import { x } from './a';'' ''javascript'' =
     [\<lparr>c_content = ''import { x } from './a';'', c_startLine = 1, c_endLine = 1, c_type = Code,
       c_symbolId = None\<rparr>]"
  by code_simp+

lemmas scan_defs =
  indexRepository_def shouldProcessFile_def indexFile_def index_symbols_and_dependencies_def
  generateFileEmbeddings_def generateEmbedding_def then_do_def
  clearSymbolsByFile_def clearDependenciesByFile_def clearEmbeddingsByFile_def
  delete_symbols_where_def text_or_null_def update_file_def
  repo_env_def two_files_def module_a_def module_b_def
  search_gen_def new_EmbeddingGenerator_def or_default_def Let_def store_defs

text \<open>
  C2. In the repository of two files, indexed from its root, \<^verbatim>\<open>a.js\<close> before \<^verbatim>\<open>b.js\<close>, there is
  one dependency and its source is \<^verbatim>\<open>b.js\<close> (id 2); it is not external; but its target is
  \<^verbatim>\<open>NULL\<close> and not the id 1 of \<^verbatim>\<open>a.js\<close>. The path looked up among the stored paths is the
  one written in the import, \<^verbatim>\<open>./a\<close>, and the stored path of the file is \<^verbatim>\<open>a.js\<close>.
\<close>

theorem relative_import_not_resolved:
  "(case fst two_file_scan of
      None \<Rightarrow> False
    | Some c \<Rightarrow>
        map (\<lambda>f. (f_id f, f_path f)) (files c) = [(1, ''a.js''), (2, ''b.js'')] \<and>
        map (\<lambda>d. (d_sourceFileId d, d_importPath d, d_isExternal d, d_targetFileId d))
          (dependencies c) = [(2, ''./a'', False, None)]) \<and>
   snd two_file_scan = \<lparr>processed = 2, skipped = 0, errors = 0\<rparr>"
  by (simp add: two_file_scan_def scan_defs scan_paths parsed_a parsed_b)

section \<open>Scanning a repository twice\<close>

lemma first_scan_rows:
  "row_ids (fst first_scan) = ([(1, ''a.js'', 100, 200)], [1], [1])"
  "snd first_scan = \<lparr>processed = 1, skipped = 0, errors = 0\<rparr>"
  by (simp_all add: first_scan_def row_ids_def scan_defs scan_paths parsed_a)

text \<open>
  C3. The repository \<^verbatim>\<open>/repo\<close> is scanned from the working directory \<^verbatim>\<open>/work\<close>, and then
  scanned again without \<^verbatim>\<open>force\<close>, with the file system unchanged. The second scan does not
  skip \<^verbatim>\<open>a.js\<close>: it processes it, the row of the file gets a new time of indexing, and its
  symbol and its embedding are deleted and stored again under new ids.
  \<^verbatim>\<open>shouldProcessFile\<close> looks for the path relative to the working directory,
  \<^verbatim>\<open>../repo/a.js\<close>, and \<^verbatim>\<open>indexFile\<close> has stored the path relative to the root, \<^verbatim>\<open>a.js\<close>.
\<close>

theorem rescan_from_elsewhere_writes:
  "row_ids (fst first_scan) = ([(1, ''a.js'', 100, 200)], [1], [1]) \<and>
   env_fs (repo_env ''/work'' 300) = env_fs (repo_env ''/work'' 200) \<and>
   row_ids (fst second_scan) = ([(1, ''a.js'', 100, 300)], [2], [2]) \<and>
   snd second_scan = \<lparr>processed = 1, skipped = 0, errors = 0\<rparr>"
  by (simp add: second_scan_def first_scan_def row_ids_def scan_defs scan_paths parsed_a)

text \<open>
  When no file is to be processed a scan leaves the store as it is, and that is what a
  second scan from the root of the repository does.
\<close>

lemma scan_files_all_skipped:
  assumes "\<forall>filePath \<in> set found. \<not> shouldProcessFile env db filePath False"
  shows "scan_files env g repoPath False found (db, n)
         = (db, n\<lparr>skipped := skipped n + length found\<rparr>)"
  using assms by (induction found arbitrary: n) simp_all

lemma rescan_from_root_skips:
  "indexRepository (repo_env ''/repo'' 300) search_gen (fst two_file_scan) ''/repo'' False
     [''/repo/a.js'', ''/repo/b.js'']
   = (fst two_file_scan, \<lparr>processed = 0, skipped = 2, errors = 0\<rparr>)"
  by (simp add: two_file_scan_def scan_defs scan_paths parsed_a parsed_b)

section \<open>References\<close>

lemma all_or_none_member:
  "all_or_none (map f xs) = Some ys \<Longrightarrow> y \<in> set ys \<Longrightarrow>
   \<exists>x zs. x \<in> set xs \<and> f x = Some zs \<and> y \<in> set zs"
proof (induction xs arbitrary: ys)
  case Nil
  then show ?case by simp
next
  case (Cons x xs)
  from Cons.prems(1) obtain hd tl where hd: "f x = Some hd"
    and tl: "all_or_none (map f xs) = Some tl" and ys: "ys = hd @ tl"
    by (cases "f x") auto
  show ?case
  proof (cases "y \<in> set hd")
    case True
    with hd show ?thesis by auto
  next
    case False
    with Cons.prems(2) ys have "y \<in> set tl" by simp
    from Cons.IH [OF tl this] show ?thesis by auto
  qed
qed

lemma usages_in_line_outside:
  assumes "usages_in_line symbolRegex syms f il = Some rs" and "r \<in> set rs"
  shows "ref_file r = f \<and> ref_line r = fst il + 1 \<and> \<not> isDefinition syms f (fst il)"
proof -
  obtain lineIndex line where il: "il = (lineIndex, line)"
    by (cases il)
  from assms(1) il obtain starts
    where rs: "rs = concat (map (\<lambda>index.
                          if \<not> isDefinition syms f lineIndex
                          then [\<lparr>ref_file = f, ref_line = lineIndex + 1, ref_column = index + 1,
                                 ref_context = trim line, ref_type = Usage\<rparr>]
                          else [])
                        starts)"
    by (auto simp: usages_in_line_def)
  show ?thesis
  proof (cases "isDefinition syms f lineIndex")
    case True
    with rs assms(2) show ?thesis by simp
  next
    case False
    with rs assms(2) il show ?thesis by auto
  qed
qed

lemma usages_in_file_outside:
  assumes "usages_in_file symbolRegex syms f = Some rs" and "r \<in> set rs"
  shows "ref_file r = f \<and> (\<exists>lineIndex. ref_line r = lineIndex + 1 \<and> \<not> isDefinition syms f lineIndex)"
proof -
  from all_or_none_member [OF assms [unfolded usages_in_file_def]]
  obtain il zs where "usages_in_line symbolRegex syms f il = Some zs" and "r \<in> set zs"
    by blast
  from usages_in_line_outside [OF this]
  have "ref_file r = f" and "ref_line r = fst il + 1 \<and> \<not> isDefinition syms f (fst il)"
    by simp_all
  then show ?thesis
    by (intro conjI exI [of _ "fst il"]) simp_all
qed

lemma definitions_of_type:
  assumes "r \<in> set (definitions_of syms fls filePath)"
  shows "ref_type r = Definition"
proof -
  define entry :: "SymbolRecord \<Rightarrow> ReferenceResult list" where "entry = (\<lambda>symbol.
               case find (\<lambda>f. f_id f = s_fileId symbol) fls of
                 None \<Rightarrow> []
               | Some file \<Rightarrow>
                   if (case filePath of None \<Rightarrow> False | Some p \<Rightarrow> p \<noteq> [] \<and> f_path file \<noteq> p)
                   then []
                   else [\<lparr>ref_file = file, ref_line = s_startLine symbol,
                          ref_column = s_startColumn symbol,
                          ref_context = take 100 (s_definition symbol) @
                            (if length (s_definition symbol) > 100 then ''...'' else []),
                          ref_type = Definition\<rparr>])"
  have one: "ref_type x = Definition" if "x \<in> set (entry symbol)" for x symbol
  proof (cases "find (\<lambda>f. f_id f = s_fileId symbol) fls")
    case None
    with that show ?thesis by (simp add: entry_def)
  next
    case (Some fl)
    show ?thesis
    proof (cases "case filePath of None \<Rightarrow> False | Some p \<Rightarrow> p \<noteq> [] \<and> f_path fl \<noteq> p")
      case True
      with that Some show ?thesis by (simp add: entry_def)
    next
      case False
      with that Some have "x = \<lparr>ref_file = fl, ref_line = s_startLine symbol,
                          ref_column = s_startColumn symbol,
                          ref_context = take 100 (s_definition symbol) @
                            (if length (s_definition symbol) > 100 then ''...'' else []),
                          ref_type = Definition\<rparr>"
        by (simp add: entry_def)
      then show ?thesis by (simp only: ReferenceResult.select_convs)
    qed
  qed
  from assms have "r \<in> set (concat (map entry syms))"
    unfolding definitions_of_def entry_def .
  then obtain symbol where "r \<in> set (entry symbol)"
    by auto
  then show ?thesis by (rule one)
qed

lemma set_findSymbolsByName:
  "findSymbolsByName (Some c) name None = Inr syms \<Longrightarrow>
   set syms = {s \<in> set (symbols c). s_name s = name}"
  by (auto simp: findSymbolsByName_def)

lemma usage_outside_definition:
  assumes "getReferences RegExp (Some c) symbolName filePath = Some results"
    and "r \<in> set results" and "ref_type r = Usage"
    and "s \<in> set (symbols c)" and "s_name s = symbolName" and "s_fileId s = f_id (ref_file r)"
  shows "\<not> (s_startLine s \<le> ref_line r \<and> ref_line r \<le> s_endLine s)"
proof -
  obtain syms where syms: "findSymbolsByName (Some c) symbolName None = Inr syms"
    by (simp add: findSymbolsByName_def)
  obtain allFiles where allFiles: "getAllFiles (Some c) = Inr allFiles"
    by (simp add: getAllFiles_def)
  from assms(2) have nonempty: "results \<noteq> []" by auto
  obtain symbolRegex usages
    where usages: "all_or_none (map (usages_in_file symbolRegex syms) allFiles) = Some usages"
      and results: "results = definitions_of syms allFiles filePath @ usages"
  proof (cases "RegExp ([CHR 0x5C, CHR ''b''] @ symbolName @ [CHR 0x5C, CHR ''b''])")
    case (Inl e)
    with assms(1) syms allFiles have "results = []"
      unfolding getReferences_def by simp
    with nonempty show ?thesis by simp
  next
    case (Inr symbolRegex)
    with assms(1) syms allFiles
    have "map_option (\<lambda>usages. definitions_of syms allFiles filePath @ usages)
            (all_or_none (map (usages_in_file symbolRegex syms) allFiles)) = Some results"
      unfolding getReferences_def by simp
    then show ?thesis
      using that by blast
  qed
  have "r \<notin> set (definitions_of syms allFiles filePath)"
    using definitions_of_type [of r syms allFiles filePath] assms(3) by auto
  with assms(2) results have "r \<in> set usages" by simp
  from all_or_none_member [OF usages this]
  obtain f zs where "usages_in_file symbolRegex syms f = Some zs" and "r \<in> set zs"
    by blast
  from usages_in_file_outside [OF this]
  obtain lineIndex where f: "ref_file r = f" and line: "ref_line r = lineIndex + 1"
    and outside: "\<not> isDefinition syms f lineIndex"
    by (elim conjE exE)
  from assms(4,5) set_findSymbolsByName [OF syms] have "s \<in> set syms" by simp
  with outside have "\<not> (s_fileId s = f_id f \<and> lineIndex + 1 \<ge> s_startLine s \<and> lineIndex + 1 \<le> s_endLine s)"
    unfolding isDefinition_def by auto
  with assms(6) show ?thesis
    unfolding f line by simp
qed

lemma rx_run_bounds:
  "rx_run k pre s cs = Some (cs', e) \<Longrightarrow> length pre \<le> e \<and> e \<le> length pre + length s"
  by (induction k pre s cs rule: rx_run.induct) (auto split: option.splits if_splits)

lemma rx_word_advances:
  assumes "rx_run [R (rx_word (c # w))] pre s cs = Some (cs', e)"
  shows "length pre < e"
proof (cases s)
  case Nil
  with assms show ?thesis
    by (simp add: rx_word_def rx_seq_def rx_lit_def split: if_splits)
next
  case (Cons c' s')
  with assms have "rx_run [R (foldr Then (map (\<lambda>c. Cls (\<lambda>x. x = c)) w) Eps), R (Then WordB Eps)]
                     (c' # pre) s' cs = Some (cs', e)"
    by (simp add: rx_word_def rx_seq_def rx_lit_def split: if_splits)
  from rx_run_bounds [OF this] show ?thesis by simp
qed

lemma rx_search_advances:
  "rx_search (rx_word (c # w)) pre s = Some (start, e, cs) \<Longrightarrow>
   length pre < e \<and> e \<le> length pre + length s"
proof (induction s arbitrary: pre)
  case Nil
  then obtain cs' where "rx_run [R (rx_word (c # w))] pre [] [] = Some (cs', e)"
    by (auto split: option.splits)
  from rx_word_advances [OF this] rx_run_bounds [OF this] show ?case by simp
next
  case (Cons x s)
  show ?case
  proof (cases "rx_run [R (rx_word (c # w))] pre (x # s) []")
    case None
    with Cons.prems have "rx_search (rx_word (c # w)) (x # pre) s = Some (start, e, cs)"
      by simp
    from Cons.IH [OF this] show ?thesis by simp
  next
    case (Some found)
    obtain cs' e' where found: "found = (cs', e')"
      by (cases found)
    with Some Cons.prems have "e' = e"
      by simp
    with Some found have "rx_run [R (rx_word (c # w))] pre (x # s) [] = Some (cs', e)"
      by simp
    from rx_word_advances [OF this] rx_run_bounds [OF this] show ?thesis by simp
  qed
qed

lemma exec_all_returns: "\<exists>starts. exec_all (rx_word (c # w)) line lastIndex = Some starts"
proof (induction "length line - lastIndex" arbitrary: lastIndex rule: less_induct)
  case less
  show ?case
  proof (cases "rx_search (rx_word (c # w)) (rev (take lastIndex line)) (drop lastIndex line)")
    case None
    then show ?thesis
      by (subst exec_all.simps) simp
  next
    case (Some found)
    obtain start e cs where found: "found = (start, e, cs)"
      by (cases found)
    from rx_search_advances [OF Some [unfolded found]]
    have "min (length line) lastIndex < e" and "e \<le> length line"
      by auto
    then have later: "lastIndex < e" and closer: "length line - e < length line - lastIndex"
      by auto
    from less [OF closer] obtain rest where "exec_all (rx_word (c # w)) line e = Some rest"
      by blast
    with Some found later show ?thesis
      by (subst exec_all.simps) simp
  qed
qed

lemma all_or_none_total:
  "(\<And>x. x \<in> set xs \<Longrightarrow> \<exists>y. f x = Some y) \<Longrightarrow> \<exists>ys. all_or_none (map f xs) = Some ys"
proof (induction xs)
  case Nil
  show ?case by simp
next
  case (Cons x xs)
  from Cons.prems [of x] obtain y where y: "f x = Some y"
    by auto
  from Cons obtain ys where "all_or_none (map f xs) = Some ys"
    by auto
  with y show ?case by simp
qed

lemma usages_in_file_returns:
  "\<exists>usages. usages_in_file (rx_word (c # w)) syms f = Some usages"
  unfolding usages_in_file_def
proof (rule all_or_none_total)
  fix il :: "nat \<times> string"
  obtain lineIndex line where il: "il = (lineIndex, line)"
    by (cases il)
  from exec_all_returns [of c w line 0] obtain starts
    where "exec_all (rx_word (c # w)) line 0 = Some starts"
    by blast
  then show "\<exists>y. usages_in_line (rx_word (c # w)) syms f il = Some y"
    by (simp add: usages_in_line_def il)
qed

lemma getReferences_returns:
  assumes "symbolName \<noteq> []" and "list_all is_word symbolName"
  shows "\<exists>results. getReferences (RegExp_word symbolName) (Some c) symbolName filePath = Some results"
proof -
  from assms(1) obtain x w where name: "symbolName = x # w"
    by (cases symbolName) auto
  have usages: "\<exists>ys. all_or_none (map (usages_in_file (rx_word (x # w)) syms) fls) = Some ys" for syms fls
    by (rule all_or_none_total) (rule usages_in_file_returns)
  have regex: "RegExp_word symbolName ([CHR 0x5C, CHR ''b''] @ symbolName @ [CHR 0x5C, CHR ''b''])
               = Inr (rx_word symbolName)"
    using assms(2) by (simp add: RegExp_word_def)
  obtain syms where syms: "findSymbolsByName (Some c) symbolName None = Inr syms"
    by (simp add: findSymbolsByName_def)
  obtain allFiles where allFiles: "getAllFiles (Some c) = Inr allFiles"
    by (simp add: getAllFiles_def)
  from usages [of syms allFiles] obtain ys
    where "all_or_none (map (usages_in_file (rx_word symbolName) syms) allFiles) = Some ys"
    unfolding name by blast
  with syms allFiles regex show ?thesis
    unfolding getReferences_def by simp
qed

text \<open>
  C7. For a name made of letters, digits and underscores \<^verbatim>\<open>getReferences\<close> returns.
  Whatever the name, the store and the pattern that the name compiles to, a result of
  \<^verbatim>\<open>getReferences\<close> that is reported as a usage does not lie, in its file, on a line inside
  the span of a symbol of that name: the lines of a definition are reported as the
  definition only.
\<close>

theorem getReferences_usage_outside_definition:
  "(symbolName \<noteq> [] \<and> list_all is_word symbolName \<longrightarrow>
      (\<exists>results.
         getReferences (RegExp_word symbolName) (Some c) symbolName filePath = Some results)) \<and>
   (getReferences RegExp (Some c) symbolName filePath = Some results \<and>
    r \<in> set results \<and> ref_type r = Usage \<and>
    s \<in> set (symbols c) \<and> s_name s = symbolName \<and> s_fileId s = f_id (ref_file r) \<longrightarrow>
      \<not> (s_startLine s \<le> ref_line r \<and> ref_line r \<le> s_endLine s))"
proof (intro conjI impI)
  assume "symbolName \<noteq> [] \<and> list_all is_word symbolName"
  then have "symbolName \<noteq> []" and "list_all is_word symbolName"
    by simp_all
  then show "\<exists>results.
      getReferences (RegExp_word symbolName) (Some c) symbolName filePath = Some results"
    by (rule getReferences_returns)
next
  assume "getReferences RegExp (Some c) symbolName filePath = Some results \<and>
    r \<in> set results \<and> ref_type r = Usage \<and>
    s \<in> set (symbols c) \<and> s_name s = symbolName \<and> s_fileId s = f_id (ref_file r)"
  then have "getReferences RegExp (Some c) symbolName filePath = Some results"
    and "r \<in> set results" and "ref_type r = Usage"
    and "s \<in> set (symbols c)" and "s_name s = symbolName" and "s_fileId s = f_id (ref_file r)"
    by simp_all
  then show "\<not> (s_startLine s \<le> ref_line r \<and> ref_line r \<le> s_endLine s)"
    by (rule usage_outside_definition)
qed

theorem getReferences_usage_outside_definition_witness:
  "''add'' \<noteq> [] \<and> list_all is_word ''add'' \<and>
   getReferences (RegExp_word ''add'') (Some calc_connection) ''add'' None = Some calc_references \<and>
   map (\<lambda>r. (ref_type r, f_id (ref_file r), ref_line r)) calc_references
     = [(Definition, 1, 1), (Usage, 1, 4)] \<and>
   map (\<lambda>s. (s_name s, s_fileId s, s_startLine s, s_endLine s)) (symbols calc_connection)
     = [(''add'', 1, 1, 3)] \<and>
   \<not> (s_startLine (hd (symbols calc_connection)) \<le> ref_line (last calc_references) \<and>
      ref_line (last calc_references) \<le> s_endLine (hd (symbols calc_connection)))"
proof -
  note th = getReferences_usage_outside_definition
    [where symbolName = "''add''" and c = calc_connection and filePath = None
       and RegExp = "RegExp_word ''add''" and results = calc_references
       and r = "last calc_references" and s = "hd (symbols calc_connection)"]
  have name: "''add'' \<noteq> [] \<and> list_all is_word ''add''"
    by code_simp
  have run: "getReferences (RegExp_word ''add'') (Some calc_connection) ''add'' None
             = Some calc_references"
    by code_simp
  from th [THEN conjunct1] name
  have "\<exists>results.
      getReferences (RegExp_word ''add'') (Some calc_connection) ''add'' None = Some results"
    by (rule mp)
  have refs: "map (\<lambda>r. (ref_type r, f_id (ref_file r), ref_line r)) calc_references
              = [(Definition, 1, 1), (Usage, 1, 4)]"
    by code_simp
  have syms: "map (\<lambda>s. (s_name s, s_fileId s, s_startLine s, s_endLine s)) (symbols calc_connection)
              = [(''add'', 1, 1, 3)]"
    by code_simp
  from refs have "calc_references \<noteq> []"
    by auto
  then have r_in: "last calc_references \<in> set calc_references"
    by (rule last_in_set)
  have r_type: "ref_type (last calc_references) = Usage"
    by code_simp
  from syms have "symbols calc_connection \<noteq> []"
    by auto
  then have s_in: "hd (symbols calc_connection) \<in> set (symbols calc_connection)"
    by (rule hd_in_set)
  have s_name: "s_name (hd (symbols calc_connection)) = ''add''"
    by code_simp
  have s_file: "s_fileId (hd (symbols calc_connection)) = f_id (ref_file (last calc_references))"
    by code_simp
  from run r_in r_type s_in s_name s_file
  have "getReferences (RegExp_word ''add'') (Some calc_connection) ''add'' None
          = Some calc_references \<and>
        last calc_references \<in> set calc_references \<and> ref_type (last calc_references) = Usage \<and>
        hd (symbols calc_connection) \<in> set (symbols calc_connection) \<and>
        s_name (hd (symbols calc_connection)) = ''add'' \<and>
        s_fileId (hd (symbols calc_connection)) = f_id (ref_file (last calc_references))"
    by (intro conjI)
  with th [THEN conjunct2]
  have "\<not> (s_startLine (hd (symbols calc_connection)) \<le> ref_line (last calc_references) \<and>
      ref_line (last calc_references) \<le> s_endLine (hd (symbols calc_connection)))"
    by (rule mp)
  with name run refs syms show ?thesis
    by (intro conjI) simp_all
qed

end
